(* ===== verification/Prelude.thy ===== *)
theory Prelude
  imports Complex_Main "HOL-Library.Word"
begin

text \<open>
  Shared vocabulary of the palletizer SDK model: the Go machine types the structs use
  (\<open>int\<close> as a 64-bit word, \<open>uint32\<close>, slices that may be \<open>nil\<close>), the bind of the
  error-or-value sum that models Go's \<open>if err != nil { return ... }\<close> chains, and
  \<open>fmt\<close>'s rendering of an integer with \<open>%d\<close>.
\<close>

named_theorems wire_simps "equations that evaluate the JSON mapping of the SDK's structs"

text \<open>Numbers read from words stay \<open>of_int (sint w)\<close> and \<open>of_nat (unat w)\<close>.\<close>
declare of_int_sint [simp del] of_nat_unat [simp del] of_int_uint [simp del]

type_synonym go_int = "64 word"
type_synonym go_uint32 = "32 word"

text \<open>A Go slice: \<open>None\<close> is the \<open>nil\<close> slice, \<open>Some xs\<close> a non-nil one (possibly empty).\<close>
type_synonym 'a slice = "'a list option"

text \<open>\<open>for _, x := range s\<close> visits the elements of a slice in order, none for \<open>nil\<close>;
  \<open>len(s)\<close> is an \<open>int\<close>.\<close>

definition slice_elems :: "'a slice \<Rightarrow> 'a list" where
  "slice_elems s = (case s of None \<Rightarrow> [] | Some xs \<Rightarrow> xs)"

definition go_len :: "'a slice \<Rightarrow> go_int" where
  "go_len s = of_nat (length (slice_elems s))"

section \<open>Error-or-value sequencing\<close>

definition sbind :: "'e + 'a \<Rightarrow> ('a \<Rightarrow> 'e + 'b) \<Rightarrow> 'e + 'b" where
  "sbind m f = (case m of Inl e \<Rightarrow> Inl e | Inr a \<Rightarrow> f a)"

section \<open>\<open>fmt\<close> verb \<open>%d\<close>\<close>

definition decimal_digits :: string where
  "decimal_digits = ''0123456789''"

definition digit_char :: "nat \<Rightarrow> char" where
  "digit_char d = decimal_digits ! d"

fun dec_digits :: "nat \<Rightarrow> string" where
  "dec_digits n =
     (if n < 10 then [digit_char n] else dec_digits (n div 10) @ [digit_char (n mod 10)])"

declare dec_digits.simps [simp del]

definition fmt_d :: "int \<Rightarrow> string" where
  "fmt_d i = (if i < 0 then CHR ''-'' # dec_digits (nat (- i)) else dec_digits (nat i))"

section \<open>Lemmas\<close>

lemma sbind_Inl [simp]: "sbind (Inl e) f = Inl e"
  by (simp add: sbind_def)

lemma sbind_Inr [simp]: "sbind (Inr a) f = f a"
  by (simp add: sbind_def)

lemma sbind_eq_Inr_conv: "sbind m f = Inr b \<longleftrightarrow> (\<exists>a. m = Inr a \<and> f a = Inr b)"
  by (cases m) (simp_all add: sbind_def)

lemma sbind_eq_Inl_conv:
  "sbind m f = Inl e \<longleftrightarrow> m = Inl e \<or> (\<exists>a. m = Inr a \<and> f a = Inl e)"
  by (cases m) (simp_all add: sbind_def)

lemma map_sum_eq_Inr_conv: "map_sum g h m = Inr b \<longleftrightarrow> (\<exists>a. m = Inr a \<and> b = h a)"
  by (cases m) auto

lemma map_sum_eq_Inl_conv: "map_sum g h m = Inl e \<longleftrightarrow> (\<exists>a. m = Inl a \<and> e = g a)"
  by (cases m) auto

lemma slice_elems_simps [simp]: "slice_elems None = []" "slice_elems (Some xs) = xs"
  by (simp_all add: slice_elems_def)

lemmas sum_conv = sbind_eq_Inr_conv sbind_eq_Inl_conv map_sum_eq_Inr_conv map_sum_eq_Inl_conv

lemma dec_digits_nonempty: "dec_digits n \<noteq> []"
  by (subst dec_digits.simps) simp

lemma digit_char_digit: "d < 10 \<Longrightarrow> digit_char d \<in> set decimal_digits"
  unfolding digit_char_def by (rule nth_mem) (simp add: decimal_digits_def)

lemma dec_digits_digits: "set (dec_digits n) \<subseteq> set decimal_digits"
proof (induction n rule: dec_digits.induct)
  case (1 n)
  show ?case
  proof (cases "n < 10")
    case True
    then show ?thesis by (subst dec_digits.simps) (simp add: digit_char_digit)
  next
    case False
    with "1.IH" show ?thesis
      by (subst dec_digits.simps) (simp add: digit_char_digit)
  qed
qed

section \<open>Lists of fixed-length blocks\<close>

lemma length_concat_blocks:
  assumes "\<forall>x \<in> set xs. length (f x) = k"
  shows "length (concat (map f xs)) = k * length xs"
  using assms by (induction xs) auto

lemma nth_concat_blocks:
  assumes "\<forall>x \<in> set xs. length (f x) = k" and "i < length xs" and "j < k"
  shows "concat (map f xs) ! (k * i + j) = f (xs ! i) ! j"
  using assms
proof (induction xs arbitrary: i)
  case Nil
  then show ?case by simp
next
  case (Cons x xs)
  show ?case
  proof (cases i)
    case 0
    with Cons.prems show ?thesis by (simp add: nth_append)
  next
    case (Suc i')
    have "k * i + j = k + (k * i' + j)" using Suc by simp
    with Cons.prems Cons.IH [of i'] Suc show ?thesis by (simp add: nth_append)
  qed
qed

end
