(* ===== verification/Rounding.thy ===== *)
theory Rounding
  imports Prelude
begin

text \<open>
  IEEE 754 binary64 rounding to nearest, ties to even, the rounding of every \<open>float64\<close>
  operation and constant in Go. \<open>round64 r\<close> is the double nearest the real \<open>r\<close>
  (subnormals included, range not checked): \<open>exponent_of\<close> finds the binade of
  \<open>|r|\<close> by halving (\<open>log2_floor\<close>) so that the definition evaluates on literals,
  \<open>ulp_exp\<close> is the exponent of the unit in the last place (at least that of the least
  subnormal, \<open>2\<^sup>-\<^sup>1\<^sup>0\<^sup>7\<^sup>4\<close>), and \<open>round_even\<close> rounds to an integer with
  ties to even. The lemmas: the binade bounds, the error bound (half an ulp; relative
  \<open>2\<^sup>-\<^sup>5\<^sup>3\<close> plus absolute \<open>2\<^sup>-\<^sup>1\<^sup>0\<^sup>7\<^sup>5\<close>), that rounding returns doubles and leaves
  doubles alone, that doubles are closed under negation, and that below
  \<open>float64_limit\<close> the result stays below it.
\<close>

text \<open>\<open>\<lfloor>log\<^sub>2 n\<rfloor>\<close> for \<open>n \<ge> 1\<close>, by halving.\<close>

fun log2_floor :: "nat \<Rightarrow> nat" where
  "log2_floor n = (if n < 2 then 0 else Suc (log2_floor (n div 2)))"

declare log2_floor.simps [simp del]

definition log2_ceil :: "nat \<Rightarrow> nat" where
  "log2_ceil n = (if n \<le> 1 then 0 else Suc (log2_floor (n - 1)))"

text \<open>\<open>\<lfloor>log\<^sub>2 x\<rfloor>\<close> for \<open>x > 0\<close>: from the integer part above 1, from the
  ceiling of the reciprocal below.\<close>

definition exponent_of :: "real \<Rightarrow> int" where
  "exponent_of x =
     (if 1 \<le> x then int (log2_floor (nat \<lfloor>x\<rfloor>)) else - int (log2_ceil (nat \<lceil>1 / x\<rceil>)))"

definition ulp_exp :: "real \<Rightarrow> int" where
  "ulp_exp r = max (exponent_of \<bar>r\<bar>) (- 1022) - 52"

definition round_even :: "real \<Rightarrow> int" where
  "round_even y =
     (let f = \<lfloor>y\<rfloor> in
      if y - of_int f < 1 / 2 then f else if 1 / 2 < y - of_int f then f + 1
      else if even f then f else f + 1)"

definition round64 :: "real \<Rightarrow> real" where
  "round64 r =
     (if r = 0 then 0
      else of_int (round_even (r / power_int 2 (ulp_exp r))) * power_int 2 (ulp_exp r))"

text \<open>Half an ulp above the largest finite double: the smallest magnitude that rounds to an
  infinity.\<close>

definition float64_limit :: real where
  "float64_limit = 2 ^ 1024 - 2 ^ 970"

text \<open>Half the least subnormal: the absolute part of the rounding error.\<close>

definition eta64 :: real where
  "eta64 = 1 / 2 ^ 1075"

section \<open>Lemmas\<close>

lemma log2_floor_eval: "log2_floor n = (if n < 2 then 0 else Suc (log2_floor (n div 2)))"
  by (rule log2_floor.simps)

text \<open>The equations that evaluate \<open>round64\<close> on a literal.\<close>

lemmas round64_eval = round64_def ulp_exp_def exponent_of_def round_even_def log2_floor_eval
  log2_ceil_def Let_def

lemma log2_floor_bounds: "1 \<le> n \<Longrightarrow> 2 ^ log2_floor n \<le> n \<and> n < 2 ^ Suc (log2_floor n)"
proof (induction n rule: log2_floor.induct)
  case (1 n)
  show ?case
  proof (cases "n < 2")
    case True
    with "1.prems" show ?thesis by (simp add: log2_floor_eval)
  next
    case False
    with "1.IH" have ih: "2 ^ log2_floor (n div 2) \<le> n div 2" "n div 2 < 2 ^ Suc (log2_floor (n div 2))"
      by simp_all
    have eq: "log2_floor n = Suc (log2_floor (n div 2))"
      by (subst log2_floor_eval) (use False in simp)
    have "n = 2 * (n div 2) + n mod 2" "n mod 2 < 2" by simp_all
    with ih show ?thesis unfolding eq by (simp only: power_Suc) linarith
  qed
qed

lemma exponent_of_bounds:
  assumes "0 < x"
  shows "power_int 2 (exponent_of x) \<le> x \<and> x < power_int 2 (exponent_of x + 1)"
proof (cases "1 \<le> x")
  case True
  define n where "n = nat \<lfloor>x\<rfloor>"
  have n1: "1 \<le> n" using True by (simp add: n_def le_nat_floor)
  have nx: "real n \<le> x" "x < real n + 1" using True by (simp_all add: n_def)
  from log2_floor_bounds [OF n1]
  have "2 ^ log2_floor n \<le> n" "n + 1 \<le> 2 ^ Suc (log2_floor n)" by auto
  then have "real (2 ^ log2_floor n) \<le> real n" "real (n + 1) \<le> real (2 ^ Suc (log2_floor n))"
    by (simp_all only: of_nat_le_iff)
  then have a: "(2::real) ^ log2_floor n \<le> real n" and b: "real n + 1 \<le> 2 ^ Suc (log2_floor n)"
    by (simp_all only: of_nat_power of_nat_numeral of_nat_add of_nat_1)
  have e: "exponent_of x = int (log2_floor n)" using True by (simp add: exponent_of_def n_def)
  have p: "power_int (2::real) (int (log2_floor n)) = 2 ^ log2_floor n"
    "power_int (2::real) (int (log2_floor n) + 1) = 2 ^ Suc (log2_floor n)"
    by (simp_all add: power_int_add)
  show ?thesis unfolding e p using a b nx by linarith
next
  case False
  define y where "y = 1 / x"
  define m where "m = nat \<lceil>y\<rceil>"
  have y1: "1 < y" using False assms by (simp add: y_def)
  have m2: "2 \<le> m" using y1 by (simp add: m_def) linarith
  have my: "y \<le> real m" "real m - 1 < y" using y1 by (simp_all add: m_def) linarith+
  define l where "l = log2_floor (m - 1)"
  from log2_floor_bounds [of "m - 1"] m2 have "2 ^ l \<le> m - 1" "m - 1 < 2 ^ Suc l"
    by (simp_all add: l_def)
  then have "2 ^ l + 1 \<le> m" "m \<le> 2 ^ Suc l" using m2 by linarith+
  then have "real (2 ^ l + 1) \<le> real m" "real m \<le> real (2 ^ Suc l)"
    by (simp_all only: of_nat_le_iff)
  then have lo: "(2::real) ^ l \<le> real m - 1" and hi: "real m \<le> 2 ^ Suc l"
    by simp_all
  have e: "exponent_of x = - int (Suc l)"
    using False m2 y1 by (simp add: exponent_of_def log2_ceil_def m_def y_def l_def)
  have xy: "x = 1 / y" using assms by (simp add: y_def)
  have a: "1 / (2::real) ^ Suc l \<le> x" unfolding xy using hi my(1) y1
    by (intro divide_left_mono) auto
  have b: "x < 1 / (2::real) ^ l" unfolding xy using lo my(2) y1
    by (intro divide_strict_left_mono) auto
  have "- int (Suc l) + 1 = - int l" by simp
  then have p: "power_int (2::real) (- int (Suc l)) = 1 / 2 ^ Suc l"
    "power_int (2::real) (- int (Suc l) + 1) = 1 / 2 ^ l"
    by (simp_all only: power_int_minus_divide power_int_of_nat)
  show ?thesis unfolding e p using a b by simp
qed

lemma power_int_2_pos [simp]: "0 < power_int (2::real) k"
  by simp

lemma exponent_of_unique:
  assumes "power_int 2 k \<le> x" and "x < power_int 2 (k + 1)"
  shows "exponent_of x = k"
proof -
  have x: "0 < x" using assms(1) power_int_2_pos [of k] by linarith
  note b = exponent_of_bounds [OF x]
  show ?thesis
  proof (rule ccontr)
    assume "exponent_of x \<noteq> k"
    then consider "exponent_of x + 1 \<le> k" | "k + 1 \<le> exponent_of x" by linarith
    then show False
    proof cases
      case 1
      then have "power_int (2::real) (exponent_of x + 1) \<le> power_int 2 k"
        by (intro power_int_increasing) simp_all
      with b assms(1) show False by linarith
    next
      case 2
      then have "power_int (2::real) (k + 1) \<le> power_int 2 (exponent_of x)"
        by (intro power_int_increasing) simp_all
      with b assms(2) show False by linarith
    qed
  qed
qed

lemma int_le_of_less_half: "of_int a < of_int b + (1::real) / 2 \<Longrightarrow> a \<le> b"
proof (rule ccontr)
  assume "of_int a < of_int b + (1::real) / 2" and "\<not> a \<le> b"
  then have "of_int b + 1 \<le> (of_int a :: real)" by (simp add: int_less_real_le [symmetric])
  with \<open>of_int a < of_int b + 1 / 2\<close> show False by linarith
qed

lemma round_even_le: "y < of_int M + 1 / 2 \<Longrightarrow> round_even y \<le> M"
proof -
  assume y: "y < of_int M + 1 / 2"
  have f: "of_int \<lfloor>y\<rfloor> \<le> y" "y < of_int \<lfloor>y\<rfloor> + 1" by linarith+
  have "\<lfloor>y\<rfloor> \<le> M" using f y by (intro int_le_of_less_half) linarith
  moreover have "1 / 2 \<le> y - of_int \<lfloor>y\<rfloor> \<Longrightarrow> \<lfloor>y\<rfloor> + 1 \<le> M"
  proof -
    assume "1 / 2 \<le> y - of_int \<lfloor>y\<rfloor>"
    with y have "of_int \<lfloor>y\<rfloor> < (of_int M :: real)" by linarith
    then show ?thesis by simp
  qed
  ultimately show ?thesis by (auto simp: round_even_def Let_def)
qed

lemma round_even_ge: "of_int M - 1 / 2 < y \<Longrightarrow> M \<le> round_even y"
proof -
  assume y: "of_int M - 1 / 2 < y"
  have f: "of_int \<lfloor>y\<rfloor> \<le> y" "y < of_int \<lfloor>y\<rfloor> + 1" by linarith+
  have "of_int M < of_int \<lfloor>y\<rfloor> + (3::real) / 2" using f y by linarith
  then have "of_int M < of_int (\<lfloor>y\<rfloor> + 1) + (1::real) / 2" by simp
  then have "M \<le> \<lfloor>y\<rfloor> + 1" by (rule int_le_of_less_half)
  moreover have "y - of_int \<lfloor>y\<rfloor> \<le> 1 / 2 \<Longrightarrow> M \<le> \<lfloor>y\<rfloor>"
  proof -
    assume "y - of_int \<lfloor>y\<rfloor> \<le> 1 / 2"
    with y have "of_int M < of_int \<lfloor>y\<rfloor> + (1::real)" by linarith
    then have "(of_int M :: real) < of_int (\<lfloor>y\<rfloor> + 1)" by simp
    then show ?thesis by (simp only: of_int_less_iff)
  qed
  ultimately show ?thesis by (auto simp: round_even_def Let_def)
qed

lemma round_even_int [simp]: "round_even (of_int n) = n"
  using round_even_le [of "of_int n" n] round_even_ge [of n "of_int n"] by simp

lemma round_even_err: "\<bar>of_int (round_even y) - y\<bar> \<le> 1 / 2"
proof -
  have f: "of_int \<lfloor>y\<rfloor> \<le> y" "y < of_int \<lfloor>y\<rfloor> + 1" by linarith+
  then show ?thesis by (auto simp: round_even_def Let_def abs_le_iff)
qed

lemma round64_0 [simp]: "round64 0 = 0"
  by (simp add: round64_def)

lemma round64_err: "\<bar>round64 r - r\<bar> \<le> power_int 2 (ulp_exp r) / 2"
proof (cases "r = 0")
  case False
  define q where "q = power_int (2::real) (ulp_exp r)"
  have q: "0 < q" by (simp add: q_def)
  have "round64 r - r = (of_int (round_even (r / q)) - r / q) * q"
    using False q by (simp add: round64_def q_def [symmetric] algebra_simps)
  then have "\<bar>round64 r - r\<bar> = \<bar>of_int (round_even (r / q)) - r / q\<bar> * q"
    using q by (simp add: abs_mult)
  also have "\<dots> \<le> 1 / 2 * q" using q round_even_err [of "r / q"] by (intro mult_right_mono) simp_all
  finally show ?thesis by (simp add: q_def)
qed simp

lemma half_ulp_le: "r \<noteq> 0 \<Longrightarrow> power_int 2 (ulp_exp r) / 2 \<le> \<bar>r\<bar> / 2 ^ 53 + 1 / 2 ^ 1075"
proof -
  assume "r \<noteq> 0"
  then have b: "power_int 2 (exponent_of \<bar>r\<bar>) \<le> \<bar>r\<bar>" using exponent_of_bounds [of "\<bar>r\<bar>"] by simp
  show ?thesis
  proof (cases "- 1022 \<le> exponent_of \<bar>r\<bar>")
    case True
    then have "power_int (2::real) (ulp_exp r) / 2 = power_int 2 (exponent_of \<bar>r\<bar>) / 2 ^ 53"
      by (simp add: ulp_exp_def power_int_diff)
    with b show ?thesis by (simp add: divide_right_mono add_increasing2)
  next
    case False
    then have "ulp_exp r = - 1074" by (simp add: ulp_exp_def)
    then show ?thesis by (simp add: power_int_minus_divide)
  qed
qed

text \<open>The rounding error: half a unit in the last place, at most a relative
  \<open>2\<^sup>-\<^sup>5\<^sup>3\<close> for normal results and an absolute \<open>2\<^sup>-\<^sup>1\<^sup>0\<^sup>7\<^sup>5\<close> for subnormal ones.\<close>

lemma round64_rel_err: "\<bar>round64 r - r\<bar> \<le> \<bar>r\<bar> / 2 ^ 53 + 1 / 2 ^ 1075"
proof (cases "r = 0")
  case False
  with round64_err [of r] half_ulp_le [of r] show ?thesis by linarith
qed simp

lemma power_int_2_le_iff [simp]: "power_int (2::real) a \<le> power_int 2 b \<longleftrightarrow> a \<le> b"
proof
  assume le: "power_int (2::real) a \<le> power_int 2 b"
  show "a \<le> b"
  proof (rule ccontr)
    assume "\<not> a \<le> b"
    then have "power_int (2::real) b < power_int 2 a" by (intro power_int_strict_increasing) simp_all
    with le show False by simp
  qed
next
  assume "a \<le> b"
  then show "power_int (2::real) a \<le> power_int 2 b" by (intro power_int_increasing) simp_all
qed

lemma power_int_2_less_iff [simp]: "power_int (2::real) a < power_int 2 b \<longleftrightarrow> a < b"
  using power_int_2_le_iff [of b a] by (simp add: not_le [symmetric])

text \<open>A multiple of \<open>2\<^sup>e\<close> by at most \<open>2\<^sup>5\<^sup>3\<close>, with \<open>e\<close> at least the exponent of the
  least subnormal, is a double: rounding leaves it alone.\<close>

lemma round64_grid:
  assumes x: "x = of_int n * power_int 2 e" and e: "- 1074 \<le> e" and n: "\<bar>n\<bar> \<le> 2 ^ 53"
  shows "round64 x = x"
proof (cases "n = 0")
  case False
  define k where "k = exponent_of \<bar>x\<bar>"
  define v where "v = ulp_exp x"
  have pe: "0 < power_int (2::real) e" by simp
  have ax: "\<bar>x\<bar> = of_int \<bar>n\<bar> * power_int 2 e" using x by (simp add: abs_mult)
  have "1 \<le> \<bar>n\<bar>" using False by linarith
  then have lo: "power_int 2 e \<le> \<bar>x\<bar>" using ax pe by simp
  have "(of_int \<bar>n\<bar> :: real) \<le> of_int (2 ^ 53)" using n by (simp only: of_int_le_iff)
  then have "of_int \<bar>n\<bar> \<le> (2::real) ^ 53" by simp
  then have hi: "\<bar>x\<bar> \<le> power_int 2 (e + 53)" using ax pe by (simp add: power_int_add)
  have x0: "0 < \<bar>x\<bar>" using lo pe by linarith
  note kb = exponent_of_bounds [OF x0, folded k_def]
  have "e \<le> k"
  proof (rule ccontr)
    assume "\<not> e \<le> k"
    then have "power_int (2::real) (k + 1) \<le> power_int 2 e" by simp
    with kb lo show False by linarith
  qed
  have "k \<le> e + 53"
  proof (rule ccontr)
    assume "\<not> k \<le> e + 53"
    then have "power_int (2::real) (e + 53) < power_int 2 k" by simp
    with kb hi show False by linarith
  qed
  have v: "v = max k (- 1022) - 52" by (simp add: v_def ulp_exp_def k_def)
  have "\<exists>m. x = of_int m * power_int 2 v"
  proof (cases "v \<le> e")
    case True
    have "power_int (2::real) e = power_int 2 (e - v) * power_int 2 v"
      by (simp add: power_int_add [symmetric])
    also have "power_int (2::real) (e - v) = of_int (2 ^ nat (e - v))"
      using True by (simp add: power_int_def)
    finally show ?thesis using x by (intro exI [of _ "n * 2 ^ nat (e - v)"]) simp
  next
    case False
    with v e \<open>k \<le> e + 53\<close> have k: "k = e + 53" and ve: "v = e + 1" by linarith+
    with kb hi have "\<bar>x\<bar> = power_int 2 (e + 53)" by simp
    with ax pe have "of_int \<bar>n\<bar> = (2::real) ^ 53" by (simp add: power_int_add)
    then have "(of_int \<bar>n\<bar> :: real) = of_int (2 ^ 53)" by simp
    then have "\<bar>n\<bar> = 2 ^ 53" by (simp only: of_int_eq_iff)
    then have "n = 2 ^ 53 \<or> n = - (2 ^ 53)" by (auto simp: abs_if split: if_splits)
    then have "n = 2 * (n div 2)" by auto
    then have "x = of_int (n div 2) * power_int 2 v"
      using x ve by (simp add: power_int_add)
    then show ?thesis by blast
  qed
  then obtain m where m: "x = of_int m * power_int 2 v" by blast
  have q: "x / power_int 2 v = of_int m" using m by simp
  have "round64 x = of_int (round_even (x / power_int 2 v)) * power_int 2 v"
    using x0 by (simp add: round64_def v_def)
  also have "\<dots> = x" using q m by simp
  finally show ?thesis .
qed (simp add: x)

lemma ulp_exp_ge: "- 1074 \<le> ulp_exp r"
  by (simp add: ulp_exp_def)

lemma abs_div_ulp_less: "r \<noteq> 0 \<Longrightarrow> \<bar>r / power_int 2 (ulp_exp r)\<bar> < 2 ^ 53"
proof -
  assume r: "r \<noteq> 0"
  define k where "k = exponent_of \<bar>r\<bar>"
  define u where "u = ulp_exp r"
  have "\<bar>r\<bar> < power_int 2 (k + 1)" using exponent_of_bounds [of "\<bar>r\<bar>"] r by (simp add: k_def)
  moreover have "k + 1 - u \<le> 53" by (simp add: u_def ulp_exp_def k_def)
  then have "power_int (2::real) (k + 1) \<le> 2 ^ 53 * power_int 2 u"
    by (metis diff_add_cancel power_int_2_le_iff power_int_add power_int_numeral
        mult.commute mult_le_cancel_right_pos power_int_2_pos zero_neq_numeral)
  ultimately have "\<bar>r\<bar> < 2 ^ 53 * power_int 2 u" by linarith
  then show ?thesis by (simp add: u_def [symmetric] abs_divide pos_divide_less_eq)
qed

lemma round_even_abs_le: "\<bar>y\<bar> < 2 ^ 53 \<Longrightarrow> \<bar>round_even y\<bar> \<le> 2 ^ 53"
proof -
  assume y: "\<bar>y\<bar> < 2 ^ 53"
  then have "y < of_int (2 ^ 53) + 1 / 2" "of_int (- (2 ^ 53)) - 1 / 2 < y" by (simp_all add: abs_less_iff)
  from round_even_le [OF this(1)] round_even_ge [OF this(2)] show ?thesis by (simp add: abs_le_iff)
qed

text \<open>Every rounded value is a double: a multiple of a power of two no smaller than the
  least subnormal, by an integer of at most 53 bits.\<close>

lemma round64_grid_form:
  "\<exists>n e. round64 r = of_int n * power_int 2 e \<and> - 1074 \<le> e \<and> \<bar>n\<bar> \<le> 2 ^ 53"
proof (cases "r = 0")
  case True
  then show ?thesis by (intro exI [of _ 0] exI [of _ 0]) simp
next
  case False
  show ?thesis
    using False round_even_abs_le [OF abs_div_ulp_less [OF False]] ulp_exp_ge [of r]
    by (intro exI [of _ "round_even (r / power_int 2 (ulp_exp r))"] exI [of _ "ulp_exp r"])
      (simp add: round64_def)
qed

lemma round64_idem [simp]: "round64 (round64 r) = round64 r"
  using round64_grid_form [of r] by (auto intro: round64_grid)

lemma round64_uminus_double: "round64 a = a \<Longrightarrow> round64 (- a) = - a"
proof -
  assume a: "round64 a = a"
  obtain n e where "round64 a = of_int n * power_int 2 e" "- 1074 \<le> e" "\<bar>n\<bar> \<le> 2 ^ 53"
    using round64_grid_form [of a] by blast
  then have "- a = of_int (- n) * power_int 2 e" "- 1074 \<le> e" "\<bar>- n\<bar> \<le> 2 ^ 53" using a by simp_all
  then show ?thesis by (rule round64_grid)
qed

text \<open>Below the overflow threshold, rounding gives at most the largest finite double.\<close>

lemma round64_limit:
  assumes "\<bar>r\<bar> < float64_limit"
  shows "\<bar>round64 r\<bar> < float64_limit"
proof (cases "r = 0")
  case False
  define k where "k = exponent_of \<bar>r\<bar>"
  define u where "u = ulp_exp r"
  define n where "n = round_even (r / power_int 2 u)"
  have q: "0 < power_int (2::real) u" by simp
  have rr: "\<bar>round64 r\<bar> = of_int \<bar>n\<bar> * power_int 2 u"
    using False by (simp add: round64_def u_def n_def abs_mult)
  have kb: "power_int 2 k \<le> \<bar>r\<bar>" using exponent_of_bounds [of "\<bar>r\<bar>"] False by (simp add: k_def)
  have "k \<le> 1023"
  proof (rule ccontr)
    assume "\<not> k \<le> 1023"
    then have "power_int (2::real) 1024 \<le> power_int 2 k" by (subst power_int_2_le_iff) simp
    with kb assms show False by (simp add: float64_limit_def)
  qed
  show ?thesis
  proof (cases "k \<le> 1022")
    case True
    then have "u \<le> 970" by (simp add: u_def ulp_exp_def k_def)
    then have "power_int (2::real) u \<le> power_int 2 970" by (subst power_int_2_le_iff) simp
    moreover have "\<bar>n\<bar> \<le> 2 ^ 53"
      unfolding n_def u_def using round_even_abs_le [OF abs_div_ulp_less [OF False]] .
    then have "(of_int \<bar>n\<bar> :: real) \<le> of_int (2 ^ 53)" by (simp only: of_int_le_iff)
    then have "of_int \<bar>n\<bar> \<le> (2::real) ^ 53" by simp
    ultimately have "of_int \<bar>n\<bar> * power_int 2 u \<le> (2::real) ^ 53 * power_int 2 970"
      by (intro mult_mono) simp_all
    then have "\<bar>round64 r\<bar> \<le> 2 ^ 53 * power_int 2 970" using rr by simp
    then show ?thesis by (simp add: float64_limit_def)
  next
    case False
    with \<open>k \<le> 1023\<close> have k: "k = 1023" by simp
    then have u: "u = 971" by (simp add: u_def ulp_exp_def k_def)
    have y: "\<bar>r / power_int 2 u\<bar> < 2 ^ 53 - 1 / 2"
      using assms by (simp add: u abs_divide float64_limit_def pos_divide_less_eq)
    then have yy: "- (2 ^ 53 - 1 / 2) < r / power_int 2 u" "r / power_int 2 u < 2 ^ 53 - 1 / 2"
      by (simp_all only: abs_less_iff) linarith+
    then have "r / power_int 2 u < of_int (2 ^ 53 - 1) + 1 / 2"
      "of_int (- (2 ^ 53 - 1)) - 1 / 2 < r / power_int 2 u" by simp_all
    from round_even_le [OF this(1)] round_even_ge [OF this(2)] have "\<bar>n\<bar> \<le> 2 ^ 53 - 1"
      by (simp add: n_def abs_le_iff)
    then have "(of_int \<bar>n\<bar> :: real) \<le> of_int (2 ^ 53 - 1)" by (simp only: of_int_le_iff)
    then have "of_int \<bar>n\<bar> \<le> (2::real) ^ 53 - 1" by simp
    then have "\<bar>round64 r\<bar> \<le> (2 ^ 53 - 1) * power_int 2 971" using rr u by simp
    then show ?thesis by (simp add: float64_limit_def)
  qed
qed (simp add: float64_limit_def)

lemma eta64_pos: "0 < eta64"
  by (simp add: eta64_def)

lemma round64_err_eta: "\<bar>round64 r - r\<bar> \<le> \<bar>r\<bar> / 2 ^ 53 + eta64"
  using round64_rel_err [of r] by (simp add: eta64_def)

lemma eta64_small: "1002 * eta64 \<le> 1 / 2 ^ 1064"
  by (simp add: eta64_def)


lemma eta64_limit: "1000 * eta64 < float64_limit / 4"
  by (simp add: eta64_def float64_limit_def)


lemma eta64_bound: "3 * eta64 \<le> 1 / 2 ^ 1064" "1002 * eta64 \<le> 1 / 2 ^ 1064"
  using eta64_small eta64_pos by linarith+


end
