(* ===== verification/GoFloat.thy ===== *)
theory GoFloat
  imports Rounding
begin

text \<open>
  Go's \<open>float64\<close> as the SDK uses it: every length and weight of \<open>src/client.go\<close> is one,
  and the unit helpers multiply or divide it by a constant. A value is finite, one of the two
  infinities, or NaN. A finite value is the real number a double denotes. Every operation
  computes the exact result and rounds it as IEEE 754 does: to the nearest double, ties to
  even (\<open>round64\<close> of \<open>Rounding\<close>), and to an infinity at or beyond
  \<open>float64_limit\<close>; a constant of the source becomes the double nearest it
  (\<open>f64_const\<close>). The sign of zero is not modelled. \<open>f64_wf\<close> is the invariant that a
  finite value is a double below the limit, which every operation keeps.
\<close>

datatype f64 = Fin real | PosInf | NegInf | NaN

fun f64_wf :: "f64 \<Rightarrow> bool" where
  "f64_wf (Fin r) \<longleftrightarrow> \<bar>r\<bar> < float64_limit \<and> round64 r = r"
| "f64_wf _ \<longleftrightarrow> True"

fun f64_finite :: "f64 \<Rightarrow> bool" where
  "f64_finite (Fin r) \<longleftrightarrow> True"
| "f64_finite _ \<longleftrightarrow> False"

text \<open>The result of an operation whose exact value is \<open>r\<close>.\<close>

definition f64_round :: "real \<Rightarrow> f64" where
  "f64_round r =
     (if float64_limit \<le> r then PosInf else if r \<le> - float64_limit then NegInf else Fin (round64 r))"

text \<open>A floating-point constant of the source, converted to \<open>float64\<close> (the constants of
  the SDK are far below the range where Go rejects a constant as overflowing).\<close>

definition f64_const :: "real \<Rightarrow> f64" where
  "f64_const r = f64_round r"

definition f64_inf :: "bool \<Rightarrow> f64" where
  "f64_inf pos = (if pos then PosInf else NegInf)"

text \<open>An infinity of sign \<open>pos\<close> times a finite \<open>b\<close>: NaN for zero, else signed.\<close>

definition inf_times :: "bool \<Rightarrow> real \<Rightarrow> f64" where
  "inf_times pos b = (if b = 0 then NaN else f64_inf (pos = (0 < b)))"

fun f64_mul :: "f64 \<Rightarrow> f64 \<Rightarrow> f64" where
  "f64_mul NaN y = NaN"
| "f64_mul x NaN = NaN"
| "f64_mul (Fin a) (Fin b) = f64_round (a * b)"
| "f64_mul PosInf (Fin b) = inf_times True b"
| "f64_mul NegInf (Fin b) = inf_times False b"
| "f64_mul (Fin a) PosInf = inf_times True a"
| "f64_mul (Fin a) NegInf = inf_times False a"
| "f64_mul PosInf PosInf = PosInf"
| "f64_mul NegInf NegInf = PosInf"
| "f64_mul PosInf NegInf = NegInf"
| "f64_mul NegInf PosInf = NegInf"

fun f64_div :: "f64 \<Rightarrow> f64 \<Rightarrow> f64" where
  "f64_div NaN y = NaN"
| "f64_div x NaN = NaN"
| "f64_div (Fin a) (Fin b) =
     (if b \<noteq> 0 then f64_round (a / b)
      else if a = 0 then NaN else f64_inf (0 < a))"
| "f64_div (Fin a) PosInf = Fin 0"
| "f64_div (Fin a) NegInf = Fin 0"
| "f64_div PosInf (Fin b) = f64_inf (0 \<le> b)"
| "f64_div NegInf (Fin b) = f64_inf (b < 0)"
| "f64_div x y = NaN"

fun f64_neg :: "f64 \<Rightarrow> f64" where
  "f64_neg (Fin a) = Fin (- a)"
| "f64_neg PosInf = NegInf"
| "f64_neg NegInf = PosInf"
| "f64_neg NaN = NaN"

fun f64_add :: "f64 \<Rightarrow> f64 \<Rightarrow> f64" where
  "f64_add NaN y = NaN"
| "f64_add x NaN = NaN"
| "f64_add (Fin a) (Fin b) = f64_round (a + b)"
| "f64_add PosInf NegInf = NaN"
| "f64_add NegInf PosInf = NaN"
| "f64_add PosInf y = PosInf"
| "f64_add NegInf y = NegInf"
| "f64_add x PosInf = PosInf"
| "f64_add x NegInf = NegInf"

definition f64_sub :: "f64 \<Rightarrow> f64 \<Rightarrow> f64" where
  "f64_sub x y = f64_add x (f64_neg y)"

text \<open>Go's \<open><\<close> on floats: false whenever NaN is involved.\<close>

fun f64_lt :: "f64 \<Rightarrow> f64 \<Rightarrow> bool" where
  "f64_lt (Fin a) (Fin b) \<longleftrightarrow> a < b"
| "f64_lt NaN y \<longleftrightarrow> False"
| "f64_lt x NaN \<longleftrightarrow> False"
| "f64_lt NegInf y \<longleftrightarrow> y \<noteq> NegInf"
| "f64_lt x PosInf \<longleftrightarrow> x \<noteq> PosInf"
| "f64_lt x y \<longleftrightarrow> False"

text \<open>Go's \<open>==\<close> on floats: NaN equals nothing.\<close>

fun f64_eq :: "f64 \<Rightarrow> f64 \<Rightarrow> bool" where
  "f64_eq (Fin a) (Fin b) \<longleftrightarrow> a = b"
| "f64_eq PosInf PosInf \<longleftrightarrow> True"
| "f64_eq NegInf NegInf \<longleftrightarrow> True"
| "f64_eq x y \<longleftrightarrow> False"

section \<open>The invariant\<close>

lemma float64_limit_pos: "0 < float64_limit"
  by (simp add: float64_limit_def)

lemma f64_round_wf [simp]: "f64_wf (f64_round r)"
  by (auto simp: f64_round_def round64_limit)

lemma f64_round_Fin: "\<bar>r\<bar> < float64_limit \<Longrightarrow> f64_round r = Fin (round64 r)"
  by (auto simp: f64_round_def)

lemma f64_round_eq_Fin: "f64_round r = Fin s \<longleftrightarrow> s = round64 r \<and> \<bar>r\<bar> < float64_limit"
  by (auto simp: f64_round_def)

lemma f64_round_finite: "f64_finite (f64_round r) \<longleftrightarrow> \<bar>r\<bar> < float64_limit"
  by (auto simp: f64_round_def)

lemma f64_const_wf [simp]: "f64_wf (f64_const r)"
  by (simp add: f64_const_def)

lemma f64_const_Fin [simp]: "\<bar>r\<bar> < float64_limit \<Longrightarrow> f64_const r = Fin (round64 r)"
  by (simp add: f64_const_def f64_round_Fin)

text \<open>The constants of the source are far below the limit, so they are doubles and decode
  back to themselves; stated for \<open>\<bar>r\<bar> \<le> 2^1000\<close> so that \<open>simp\<close> decides them on
  literals without unfolding the limit.\<close>

lemma float64_limit_above: "r \<le> 2 ^ 1000 \<Longrightarrow> r < float64_limit"
  by (simp add: float64_limit_def)

lemma f64_const_lit: "\<bar>r\<bar> \<le> 2 ^ 1000 \<Longrightarrow> f64_const r = Fin (round64 r)"
  by (simp add: float64_limit_def)

lemma round64_lit_limit: "\<bar>r\<bar> \<le> 2 ^ 1000 \<Longrightarrow> \<bar>round64 r\<bar> < float64_limit"
  by (rule round64_limit) (simp add: float64_limit_def)

lemmas f64_lits = float64_limit_above f64_const_lit round64_lit_limit round64_0 float64_limit_pos

lemma f64_inf_wf [simp]: "f64_wf (f64_inf p)"
  by (simp add: f64_inf_def)

lemma inf_times_wf [simp]: "f64_wf (inf_times p b)"
  by (simp add: inf_times_def)

lemma f64_mul_wf: "f64_wf (f64_mul x y)"
  by (induction x y rule: f64_mul.induct) simp_all

lemma f64_div_wf: "f64_wf (f64_div x y)"
  by (induction x y rule: f64_div.induct) (simp_all add: float64_limit_pos)

lemma f64_add_wf: "f64_wf (f64_add x y)"
  by (induction x y rule: f64_add.induct) simp_all

lemma f64_neg_wf: "f64_wf x \<Longrightarrow> f64_wf (f64_neg x)"
  by (cases x) (simp_all add: round64_uminus_double)


section \<open>Error of a conversion and its inverse\<close>

lemma abs_le_abs_mult:
  assumes "1 \<le> k"
  shows "\<bar>a\<bar> \<le> \<bar>a * (k::real)\<bar>"
proof -
  have "\<bar>a\<bar> * 1 \<le> \<bar>a\<bar> * k" using assms by (intro mult_left_mono) simp_all
  then show ?thesis using assms by (simp add: abs_mult)
qed


lemma abs_div_le:
  assumes "1 \<le> k"
  shows "\<bar>a / (k::real)\<bar> \<le> \<bar>a\<bar>"
proof -
  have "\<bar>a\<bar> \<le> \<bar>a\<bar> * k" using abs_le_abs_mult [OF assms, of a] assms by (simp add: abs_mult)
  then show ?thesis using assms by (simp add: pos_divide_le_eq)
qed


text \<open>Multiplying by a factor \<open>c \<ge> 1\<close> and dividing back by it recovers the input up to two
  roundings; so does dividing first and multiplying back, when the input is below half the
  limit and \<open>c \<le> 1000\<close> (so that no product overflows).\<close>

lemma mul_div_back:
  assumes c: "1 \<le> c" and mul: "f64_mul (Fin a) (Fin c) = Fin y"
  shows "\<exists>b. f64_div (Fin y) (Fin c) = Fin b \<and> \<bar>b - a\<bar> \<le> \<bar>a\<bar> / 2 ^ 51 + 3 * eta64"
proof -
  have y: "y = round64 (a * c)" and lim: "\<bar>a * c\<bar> < float64_limit"
    using mul by (simp_all add: f64_round_eq_Fin)
  have c0: "0 < c" using c by simp
  have "\<bar>y\<bar> < float64_limit" using y lim by (simp add: round64_limit)
  moreover have "\<bar>y / c\<bar> \<le> \<bar>y\<bar>" by (rule abs_div_le [OF c])
  ultimately have div: "f64_div (Fin y) (Fin c) = Fin (round64 (y / c))" using c0 by (simp add: f64_round_Fin)
  define A where "A = \<bar>a\<bar>"
  have e1: "\<bar>y - a * c\<bar> \<le> A * c / 2 ^ 53 + eta64"
    using round64_err_eta [of "a * c"] y c0 by (simp add: A_def abs_mult)
  have "y / c - a = (y - a * c) / c" using c0 by (simp add: field_simps)
  then have "\<bar>y / c - a\<bar> = \<bar>y - a * c\<bar> / c" using c0 by (simp add: abs_divide)
  also have "\<dots> \<le> (A * c / 2 ^ 53 + eta64) / c" using e1 c0 by (intro divide_right_mono) simp_all
  also have "\<dots> = A / 2 ^ 53 + eta64 / c" using c0 by (simp add: add_divide_distrib)
  also have "\<dots> \<le> A / 2 ^ 53 + eta64" using c eta64_pos by (simp add: divide_le_eq)
  finally have e2: "\<bar>y / c - a\<bar> \<le> A / 2 ^ 53 + eta64" .
  have e3: "\<bar>round64 (y / c) - y / c\<bar> \<le> \<bar>y / c\<bar> / 2 ^ 53 + eta64" by (rule round64_err_eta)
  have "\<bar>y / c\<bar> \<le> A + (A / 2 ^ 53 + eta64)" using e2 unfolding A_def by linarith
  then have e4: "\<bar>y / c\<bar> / 2 ^ 53 \<le> (A + (A / 2 ^ 53 + eta64)) / 2 ^ 53" by (simp add: divide_right_mono)
  have tri: "\<bar>round64 (y / c) - a\<bar> \<le> \<bar>round64 (y / c) - y / c\<bar> + \<bar>y / c - a\<bar>" by linarith
  have "0 \<le> A" by (simp add: A_def)
  with tri e2 e3 e4 eta64_pos have "\<bar>round64 (y / c) - a\<bar> \<le> A / 2 ^ 51 + 3 * eta64" by simp
  with div show ?thesis by (auto simp: A_def)
qed


lemma div_mul_back:
  assumes c: "1 \<le> c" "c \<le> 1000" and a: "\<bar>a\<bar> < float64_limit / 2"
  shows "\<exists>b. f64_mul (f64_div (Fin a) (Fin c)) (Fin c) = Fin b \<and> \<bar>b - a\<bar> \<le> \<bar>a\<bar> / 2 ^ 51 + 1002 * eta64"
proof -
  have c0: "0 < c" using c by simp
  define A where "A = \<bar>a\<bar>"
  define z where "z = round64 (a / c)"
  have "\<bar>a / c\<bar> < float64_limit" using abs_div_le [OF c(1), of a] a float64_limit_pos by linarith
  then have div: "f64_div (Fin a) (Fin c) = Fin z" using c0 by (simp add: z_def f64_round_Fin)
  have e1: "\<bar>z - a / c\<bar> \<le> A / c / 2 ^ 53 + eta64"
    using round64_err_eta [of "a / c"] c0 by (simp add: z_def A_def abs_divide)
  have "z * c - a = (z - a / c) * c" using c0 by (simp add: field_simps)
  then have "\<bar>z * c - a\<bar> = \<bar>z - a / c\<bar> * c" using c0 by (simp add: abs_mult)
  also have "\<dots> \<le> (A / c / 2 ^ 53 + eta64) * c" using e1 c0 by (intro mult_right_mono) simp_all
  also have "\<dots> = A / 2 ^ 53 + eta64 * c" using c0 by (simp add: distrib_right)
  also have "\<dots> \<le> A / 2 ^ 53 + 1000 * eta64" using c(2) eta64_pos by simp
  finally have e2: "\<bar>z * c - a\<bar> \<le> A / 2 ^ 53 + 1000 * eta64" .
  have zc: "\<bar>z * c\<bar> \<le> A + (A / 2 ^ 53 + 1000 * eta64)" using e2 unfolding A_def by linarith
  have "A / 2 ^ 53 \<le> A / 4" unfolding A_def by (intro divide_left_mono) simp_all
  then have "\<bar>z * c\<bar> < float64_limit" using zc a eta64_limit unfolding A_def by linarith
  then have mul: "f64_mul (Fin z) (Fin c) = Fin (round64 (z * c))" by (simp add: f64_round_Fin)
  have e3: "\<bar>round64 (z * c) - z * c\<bar> \<le> \<bar>z * c\<bar> / 2 ^ 53 + eta64" by (rule round64_err_eta)
  have e4: "\<bar>z * c\<bar> / 2 ^ 53 \<le> (A + (A / 2 ^ 53 + 1000 * eta64)) / 2 ^ 53"
    using zc by (simp add: divide_right_mono)
  have tri: "\<bar>round64 (z * c) - a\<bar> \<le> \<bar>round64 (z * c) - z * c\<bar> + \<bar>z * c - a\<bar>" by linarith
  have "0 \<le> A" by (simp add: A_def)
  with tri e2 e3 e4 eta64_pos have "\<bar>round64 (z * c) - a\<bar> \<le> A / 2 ^ 51 + 1002 * eta64" by simp
  with div mul show ?thesis by (auto simp: A_def)
qed

end
