(* ===== verification/JsonString.thy ===== *)
theory JsonString
  imports Prelude
begin

text \<open>
  The byte level of JSON strings in \<open>encoding/json\<close>: how \<open>json.Marshal\<close> writes a Go
  string (\<open>appendString\<close> of \<open>encode.go\<close>, with HTML escaping on, as \<open>Marshal\<close> uses
  it, and the short escapes for backspace and form feed of Go 1.22 and later), and how
  \<open>json.Unmarshal\<close> reads one back (\<open>unquoteBytes\<close> of \<open>decode.go\<close>), over the
  UTF-8 decoder and encoder of \<open>unicode/utf8\<close> (\<open>DecodeRune\<close>, \<open>EncodeRune\<close>) and
  \<open>unicode/utf16.DecodeRune\<close>. A Go string is a byte sequence, a \<open>string\<close> of
  8-bit \<open>char\<close>s here. The round trip is not the identity: every byte that does not
  start a valid UTF-8 sequence becomes U+FFFD (\<open>utf8_coerce\<close>), as the package
  documentation says (\<open>String values encode as JSON strings coerced to valid UTF-8\<close>).
\<close>

definition bslash :: char where
  "bslash = CHR 0x5C"

definition dquote :: char where
  "dquote = CHR 0x22"

definition hex_chars :: string where
  "hex_chars = ''0123456789abcdef''"

text \<open>The bytes of U+FFFD, \<open>utf8.RuneError\<close>.\<close>

definition replacement_bytes :: string where
  "replacement_bytes = [char_of (0xEF :: nat), char_of (0xBF :: nat), char_of (0xBD :: nat)]"

section \<open>UTF-8 (unicode/utf8)\<close>

definition byte_in :: "nat \<Rightarrow> nat \<Rightarrow> char \<Rightarrow> bool" where
  "byte_in lo hi c \<longleftrightarrow> lo \<le> of_char c \<and> of_char c \<le> hi"

text \<open>\<open>DecodeRune\<close> on a string whose first byte is not ASCII: the length of the valid
  sequence it starts (the accept ranges of \<open>utf8.first\<close> and \<open>acceptRanges\<close>: no
  overlong forms, no surrogates, nothing above U+10FFFF), or \<open>None\<close> where \<open>DecodeRune\<close>
  returns \<open>(RuneError, 1)\<close>.\<close>

fun utf8_len :: "string \<Rightarrow> nat option" where
  "utf8_len (c0 # c1 # cs) =
     (let b0 = of_char c0 :: nat in
      if 0xC2 \<le> b0 \<and> b0 \<le> 0xDF then (if byte_in 0x80 0xBF c1 then Some 2 else None)
      else if 0xE0 \<le> b0 \<and> b0 \<le> 0xEF then
        (let lo = (if b0 = 0xE0 then 0xA0 else 0x80); hi = (if b0 = 0xED then 0x9F else 0xBF) in
         case cs of
           c2 # _ \<Rightarrow> if byte_in lo hi c1 \<and> byte_in 0x80 0xBF c2 then Some 3 else None
         | [] \<Rightarrow> None)
      else if 0xF0 \<le> b0 \<and> b0 \<le> 0xF4 then
        (let lo = (if b0 = 0xF0 then 0x90 else 0x80); hi = (if b0 = 0xF4 then 0x8F else 0xBF) in
         case cs of
           c2 # c3 # _ \<Rightarrow>
             if byte_in lo hi c1 \<and> byte_in 0x80 0xBF c2 \<and> byte_in 0x80 0xBF c3 then Some 4 else None
         | _ \<Rightarrow> None)
      else None)"
| "utf8_len _ = None"

text \<open>\<open>EncodeRune\<close>: surrogates and values above U+10FFFF encode as U+FFFD.\<close>

definition encode_rune :: "nat \<Rightarrow> string" where
  "encode_rune r =
     (if r < 0x80 then [char_of r]
      else if r < 0x800 then [char_of (0xC0 + r div 64), char_of (0x80 + r mod 64)]
      else if (0xD800 \<le> r \<and> r < 0xE000) \<or> 0x10FFFF < r then replacement_bytes
      else if r < 0x10000 then
        [char_of (0xE0 + r div 4096), char_of (0x80 + r div 64 mod 64), char_of (0x80 + r mod 64)]
      else [char_of (0xF0 + r div 262144), char_of (0x80 + r div 4096 mod 64),
            char_of (0x80 + r div 64 mod 64), char_of (0x80 + r mod 64)])"

text \<open>What the documentation promises a string becomes: each byte that does not start a
  valid sequence replaced by U+FFFD.\<close>

fun utf8_coerce :: "string \<Rightarrow> string" where
  "utf8_coerce [] = []"
| "utf8_coerce (c # s) =
     (if of_char c < (128 :: nat) then c # utf8_coerce s
      else case utf8_len (c # s) of
             None \<Rightarrow> replacement_bytes @ utf8_coerce s
           | Some n \<Rightarrow> c # take (n - 1) s @ utf8_coerce (drop (n - 1) s))"

fun utf8_valid :: "string \<Rightarrow> bool" where
  "utf8_valid [] \<longleftrightarrow> True"
| "utf8_valid (c # s) \<longleftrightarrow>
     (if of_char c < (128 :: nat) then utf8_valid s
      else case utf8_len (c # s) of
             None \<Rightarrow> False
           | Some n \<Rightarrow> utf8_valid (drop (n - 1) s))"

section \<open>The encoder (encode.go, appendString)\<close>

text \<open>One ASCII byte: kept when it is in \<open>htmlSafeSet\<close> (printable, and not one of the
  quote, the backslash, \<open><\<close>, \<open>>\<close> or \<open>&\<close>), else escaped.\<close>

definition escape_ascii :: "char \<Rightarrow> string" where
  "escape_ascii c =
     (let b = of_char c :: nat in
      if 32 \<le> b \<and> b \<notin> {34, 92, 60, 62, 38} then [c]
      else if b = 34 \<or> b = 92 then [bslash, c]
      else if b = 8 then [bslash, CHR ''b'']
      else if b = 12 then [bslash, CHR ''f'']
      else if b = 10 then [bslash, CHR ''n'']
      else if b = 13 then [bslash, CHR ''r'']
      else if b = 9 then [bslash, CHR ''t'']
      else bslash # ''u00'' @ [hex_chars ! (b div 16), hex_chars ! (b mod 16)])"

text \<open>The line and paragraph separators U+2028 and U+2029 (bytes E2 80 A8/A9).\<close>

definition is_line_sep :: "string \<Rightarrow> bool" where
  "is_line_sep s \<longleftrightarrow>
     (case s of
        c0 # c1 # c2 # _ \<Rightarrow> of_char c0 = (0xE2 :: nat) \<and> of_char c1 = (0x80 :: nat) \<and>
          (of_char c2 = (0xA8 :: nat) \<or> of_char c2 = (0xA9 :: nat))
      | _ \<Rightarrow> False)"

fun quote_body :: "string \<Rightarrow> string" where
  "quote_body [] = []"
| "quote_body (c # s) =
     (if of_char c < (128 :: nat) then escape_ascii c @ quote_body s
      else case utf8_len (c # s) of
             None \<Rightarrow> bslash # ''ufffd'' @ quote_body s
           | Some n \<Rightarrow>
               if is_line_sep (c # s)
               then bslash # ''u202'' @ [hex_chars ! (of_char (s ! 1) mod 16)] @ quote_body (drop 2 s)
               else c # take (n - 1) s @ quote_body (drop (n - 1) s))"

definition json_quote :: "string \<Rightarrow> string" where
  "json_quote s = dquote # quote_body s @ [dquote]"

section \<open>The decoder (decode.go, unquoteBytes)\<close>

definition hex_val :: "char \<Rightarrow> nat option" where
  "hex_val c =
     (let b = of_char c :: nat in
      if 48 \<le> b \<and> b \<le> 57 then Some (b - 48)
      else if 97 \<le> b \<and> b \<le> 102 then Some (b - 87)
      else if 65 \<le> b \<and> b \<le> 70 then Some (b - 55)
      else None)"

text \<open>The four hex digits of a u-escape (\<open>getu4\<close> without the backslash-u prefix).\<close>

fun hex4 :: "string \<Rightarrow> nat option" where
  "hex4 (a # b # c # d # _) =
     (case (hex_val a, hex_val b, hex_val c, hex_val d) of
        (Some x, Some y, Some z, Some w) \<Rightarrow> Some (((x * 16 + y) * 16 + z) * 16 + w)
      | _ \<Rightarrow> None)"
| "hex4 _ = None"

definition utf16_decode :: "nat \<Rightarrow> nat \<Rightarrow> nat" where
  "utf16_decode r1 r2 =
     (if 0xD800 \<le> r1 \<and> r1 < 0xDC00 \<and> 0xDC00 \<le> r2 \<and> r2 < 0xE000
      then (r1 - 0xD800) * 1024 + (r2 - 0xDC00) + 0x10000 else 0xFFFD)"

text \<open>After the u-escape of a surrogate: a second u-escape that completes the pair.\<close>

definition low_surrogate :: "nat \<Rightarrow> string \<Rightarrow> nat option" where
  "low_surrogate r s =
     (case s of
        c1 # c2 # t \<Rightarrow>
          if c1 = bslash \<and> c2 = CHR ''u'' then
            (case hex4 t of
               Some r2 \<Rightarrow> if utf16_decode r r2 \<noteq> 0xFFFD then Some (utf16_decode r r2) else None
             | None \<Rightarrow> None)
          else None
      | _ \<Rightarrow> None)"

definition simple_escape :: "char \<Rightarrow> char option" where
  "simple_escape e =
     (if e \<in> {dquote, bslash, CHR ''/'', CHR 0x27} then Some e
      else if e = CHR ''b'' then Some (char_of (8 :: nat))
      else if e = CHR ''f'' then Some (char_of (12 :: nat))
      else if e = CHR ''n'' then Some (char_of (10 :: nat))
      else if e = CHR ''r'' then Some (char_of (13 :: nat))
      else if e = CHR ''t'' then Some (char_of (9 :: nat))
      else None)"

fun unquote_body :: "string \<Rightarrow> string option" where
  "unquote_body [] = Some []"
| "unquote_body (c # s) =
     (if c = bslash then
        (case s of
           [] \<Rightarrow> None
         | e # s' \<Rightarrow>
             if e = CHR ''u'' then
               (case hex4 s' of
                  None \<Rightarrow> None
                | Some r \<Rightarrow>
                    if 0xD800 \<le> r \<and> r < 0xE000 then
                      (case low_surrogate r (drop 4 s') of
                         Some r' \<Rightarrow> map_option ((@) (encode_rune r')) (unquote_body (drop 10 s'))
                       | None \<Rightarrow> map_option ((@) (encode_rune 0xFFFD)) (unquote_body (drop 4 s')))
                    else map_option ((@) (encode_rune r)) (unquote_body (drop 4 s')))
             else
               (case simple_escape e of
                  None \<Rightarrow> None
                | Some d \<Rightarrow> map_option (Cons d) (unquote_body s')))
      else if c = dquote \<or> of_char c < (32 :: nat) then None
      else if of_char c < (128 :: nat) then map_option (Cons c) (unquote_body s)
      else
        (case utf8_len (c # s) of
           None \<Rightarrow> map_option ((@) replacement_bytes) (unquote_body s)
         | Some n \<Rightarrow> map_option ((@) (c # take (n - 1) s)) (unquote_body (drop (n - 1) s))))"

definition json_unquote :: "string \<Rightarrow> string option" where
  "json_unquote s =
     (if 2 \<le> length s \<and> hd s = dquote \<and> last s = dquote then unquote_body (butlast (tl s)) else None)"

section \<open>Lemmas\<close>

subsection \<open>Bytes and hex digits\<close>

lemma char_eq_of_char: "c = d \<longleftrightarrow> (of_char c :: nat) = of_char d"
  by (metis char_of_char)

lemma char_of_of_char_eq: "(of_char c :: nat) = n \<Longrightarrow> char_of n = c"
  by (metis char_of_char)

lemma hex_val_hex_chars: "d < 16 \<Longrightarrow> hex_val (hex_chars ! d) = Some d"
proof -
  have "\<forall>d \<in> {..<16::nat}. hex_val (hex_chars ! d) = Some d"
    by (simp add: lessThan_nat_numeral hex_chars_def hex_val_def)
  then show "d < 16 \<Longrightarrow> ?thesis" by simp
qed

lemma hex_val_literals [simp]: "hex_val (CHR ''0'') = Some 0" "hex_val (CHR ''2'') = Some 2"
  "hex_val (CHR ''f'') = Some 15" "hex_val (CHR ''d'') = Some 13"
  by (simp_all add: hex_val_def)

lemma escape_bytes [simp]: "of_char bslash = (92 :: nat)" "of_char dquote = (34 :: nat)"
  by (simp_all add: bslash_def dquote_def)

lemma hex4_byte:
  assumes "b < 256"
  shows "hex4 (CHR ''0'' # CHR ''0'' # hex_chars ! (b div 16) # hex_chars ! (b mod 16) # t) = Some b"
proof -
  have "hex_val (hex_chars ! (b div 16)) = Some (b div 16)" "hex_val (hex_chars ! (b mod 16)) = Some (b mod 16)"
    using assms by (simp_all add: hex_val_hex_chars)
  then show ?thesis by simp
qed

subsection \<open>One lemma per branch of the decoder\<close>

lemma bslash_ne_u: "bslash \<noteq> CHR ''u''"
  by (simp add: char_eq_of_char [of bslash])

lemma unquote_simple:
  "simple_escape e = Some d \<Longrightarrow> e \<noteq> CHR ''u'' \<Longrightarrow>
   unquote_body (bslash # e # t) = map_option (Cons d) (unquote_body t)"
  by simp

lemma unquote_u:
  "hex4 s = Some r \<Longrightarrow> \<not> (0xD800 \<le> r \<and> r < 0xE000) \<Longrightarrow>
   unquote_body (bslash # CHR ''u'' # s) = map_option ((@) (encode_rune r)) (unquote_body (drop 4 s))"
  by auto

lemma unquote_plain:
  "c \<noteq> bslash \<Longrightarrow> c \<noteq> dquote \<Longrightarrow> 32 \<le> (of_char c :: nat) \<Longrightarrow> (of_char c :: nat) < 128 \<Longrightarrow>
   unquote_body (c # t) = map_option (Cons c) (unquote_body t)"
  by simp

lemma non_ascii_ne: "128 \<le> (of_char c :: nat) \<Longrightarrow> c \<noteq> bslash \<and> c \<noteq> dquote"
  by (auto simp: char_eq_of_char [of c])

lemma unquote_rune:
  "128 \<le> (of_char c :: nat) \<Longrightarrow> utf8_len (c # s) = Some n \<Longrightarrow>
   unquote_body (c # s) = map_option ((@) (c # take (n - 1) s)) (unquote_body (drop (n - 1) s))"
  using non_ascii_ne [of c] by simp

lemma unquote_invalid:
  "128 \<le> (of_char c :: nat) \<Longrightarrow> utf8_len (c # s) = None \<Longrightarrow>
   unquote_body (c # s) = map_option ((@) replacement_bytes) (unquote_body s)"
  using non_ascii_ne [of c] by simp

subsection \<open>Each piece the encoder writes decodes to the bytes it stands for\<close>

lemma unquote_escape_ascii:
  assumes "(of_char c :: nat) < 128"
  shows "unquote_body (escape_ascii c @ t) = map_option (Cons c) (unquote_body t)"
proof -
  define b where "b = (of_char c :: nat)"
  have cb: "char_of b = c" by (simp add: b_def)
  have ne: "c \<noteq> bslash \<longleftrightarrow> b \<noteq> 92" "c \<noteq> dquote \<longleftrightarrow> b \<noteq> 34" "c \<noteq> CHR ''u'' \<longleftrightarrow> b \<noteq> 117"
    by (simp_all add: char_eq_of_char [of c] b_def)
  consider "32 \<le> b \<and> b \<notin> {34, 92, 60, 62, 38}" | "b = 34 \<or> b = 92"
    | "b \<in> {8, 12, 10, 13, 9}" | "b < 32 \<and> b \<notin> {8, 12, 10, 13, 9} \<or> b \<in> {60, 62, 38}"
    by fastforce
  then show ?thesis
  proof cases
    case 1
    then show ?thesis using assms ne by (simp add: escape_ascii_def b_def [symmetric])
  next
    case 2
    then have e: "escape_ascii c = [bslash, c]" by (auto simp: escape_ascii_def b_def [symmetric])
    have "simple_escape c = Some c" using 2 ne by (auto simp: simple_escape_def)
    with 2 ne show ?thesis unfolding e by (auto intro: unquote_simple)
  next
    case 3
    then show ?thesis using cb
      by (auto simp: escape_ascii_def b_def [symmetric] simple_escape_def bslash_def dquote_def)
  next
    case 4
    have "b < 256" using assms by (simp add: b_def)
    then have h: "hex4 (CHR ''0'' # CHR ''0'' # hex_chars ! (b div 16) # hex_chars ! (b mod 16) # t) = Some b"
      by (rule hex4_byte)
    have e: "escape_ascii c = bslash # CHR ''u'' # CHR ''0'' # CHR ''0'' # [hex_chars ! (b div 16), hex_chars ! (b mod 16)]"
      using 4 by (auto simp: escape_ascii_def b_def [symmetric])
    have "encode_rune b = [c]" using 4 cb by (auto simp: encode_rune_def)
    have "\<not> (0xD800 \<le> b \<and> b < 0xE000)" using 4 by auto
    have "unquote_body (escape_ascii c @ t) =
        unquote_body (bslash # CHR ''u'' # CHR ''0'' # CHR ''0'' # hex_chars ! (b div 16) # hex_chars ! (b mod 16) # t)"
      by (simp add: e)
    also have "\<dots> = map_option ((@) (encode_rune b)) (unquote_body t)"
      by (subst unquote_u [OF h \<open>\<not> (0xD800 \<le> b \<and> b < 0xE000)\<close>]) simp
    finally show ?thesis using \<open>encode_rune b = [c]\<close> by (cases "unquote_body t") simp_all
  qed
qed

lemma utf8_len_Some:
  assumes "utf8_len (c # s) = Some n"
  shows "2 \<le> n \<and> n - 1 \<le> length s \<and> utf8_len (c # take (n - 1) s @ t) = Some n"
proof -
  obtain a s1 where s: "s = a # s1" using assms by (cases s) auto
  show ?thesis using assms unfolding s
    by (auto simp: Let_def split: if_splits list.splits)
qed

lemma unquote_invalid_chunk:
  "unquote_body ((bslash # ''ufffd'') @ t) = map_option ((@) replacement_bytes) (unquote_body t)"
proof -
  have h: "hex4 (''fffd'' @ t) = Some 65533" by simp
  have "encode_rune 65533 = replacement_bytes" by (simp add: encode_rune_def replacement_bytes_def)
  then show ?thesis using unquote_u [OF h] by simp
qed

lemma unquote_line_sep:
  assumes "is_line_sep (c # s)"
  shows "unquote_body ((bslash # ''u202'' @ [hex_chars ! (of_char (s ! 1) mod 16)]) @ t) =
    map_option ((@) (c # take 2 s)) (unquote_body t)"
proof -
  obtain a b s2 where s: "s = a # b # s2" and c: "of_char c = (0xE2 :: nat)" and a: "of_char a = (0x80 :: nat)"
    and b: "of_char b = (0xA8 :: nat) \<or> of_char b = (0xA9 :: nat)"
    using assms by (auto simp: is_line_sep_def split: list.splits)
  define d where "d = (of_char b mod 16 :: nat)"
  have d: "d = 8 \<or> d = 9" using b by (auto simp: d_def)
  have h: "hex4 (CHR ''2'' # CHR ''0'' # CHR ''2'' # hex_chars ! d # t) = Some (0x2020 + d)"
    using d hex_val_hex_chars [of d] by auto
  have r: "encode_rune (0x2020 + d) = [c, a, b]"
  proof -
    have "encode_rune (0x2020 + d) = [char_of (226 :: nat), char_of (128 :: nat), char_of (160 + d)]"
      using d by (auto simp: encode_rune_def)
    moreover have "char_of (160 + d) = b" using b by (auto simp: d_def intro: char_of_of_char_eq)
    ultimately show ?thesis using char_of_of_char_eq [OF c] char_of_of_char_eq [OF a] by simp
  qed
  have "\<not> (0xD800 \<le> 0x2020 + d \<and> 0x2020 + d < (0xE000 :: nat))" using d by auto
  from unquote_u [OF h this] r show ?thesis by (simp add: s d_def)
qed

lemma line_sep_len: "is_line_sep (c # s) \<Longrightarrow> utf8_len (c # s) = Some n \<Longrightarrow> n = 3"
  by (auto simp: is_line_sep_def Let_def split: list.splits if_splits)

lemma take_append_same: "length xs = k \<Longrightarrow> take k (xs @ ys) = xs \<and> drop k (xs @ ys) = ys"
  by simp

lemma utf8_coerce_valid: "utf8_valid s \<Longrightarrow> utf8_coerce s = s"
proof (induction s rule: utf8_coerce.induct)
  case (2 c s)
  then show ?case
    using utf8_len_Some [of c s _ "[]"] by (auto split: if_splits option.splits)
qed simp

lemma unquote_quote_body: "unquote_body (quote_body s) = Some (utf8_coerce s)"
proof (induction s rule: quote_body.induct)
  case 1
  show ?case by simp
next
  case (2 c s)
  show ?case
  proof (cases "(of_char c :: nat) < 128")
    case True
    then show ?thesis using "2.IH"(1) by (simp add: unquote_escape_ascii)
  next
    case ascii: False
    show ?thesis
    proof (cases "utf8_len (c # s)")
      case None
      then show ?thesis using ascii "2.IH"(2) unquote_invalid_chunk [of "quote_body s"] by simp
    next
      case (Some n)
      note len = utf8_len_Some [OF Some]
      show ?thesis
      proof (cases "is_line_sep (c # s)")
        case True
        have "n = 3" by (rule line_sep_len [OF True Some])
        then show ?thesis using ascii Some True "2.IH"(3) unquote_line_sep [OF True, of "quote_body (drop 2 s)"]
          by simp
      next
        case False
        define rest where "rest = quote_body (drop (n - 1) s)"
        have l: "length (take (n - 1) s) = n - 1" using len by simp
        have u: "utf8_len (c # take (n - 1) s @ rest) = Some n" using len by simp
        have t: "take (n - 1) (take (n - 1) s @ rest) = take (n - 1) s"
          "drop (n - 1) (take (n - 1) s @ rest) = rest"
          using take_append_same [OF l, of rest] by simp_all
        have "unquote_body (c # take (n - 1) s @ rest) =
            map_option ((@) (c # take (n - 1) (take (n - 1) s @ rest)))
              (unquote_body (drop (n - 1) (take (n - 1) s @ rest)))"
          by (rule unquote_rune) (use ascii u in simp_all)
        then have "unquote_body (c # take (n - 1) s @ rest) =
            map_option ((@) (c # take (n - 1) s)) (unquote_body rest)"
          by (simp only: t)
        then show ?thesis using ascii Some False "2.IH"(4) [OF ascii Some False] by (simp add: rest_def)
      qed
    qed
  qed
qed

section \<open>The round trip\<close>

text \<open>json.Unmarshal reads back what json.Marshal writes for a string: every byte string
  comes back coerced to valid UTF-8, and a valid UTF-8 string comes back unchanged.\<close>

lemma json_string_roundtrip:
  "json_unquote (json_quote s) = Some (utf8_coerce s) \<and>
   (utf8_valid s \<longrightarrow> json_unquote (json_quote s) = Some s)"
  by (simp add: json_unquote_def json_quote_def unquote_quote_body utf8_coerce_valid)

end
