(* ===== verification/Json.thy ===== *)
theory Json
  imports GoFloat JsonString
begin

text \<open>
  The part of Go's \<open>encoding/json\<close> that the SDK's struct tags drive, at the level of
  JSON values (the byte-level scanner and printer are a separate interface, see
  \<open>Client\<close>). \<open>json.Marshal\<close> of a struct writes its tagged fields in declaration order;
  it fails on a NaN or infinite \<open>float64\<close>. \<open>json.Unmarshal\<close> into a struct walks the
  object's members in order: a key selects the field whose tag equals it, else one whose tag
  equals it up to case; unknown keys are skipped; \<open>null\<close> leaves a string, number, bool or
  struct unchanged and sets a slice to \<open>nil\<close>; a value of the wrong kind is an
  \<open>UnmarshalTypeError\<close>. Decoding goes into the value already there, so a struct field
  decoded twice merges, and the elements of a JSON array are decoded into the slice's
  existing elements. A Go string is marshalled coerced to valid UTF-8
  (\<open>marshal_string\<close>): the value the byte-level encoder and decoder of \<open>JsonString\<close>
  give back (\<open>marshal_string_bytes\<close>).
\<close>

datatype jvalue =
    JNull
  | JBool bool
  | JNum real
  | JStr string
  | JArr "jvalue list"
  | JObj "(string \<times> jvalue) list"

datatype json_error =
    UnsupportedValueError string
  | UnmarshalTypeError string string
  | SyntaxError string

fun json_kind :: "jvalue \<Rightarrow> string" where
  "json_kind JNull = ''null''"
| "json_kind (JBool b) = ''bool''"
| "json_kind (JNum r) = ''number''"
| "json_kind (JStr s) = ''string''"
| "json_kind (JArr js) = ''array''"
| "json_kind (JObj kvs) = ''object''"

text \<open>\<open>Error()\<close> of the three errors (the struct-field variant of the type error, which
  also names the field, is not modelled).\<close>

fun json_error_message :: "json_error \<Rightarrow> string" where
  "json_error_message (UnsupportedValueError v) = ''json: unsupported value: '' @ v"
| "json_error_message (UnmarshalTypeError v t) =
     ''json: cannot unmarshal '' @ v @ '' into Go value of type '' @ t"
| "json_error_message (SyntaxError m) = m"

definition type_error :: "jvalue \<Rightarrow> string \<Rightarrow> json_error + 'a" where
  "type_error j ty = Inl (UnmarshalTypeError (json_kind j) ty)"

section \<open>Leaves\<close>

fun marshal_f64 :: "f64 \<Rightarrow> json_error + jvalue" where
  "marshal_f64 (Fin r) = Inr (JNum r)"
| "marshal_f64 PosInf = Inl (UnsupportedValueError ''+Inf'')"
| "marshal_f64 NegInf = Inl (UnsupportedValueError ''-Inf'')"
| "marshal_f64 NaN = Inl (UnsupportedValueError ''NaN'')"

text \<open>\<open>strconv.ParseFloat\<close> fails with a range error beyond the largest double.\<close>

fun unmarshal_f64 :: "jvalue \<Rightarrow> f64 \<Rightarrow> json_error + f64" where
  "unmarshal_f64 JNull cur = Inr cur"
| "unmarshal_f64 (JNum r) cur =
     (if \<bar>r\<bar> < float64_limit then Inr (Fin (round64 r)) else type_error (JNum r) ''float64'')"
| "unmarshal_f64 j cur = type_error j ''float64''"

definition marshal_int :: "go_int \<Rightarrow> jvalue" where
  "marshal_int w = JNum (of_int (sint w))"

definition is_int64 :: "real \<Rightarrow> bool" where
  "is_int64 r \<longleftrightarrow> r = of_int \<lfloor>r\<rfloor> \<and> - (2 ^ 63) \<le> r \<and> r < 2 ^ 63"

text \<open>\<open>strconv.ParseInt(s, 10, 64)\<close>: an integral number within 64 bits.\<close>

fun unmarshal_int :: "jvalue \<Rightarrow> go_int \<Rightarrow> json_error + go_int" where
  "unmarshal_int JNull cur = Inr cur"
| "unmarshal_int (JNum r) cur =
     (if is_int64 r then Inr (word_of_int \<lfloor>r\<rfloor>) else type_error (JNum r) ''int'')"
| "unmarshal_int j cur = type_error j ''int''"

definition marshal_uint32 :: "go_uint32 \<Rightarrow> jvalue" where
  "marshal_uint32 w = JNum (of_nat (unat w))"

definition is_uint32 :: "real \<Rightarrow> bool" where
  "is_uint32 r \<longleftrightarrow> r = of_int \<lfloor>r\<rfloor> \<and> 0 \<le> r \<and> r < 2 ^ 32"

fun unmarshal_uint32 :: "jvalue \<Rightarrow> go_uint32 \<Rightarrow> json_error + go_uint32" where
  "unmarshal_uint32 JNull cur = Inr cur"
| "unmarshal_uint32 (JNum r) cur =
     (if is_uint32 r then Inr (word_of_int \<lfloor>r\<rfloor>) else type_error (JNum r) ''uint32'')"
| "unmarshal_uint32 j cur = type_error j ''uint32''"

fun unmarshal_string :: "jvalue \<Rightarrow> string \<Rightarrow> json_error + string" where
  "unmarshal_string JNull cur = Inr cur"
| "unmarshal_string (JStr s) cur = Inr s"
| "unmarshal_string j cur = type_error j ''string''"

text \<open>A string field: \<open>json.Marshal\<close> writes it coerced to valid UTF-8.\<close>

definition marshal_string :: "string \<Rightarrow> jvalue" where
  "marshal_string s = JStr (utf8_coerce s)"

fun unmarshal_bool :: "jvalue \<Rightarrow> bool \<Rightarrow> json_error + bool" where
  "unmarshal_bool JNull cur = Inr cur"
| "unmarshal_bool (JBool b) cur = Inr b"
| "unmarshal_bool j cur = type_error j ''bool''"

section \<open>Slices\<close>

fun marshal_elems :: "('a \<Rightarrow> json_error + jvalue) \<Rightarrow> 'a list \<Rightarrow> json_error + jvalue list" where
  "marshal_elems enc [] = Inr []"
| "marshal_elems enc (x # xs) =
     sbind (enc x) (\<lambda>j. map_sum id (Cons j) (marshal_elems enc xs))"

text \<open>A \<open>nil\<close> slice is written as \<open>null\<close>, a non-nil one as an array.\<close>

definition marshal_slice :: "('a \<Rightarrow> json_error + jvalue) \<Rightarrow> 'a slice \<Rightarrow> json_error + jvalue" where
  "marshal_slice enc s =
     (case s of None \<Rightarrow> Inr JNull | Some xs \<Rightarrow> map_sum id JArr (marshal_elems enc xs))"

text \<open>Element \<open>i\<close> is decoded into the slice's old element \<open>i\<close> if there is one, else into
  the zero value \<open>z\<close>; the result has as many elements as the array.\<close>

fun decode_elems ::
  "(jvalue \<Rightarrow> 'a \<Rightarrow> json_error + 'a) \<Rightarrow> 'a \<Rightarrow> jvalue list \<Rightarrow> 'a list \<Rightarrow> json_error + 'a list" where
  "decode_elems dec z [] olds = Inr []"
| "decode_elems dec z (j # js) olds =
     sbind (dec j (case olds of [] \<Rightarrow> z | old # _ \<Rightarrow> old))
       (\<lambda>x. map_sum id (Cons x) (decode_elems dec z js (tl olds)))"

definition unmarshal_slice ::
  "string \<Rightarrow> (jvalue \<Rightarrow> 'a \<Rightarrow> json_error + 'a) \<Rightarrow> 'a \<Rightarrow> jvalue \<Rightarrow> 'a slice \<Rightarrow> json_error + 'a slice" where
  "unmarshal_slice ty dec z j cur =
     (case j of
        JNull \<Rightarrow> Inr None
      | JArr js \<Rightarrow> map_sum id Some (decode_elems dec z js (case cur of None \<Rightarrow> [] | Some xs \<Rightarrow> xs))
      | _ \<Rightarrow> type_error j ty)"

section \<open>Structs\<close>

type_synonym 'r field_decoder = "jvalue \<Rightarrow> 'r \<Rightarrow> json_error + 'r"

text \<open>Go's \<open>foldName\<close> on ASCII: lower-case letters are upper-cased.\<close>

definition ascii_upper :: "char \<Rightarrow> char" where
  "ascii_upper c =
     (if 97 \<le> (of_char c :: nat) \<and> (of_char c :: nat) \<le> 122 then char_of (of_char c - 32 :: nat) else c)"

definition fold_name :: "string \<Rightarrow> string" where
  "fold_name s = map ascii_upper s"

definition lookup_field :: "(string \<times> 'r field_decoder) list \<Rightarrow> string \<Rightarrow> 'r field_decoder option" where
  "lookup_field fs k =
     (case map_of fs k of
        Some d \<Rightarrow> Some d
      | None \<Rightarrow> map_option snd (find (\<lambda>(t, d). fold_name t = fold_name k) fs))"

fun decode_members ::
  "(string \<times> 'r field_decoder) list \<Rightarrow> (string \<times> jvalue) list \<Rightarrow> 'r \<Rightarrow> json_error + 'r" where
  "decode_members fs [] r = Inr r"
| "decode_members fs ((k, v) # kvs) r =
     (case lookup_field fs k of
        None \<Rightarrow> decode_members fs kvs r
      | Some d \<Rightarrow> sbind (d v r) (decode_members fs kvs))"

definition unmarshal_struct ::
  "string \<Rightarrow> (string \<times> 'r field_decoder) list \<Rightarrow> jvalue \<Rightarrow> 'r \<Rightarrow> json_error + 'r" where
  "unmarshal_struct ty fs j r =
     (case j of
        JNull \<Rightarrow> Inr r
      | JObj kvs \<Rightarrow> decode_members fs kvs r
      | _ \<Rightarrow> type_error j ty)"

text \<open>One field: decode into the field's current value and store the result.\<close>

definition field ::
  "(jvalue \<Rightarrow> 'a \<Rightarrow> json_error + 'a) \<Rightarrow> ('r \<Rightarrow> 'a) \<Rightarrow> ('a \<Rightarrow> 'r \<Rightarrow> 'r) \<Rightarrow> 'r field_decoder" where
  "field dec get put v r = map_sum id (\<lambda>x. put x r) (dec v (get r))"

section \<open>Round trips of the leaves\<close>

lemma unmarshal_marshal_f64 [wire_simps]:
  "marshal_f64 x = Inr j \<Longrightarrow> f64_wf x \<Longrightarrow> unmarshal_f64 j c = Inr x"
  by (cases x) auto

lemma marshal_f64_eq_Inr: "marshal_f64 x = Inr j \<longleftrightarrow> (\<exists>r. x = Fin r \<and> j = JNum r)"
  by (cases x) auto

lemma marshal_f64_finite: "(\<exists>j. marshal_f64 x = Inr j) \<longleftrightarrow> f64_finite x"
  by (cases x) auto

lemma is_int64_sint: "is_int64 (of_int (sint (w::go_int)))"
  using sint_ge [of w] sint_lt [of w] by (simp add: is_int64_def)

lemma word_of_int_sint: "word_of_int (sint w) = w"
  by (simp add: of_int_sint)

lemma unmarshal_marshal_int [wire_simps]: "unmarshal_int (marshal_int w) c = Inr w"
  by (simp add: marshal_int_def is_int64_sint word_of_int_sint)

lemma is_uint32_unat: "is_uint32 (of_nat (unat (w::go_uint32)))"
proof -
  have "unat w < 2 ^ 32" using unsigned_less [of w] by simp
  then have "real (unat w) < 2 ^ 32" by (simp add: of_nat_less_iff [symmetric])
  then show ?thesis by (simp add: is_uint32_def)
qed

lemma unmarshal_marshal_uint32 [wire_simps]: "unmarshal_uint32 (marshal_uint32 w) c = Inr w"
proof -
  have "\<lfloor>real (unat w)\<rfloor> = int (unat w)" by simp
  moreover have "word_of_int (int (unat w)) = w"
    by (simp add: uint_nat [symmetric] word_of_int_uint)
  ultimately show ?thesis using is_uint32_unat [of w] by (simp add: marshal_uint32_def)
qed

lemma unmarshal_string_JStr [wire_simps]: "unmarshal_string (JStr s) c = Inr s"
  by simp

lemma unmarshal_marshal_string [wire_simps]:
  "utf8_valid s \<Longrightarrow> unmarshal_string (marshal_string s) c = Inr s"
  by (simp add: marshal_string_def utf8_coerce_valid)

text \<open>The value-level string is what the bytes \<open>json.Marshal\<close> writes decode to.\<close>

lemma marshal_string_bytes: "marshal_string s = JStr t \<Longrightarrow> json_unquote (json_quote s) = Some t"
  by (simp add: marshal_string_def json_string_roundtrip)

lemma unmarshal_bool_JBool [wire_simps]: "unmarshal_bool (JBool b) c = Inr b"
  by simp

section \<open>Slices\<close>

lemma decode_elems_marshal:
  assumes "marshal_elems enc xs = Inr js"
    and "\<And>x j c. x \<in> set xs \<Longrightarrow> enc x = Inr j \<Longrightarrow> dec j c = Inr x"
  shows "decode_elems dec z js olds = Inr xs"
  using assms
proof (induction xs arbitrary: js olds)
  case Nil
  then show ?case by simp
next
  case (Cons x xs)
  from Cons.prems(1) obtain j js' where ej: "enc x = Inr j"
    and rest: "marshal_elems enc xs = Inr js'" and js: "js = j # js'"
    by (auto simp: sum_conv)
  have "decode_elems dec z js' (tl olds) = Inr xs"
    using rest Cons.prems(2) by (intro Cons.IH) auto
  moreover have "dec j c = Inr x" for c
    using ej Cons.prems(2) by simp
  ultimately show ?case using js by simp
qed

lemma decode_elems_length: "decode_elems dec z js olds = Inr ys \<Longrightarrow> length ys = length js"
  by (induction js arbitrary: olds ys) (auto simp: sum_conv)

lemma unmarshal_marshal_slice [wire_simps]:
  assumes "marshal_slice enc s = Inr j"
    and "\<And>x j c. x \<in> set (case s of None \<Rightarrow> [] | Some xs \<Rightarrow> xs) \<Longrightarrow> enc x = Inr j \<Longrightarrow> dec j c = Inr x"
  shows "unmarshal_slice ty dec z j cur = Inr s"
proof (cases s)
  case None
  with assms(1) show ?thesis by (simp add: marshal_slice_def unmarshal_slice_def)
next
  case (Some xs)
  with assms(1) obtain js where m: "marshal_elems enc xs = Inr js" and j: "j = JArr js"
    by (auto simp: marshal_slice_def sum_conv)
  have "decode_elems dec z js (case cur of None \<Rightarrow> [] | Some ys \<Rightarrow> ys) = Inr xs"
    using m assms(2) Some by (intro decode_elems_marshal) auto
  with Some j show ?thesis by (simp add: unmarshal_slice_def)
qed

lemma marshal_elems_Inr_iff: "(\<exists>js. marshal_elems enc xs = Inr js) \<longleftrightarrow> (\<forall>x \<in> set xs. \<exists>j. enc x = Inr j)"
  by (induction xs) (auto simp: sum_conv)

lemma marshal_slice_Inr_iff:
  "(\<exists>j. marshal_slice enc s = Inr j) \<longleftrightarrow> (\<forall>xs. s = Some xs \<longrightarrow> (\<forall>x \<in> set xs. \<exists>j. enc x = Inr j))"
  by (cases s) (auto simp: marshal_slice_def map_sum_eq_Inr_conv marshal_elems_Inr_iff)

section \<open>Struct fields\<close>

lemma lookup_field_exact [wire_simps]: "map_of fs k = Some d \<Longrightarrow> lookup_field fs k = Some d"
  by (simp add: lookup_field_def)

lemma field_Inr [wire_simps]: "dec v (get r) = Inr x \<Longrightarrow> field dec get put v r = Inr (put x r)"
  by (simp add: field_def)

lemma decode_members_unknown:
  "lookup_field fs k = None \<Longrightarrow> decode_members fs ((k, v) # kvs) r = decode_members fs kvs r"
  by simp

lemma unmarshal_struct_null: "unmarshal_struct ty fs JNull r = Inr r"
  by (simp add: unmarshal_struct_def)

lemmas unmarshal_leaf_simps [wire_simps] = unmarshal_f64.simps unmarshal_int.simps
  unmarshal_uint32.simps unmarshal_string.simps unmarshal_bool.simps

end
