(* ===== verification/Request.thy ===== *)
theory Request
  imports Json
begin

text \<open>
  The request side of the wire format (\<open>src/client.go\<close> lines 79--109): the structs
  \<open>Carton\<close>, \<open>PackingConstraints\<close>, \<open>PackingOptions\<close> and \<open>PackingRequest\<close> as
  records, their zero values, and what \<open>json.Marshal\<close> and \<open>json.Unmarshal\<close> do with them
  under the struct tags. \<open>request_wf\<close> says that every \<open>float64\<close> field is a
  \<open>float64\<close>; \<open>request_finite\<close> that none is NaN or infinite, which is exactly when
  marshalling succeeds.
\<close>

record carton =
  carton_id :: string
  carton_length :: f64
  carton_width :: f64
  carton_height :: f64
  carton_weight :: f64
  carton_quantity :: go_int
  carton_fragile :: bool
  carton_allow_rotation :: bool

record packing_constraints =
  max_length :: f64
  max_width :: f64
  max_height :: f64
  max_weight :: f64

record packing_options =
  support_percentage :: f64

record packing_request =
  cartons :: "carton slice"
  packing_constraints :: packing_constraints
  packing_options :: packing_options

definition zero_carton :: carton where
  "zero_carton = \<lparr>carton_id = [], carton_length = Fin 0, carton_width = Fin 0,
     carton_height = Fin 0, carton_weight = Fin 0, carton_quantity = 0,
     carton_fragile = False, carton_allow_rotation = False\<rparr>"

definition zero_constraints :: packing_constraints where
  "zero_constraints = \<lparr>max_length = Fin 0, max_width = Fin 0, max_height = Fin 0, max_weight = Fin 0\<rparr>"

definition zero_options :: packing_options where
  "zero_options = \<lparr>support_percentage = Fin 0\<rparr>"

definition zero_request :: packing_request where
  "zero_request = \<lparr>cartons = None, packing_constraints = zero_constraints,
     packing_options = zero_options\<rparr>"

section \<open>Marshal\<close>

definition marshal_carton :: "carton \<Rightarrow> json_error + jvalue" where
  "marshal_carton c =
     sbind (marshal_f64 (carton_length c)) (\<lambda>l.
     sbind (marshal_f64 (carton_width c)) (\<lambda>w.
     sbind (marshal_f64 (carton_height c)) (\<lambda>h.
     sbind (marshal_f64 (carton_weight c)) (\<lambda>g.
       Inr (JObj [(''id'', marshal_string (carton_id c)), (''length'', l), (''width'', w),
         (''height'', h), (''weight'', g), (''quantity'', marshal_int (carton_quantity c)),
         (''fragile'', JBool (carton_fragile c)),
         (''allow_rotation'', JBool (carton_allow_rotation c))])))))"

definition marshal_constraints :: "packing_constraints \<Rightarrow> json_error + jvalue" where
  "marshal_constraints p =
     sbind (marshal_f64 (max_length p)) (\<lambda>l.
     sbind (marshal_f64 (max_width p)) (\<lambda>w.
     sbind (marshal_f64 (max_height p)) (\<lambda>h.
     sbind (marshal_f64 (max_weight p)) (\<lambda>g.
       Inr (JObj [(''max_length'', l), (''max_width'', w), (''max_height'', h),
         (''max_weight'', g)])))))"

definition marshal_options :: "packing_options \<Rightarrow> json_error + jvalue" where
  "marshal_options o' =
     sbind (marshal_f64 (support_percentage o')) (\<lambda>s. Inr (JObj [(''support_percentage'', s)]))"

definition marshal_request :: "packing_request \<Rightarrow> json_error + jvalue" where
  "marshal_request r =
     sbind (marshal_slice marshal_carton (cartons r)) (\<lambda>cs.
     sbind (marshal_constraints (packing_constraints r)) (\<lambda>pc.
     sbind (marshal_options (packing_options r)) (\<lambda>po.
       Inr (JObj [(''cartons'', cs), (''packing_constraints'', pc), (''packing_options'', po)]))))"

text \<open>\<open>json.Marshal\<close> of a \<open>*PackingRequest\<close>: a nil pointer is written as \<open>null\<close>.\<close>

definition marshal_request_ptr :: "packing_request option \<Rightarrow> json_error + jvalue" where
  "marshal_request_ptr p = (case p of None \<Rightarrow> Inr JNull | Some r \<Rightarrow> marshal_request r)"

section \<open>Unmarshal\<close>

definition carton_fields :: "(string \<times> carton field_decoder) list" where
  "carton_fields =
     [(''id'', field unmarshal_string carton_id (\<lambda>x r. r\<lparr>carton_id := x\<rparr>)),
      (''length'', field unmarshal_f64 carton_length (\<lambda>x r. r\<lparr>carton_length := x\<rparr>)),
      (''width'', field unmarshal_f64 carton_width (\<lambda>x r. r\<lparr>carton_width := x\<rparr>)),
      (''height'', field unmarshal_f64 carton_height (\<lambda>x r. r\<lparr>carton_height := x\<rparr>)),
      (''weight'', field unmarshal_f64 carton_weight (\<lambda>x r. r\<lparr>carton_weight := x\<rparr>)),
      (''quantity'', field unmarshal_int carton_quantity (\<lambda>x r. r\<lparr>carton_quantity := x\<rparr>)),
      (''fragile'', field unmarshal_bool carton_fragile (\<lambda>x r. r\<lparr>carton_fragile := x\<rparr>)),
      (''allow_rotation'', field unmarshal_bool carton_allow_rotation
         (\<lambda>x r. r\<lparr>carton_allow_rotation := x\<rparr>))]"

definition unmarshal_carton :: "jvalue \<Rightarrow> carton \<Rightarrow> json_error + carton" where
  "unmarshal_carton = unmarshal_struct ''palletizer.Carton'' carton_fields"

definition constraints_fields :: "(string \<times> packing_constraints field_decoder) list" where
  "constraints_fields =
     [(''max_length'', field unmarshal_f64 max_length (\<lambda>x r. r\<lparr>max_length := x\<rparr>)),
      (''max_width'', field unmarshal_f64 max_width (\<lambda>x r. r\<lparr>max_width := x\<rparr>)),
      (''max_height'', field unmarshal_f64 max_height (\<lambda>x r. r\<lparr>max_height := x\<rparr>)),
      (''max_weight'', field unmarshal_f64 max_weight (\<lambda>x r. r\<lparr>max_weight := x\<rparr>))]"

definition unmarshal_constraints :: "jvalue \<Rightarrow> packing_constraints \<Rightarrow> json_error + packing_constraints" where
  "unmarshal_constraints = unmarshal_struct ''palletizer.PackingConstraints'' constraints_fields"

definition options_fields :: "(string \<times> packing_options field_decoder) list" where
  "options_fields =
     [(''support_percentage'', field unmarshal_f64 support_percentage
        (\<lambda>x r. r\<lparr>support_percentage := x\<rparr>))]"

definition unmarshal_options :: "jvalue \<Rightarrow> packing_options \<Rightarrow> json_error + packing_options" where
  "unmarshal_options = unmarshal_struct ''palletizer.PackingOptions'' options_fields"

definition request_fields :: "(string \<times> packing_request field_decoder) list" where
  "request_fields =
     [(''cartons'', field (unmarshal_slice ''[]palletizer.Carton'' unmarshal_carton zero_carton)
        cartons (\<lambda>x r. r\<lparr>cartons := x\<rparr>)),
      (''packing_constraints'', field unmarshal_constraints packing_constraints
        (\<lambda>x r. r\<lparr>packing_constraints := x\<rparr>)),
      (''packing_options'', field unmarshal_options packing_options
        (\<lambda>x r. r\<lparr>packing_options := x\<rparr>))]"

definition unmarshal_request :: "jvalue \<Rightarrow> packing_request \<Rightarrow> json_error + packing_request" where
  "unmarshal_request = unmarshal_struct ''palletizer.PackingRequest'' request_fields"

section \<open>Invariants\<close>

definition carton_wf :: "carton \<Rightarrow> bool" where
  "carton_wf c \<longleftrightarrow> utf8_valid (carton_id c) \<and> f64_wf (carton_length c) \<and>
     f64_wf (carton_width c) \<and> f64_wf (carton_height c) \<and> f64_wf (carton_weight c)"

definition constraints_wf :: "packing_constraints \<Rightarrow> bool" where
  "constraints_wf p \<longleftrightarrow> f64_wf (max_length p) \<and> f64_wf (max_width p) \<and>
     f64_wf (max_height p) \<and> f64_wf (max_weight p)"

definition slice_all :: "('a \<Rightarrow> bool) \<Rightarrow> 'a slice \<Rightarrow> bool" where
  "slice_all P s = (case s of None \<Rightarrow> True | Some xs \<Rightarrow> list_all P xs)"

definition request_wf :: "packing_request \<Rightarrow> bool" where
  "request_wf r \<longleftrightarrow> slice_all carton_wf (cartons r) \<and> constraints_wf (packing_constraints r) \<and>
     f64_wf (support_percentage (packing_options r))"

definition carton_finite :: "carton \<Rightarrow> bool" where
  "carton_finite c \<longleftrightarrow> f64_finite (carton_length c) \<and> f64_finite (carton_width c) \<and>
     f64_finite (carton_height c) \<and> f64_finite (carton_weight c)"

definition request_finite :: "packing_request \<Rightarrow> bool" where
  "request_finite r \<longleftrightarrow> slice_all carton_finite (cartons r) \<and>
     f64_finite (max_length (packing_constraints r)) \<and> f64_finite (max_width (packing_constraints r)) \<and>
     f64_finite (max_height (packing_constraints r)) \<and> f64_finite (max_weight (packing_constraints r)) \<and>
     f64_finite (support_percentage (packing_options r))"

section \<open>Marshalling fails exactly on NaN and infinities\<close>

lemma f64_finite_iff: "f64_finite x \<longleftrightarrow> (\<exists>r. x = Fin r)"
  by (cases x) auto

lemma marshal_carton_Inr_iff: "(\<exists>j. marshal_carton c = Inr j) \<longleftrightarrow> carton_finite c"
  by (auto simp: marshal_carton_def carton_finite_def sum_conv marshal_f64_eq_Inr f64_finite_iff)

lemma marshal_constraints_Inr_iff:
  "(\<exists>j. marshal_constraints p = Inr j) \<longleftrightarrow>
     f64_finite (max_length p) \<and> f64_finite (max_width p) \<and> f64_finite (max_height p) \<and>
     f64_finite (max_weight p)"
  by (auto simp: marshal_constraints_def sum_conv marshal_f64_eq_Inr f64_finite_iff)

lemma marshal_options_Inr_iff:
  "(\<exists>j. marshal_options p = Inr j) \<longleftrightarrow> f64_finite (support_percentage p)"
  by (auto simp: marshal_options_def sum_conv marshal_f64_eq_Inr f64_finite_iff)

lemma marshal_cartons_Inr_iff:
  "(\<exists>j. marshal_slice marshal_carton s = Inr j) \<longleftrightarrow> slice_all carton_finite s"
  by (simp add: marshal_slice_Inr_iff slice_all_def marshal_carton_Inr_iff list_all_iff
      split: option.splits)

lemma marshal_request_Inr_iff: "(\<exists>j. marshal_request r = Inr j) \<longleftrightarrow> request_finite r"
proof -
  have "(\<exists>j. marshal_request r = Inr j) \<longleftrightarrow>
     (\<exists>j. marshal_slice marshal_carton (cartons r) = Inr j) \<and>
     (\<exists>j. marshal_constraints (packing_constraints r) = Inr j) \<and>
     (\<exists>j. marshal_options (packing_options r) = Inr j)"
    by (auto simp: marshal_request_def sum_conv)
  then show ?thesis
    by (simp add: marshal_cartons_Inr_iff marshal_constraints_Inr_iff marshal_options_Inr_iff
        request_finite_def)
qed

lemma marshal_request_parts:
  "marshal_request r = Inr j \<longleftrightarrow>
     (\<exists>cs pc po. marshal_slice marshal_carton (cartons r) = Inr cs \<and>
        marshal_constraints (packing_constraints r) = Inr pc \<and>
        marshal_options (packing_options r) = Inr po \<and>
        j = JObj [(''cartons'', cs), (''packing_constraints'', pc), (''packing_options'', po)])"
  by (auto simp: marshal_request_def sum_conv)

section \<open>Round trips\<close>

lemma unmarshal_marshal_carton:
  assumes "carton_wf c" and "marshal_carton c = Inr j"
  shows "unmarshal_carton j c0 = Inr c"
proof -
  from assms(2) obtain l w h g where
    "carton_length c = Fin l" "carton_width c = Fin w" "carton_height c = Fin h"
    "carton_weight c = Fin g"
    and "j = JObj [(''id'', marshal_string (carton_id c)), (''length'', JNum l), (''width'', JNum w),
         (''height'', JNum h), (''weight'', JNum g), (''quantity'', marshal_int (carton_quantity c)),
         (''fragile'', JBool (carton_fragile c)),
         (''allow_rotation'', JBool (carton_allow_rotation c))]"
    by (auto simp: marshal_carton_def sum_conv marshal_f64_eq_Inr)
  with assms(1) show ?thesis
    by (simp add: carton_wf_def unmarshal_carton_def unmarshal_struct_def carton_fields_def
        lookup_field_def field_def unmarshal_marshal_int unmarshal_marshal_string)
qed

lemma unmarshal_marshal_constraints:
  assumes "constraints_wf p" and "marshal_constraints p = Inr j"
  shows "unmarshal_constraints j p0 = Inr p"
proof -
  from assms(2) obtain l w h g where
    "max_length p = Fin l" "max_width p = Fin w" "max_height p = Fin h" "max_weight p = Fin g"
    and "j = JObj [(''max_length'', JNum l), (''max_width'', JNum w), (''max_height'', JNum h),
         (''max_weight'', JNum g)]"
    by (auto simp: marshal_constraints_def sum_conv marshal_f64_eq_Inr)
  with assms(1) show ?thesis
    by (simp add: constraints_wf_def unmarshal_constraints_def unmarshal_struct_def
        constraints_fields_def lookup_field_def field_def)
qed

lemma unmarshal_marshal_options:
  assumes "f64_wf (support_percentage p)" and "marshal_options p = Inr j"
  shows "unmarshal_options j p0 = Inr p"
proof -
  from assms(2) obtain s where "support_percentage p = Fin s"
    and "j = JObj [(''support_percentage'', JNum s)]"
    by (auto simp: marshal_options_def sum_conv marshal_f64_eq_Inr)
  with assms(1) show ?thesis
    by (simp add: unmarshal_options_def unmarshal_struct_def options_fields_def
        lookup_field_def field_def)
qed

lemma unmarshal_marshal_cartons:
  assumes "slice_all carton_wf s" and "marshal_slice marshal_carton s = Inr j"
  shows "unmarshal_slice ty unmarshal_carton z j cur = Inr s"
  using assms(2)
proof (rule unmarshal_marshal_slice)
  fix x j' c
  assume "x \<in> set (case s of None \<Rightarrow> [] | Some xs \<Rightarrow> xs)" and "marshal_carton x = Inr j'"
  moreover from calculation(1) assms(1) have "carton_wf x"
    by (auto simp: slice_all_def list_all_iff split: option.splits)
  ultimately show "unmarshal_carton j' c = Inr x"
    by (intro unmarshal_marshal_carton) auto
qed

section \<open>Properties\<close>

text \<open>C10: Schema fidelity of the request: a well-formed request (every float a float64, every
  carton ID valid UTF-8, which json.Marshal would otherwise alter) that marshals decodes back
  to itself, from any value it is decoded into.\<close>

theorem request_roundtrip:
  assumes "request_wf r" and "marshal_request r = Inr j"
  shows "unmarshal_request j r0 = Inr r"
proof -
  from assms(2) obtain cs pc po where cs: "marshal_slice marshal_carton (cartons r) = Inr cs"
    and pc: "marshal_constraints (packing_constraints r) = Inr pc"
    and po: "marshal_options (packing_options r) = Inr po"
    and j: "j = JObj [(''cartons'', cs), (''packing_constraints'', pc), (''packing_options'', po)]"
    by (auto simp: marshal_request_parts)
  have "unmarshal_slice ''[]palletizer.Carton'' unmarshal_carton zero_carton cs x = Inr (cartons r)" for x
    using assms(1) cs by (intro unmarshal_marshal_cartons) (simp_all add: request_wf_def)
  moreover have "unmarshal_constraints pc x = Inr (packing_constraints r)" for x
    using assms(1) pc by (intro unmarshal_marshal_constraints) (simp_all add: request_wf_def)
  moreover have "unmarshal_options po x = Inr (packing_options r)" for x
    using assms(1) po by (intro unmarshal_marshal_options) (simp_all add: request_wf_def)
  ultimately show ?thesis using j
    by (simp add: unmarshal_request_def unmarshal_struct_def request_fields_def
        lookup_field_def field_def)
qed

text \<open>C12: Marshalling a request fails exactly when one of its float64 fields is NaN or
  infinite.\<close>

theorem marshal_request_fails_iff_not_finite:
  "(\<exists>e. marshal_request r = Inl e) \<longleftrightarrow> \<not> request_finite r"
  using marshal_request_Inr_iff [of r] by (cases "marshal_request r") auto

end
