(* ===== verification/Response.thy ===== *)
theory Response
  imports Json
begin

text \<open>
  The response side of the wire format (\<open>src/client.go\<close> lines 111--182): \<open>Point3D\<close>,
  \<open>Dimensions\<close>, \<open>PlacedCarton\<close>, \<open>Pallet\<close>, \<open>PackingSummary\<close>,
  \<open>PackingResponse\<close>, and the auxiliary \<open>HealthResponse\<close> and \<open>MetricsResponse\<close>, as
  records with their zero values, their \<open>json.Marshal\<close> (as the server writes them) and
  their \<open>json.Unmarshal\<close> (as \<open>Pack\<close> reads them). \<open>PackingResponse.Error\<close> carries
  \<open>omitempty\<close>: an empty message is not written at all.
\<close>

record point3d =
  pt_x :: f64
  pt_y :: f64
  pt_z :: f64

record dimensions =
  dim_length :: f64
  dim_width :: f64
  dim_height :: f64

record placed_carton =
  pc_carton_id :: string
  pc_position :: point3d
  pc_dimensions :: dimensions
  pc_orientation :: string
  pc_weight :: f64
  pc_layer :: go_int

record pallet =
  pallet_id :: go_int
  total_weight :: f64
  total_height :: f64
  utilization_percentage :: f64
  pallet_cartons :: "placed_carton slice"
  center_of_gravity :: point3d

record packing_summary =
  total_pallets :: go_int
  total_cartons_packed :: go_int
  average_utilization :: f64
  computation_time_ms :: go_int

record packing_response =
  pallets :: "pallet slice"
  summary :: packing_summary
  error :: string

record health_response =
  health_status :: string

record metrics_response =
  m_total_requests :: go_int
  m_total_cartons :: go_int
  m_total_pallets :: go_int
  m_average_time_ms :: f64
  m_average_util_pct :: f64
  m_success_rate :: f64
  m_uptime_seconds :: go_int
  m_memory_alloc_mb :: f64
  m_memory_sys_mb :: f64
  m_num_goroutines :: go_int
  m_num_gc :: go_uint32
  m_last_gc_pause_ms :: f64
  m_go_version :: string
  m_build_version :: string
  m_build_time :: string

definition zero_point :: point3d where
  "zero_point = \<lparr>pt_x = Fin 0, pt_y = Fin 0, pt_z = Fin 0\<rparr>"

definition zero_dimensions :: dimensions where
  "zero_dimensions = \<lparr>dim_length = Fin 0, dim_width = Fin 0, dim_height = Fin 0\<rparr>"

definition zero_placed :: placed_carton where
  "zero_placed = \<lparr>pc_carton_id = [], pc_position = zero_point, pc_dimensions = zero_dimensions,
     pc_orientation = [], pc_weight = Fin 0, pc_layer = 0\<rparr>"

definition zero_pallet :: pallet where
  "zero_pallet = \<lparr>pallet_id = 0, total_weight = Fin 0, total_height = Fin 0,
     utilization_percentage = Fin 0, pallet_cartons = None, center_of_gravity = zero_point\<rparr>"

definition zero_summary :: packing_summary where
  "zero_summary = \<lparr>total_pallets = 0, total_cartons_packed = 0, average_utilization = Fin 0,
     computation_time_ms = 0\<rparr>"

definition zero_response :: packing_response where
  "zero_response = \<lparr>pallets = None, summary = zero_summary, error = []\<rparr>"

section \<open>Marshal\<close>

definition marshal_point :: "point3d \<Rightarrow> json_error + jvalue" where
  "marshal_point p =
     sbind (marshal_f64 (pt_x p)) (\<lambda>x. sbind (marshal_f64 (pt_y p)) (\<lambda>y.
     sbind (marshal_f64 (pt_z p)) (\<lambda>z. Inr (JObj [(''x'', x), (''y'', y), (''z'', z)]))))"

definition marshal_dimensions :: "dimensions \<Rightarrow> json_error + jvalue" where
  "marshal_dimensions d =
     sbind (marshal_f64 (dim_length d)) (\<lambda>l. sbind (marshal_f64 (dim_width d)) (\<lambda>w.
     sbind (marshal_f64 (dim_height d)) (\<lambda>h.
       Inr (JObj [(''length'', l), (''width'', w), (''height'', h)]))))"

definition marshal_placed :: "placed_carton \<Rightarrow> json_error + jvalue" where
  "marshal_placed c =
     sbind (marshal_point (pc_position c)) (\<lambda>p. sbind (marshal_dimensions (pc_dimensions c)) (\<lambda>d.
     sbind (marshal_f64 (pc_weight c)) (\<lambda>w.
       Inr (JObj [(''carton_id'', marshal_string (pc_carton_id c)), (''position'', p), (''dimensions'', d),
         (''orientation'', marshal_string (pc_orientation c)), (''weight'', w),
         (''layer'', marshal_int (pc_layer c))]))))"

definition marshal_pallet :: "pallet \<Rightarrow> json_error + jvalue" where
  "marshal_pallet p =
     sbind (marshal_f64 (total_weight p)) (\<lambda>tw. sbind (marshal_f64 (total_height p)) (\<lambda>th.
     sbind (marshal_f64 (utilization_percentage p)) (\<lambda>u.
     sbind (marshal_slice marshal_placed (pallet_cartons p)) (\<lambda>cs.
     sbind (marshal_point (center_of_gravity p)) (\<lambda>cg.
       Inr (JObj [(''pallet_id'', marshal_int (pallet_id p)), (''total_weight'', tw),
         (''total_height'', th), (''utilization_percentage'', u), (''cartons'', cs),
         (''center_of_gravity'', cg)]))))))"

definition marshal_summary :: "packing_summary \<Rightarrow> json_error + jvalue" where
  "marshal_summary s =
     sbind (marshal_f64 (average_utilization s)) (\<lambda>a.
       Inr (JObj [(''total_pallets'', marshal_int (total_pallets s)),
         (''total_cartons_packed'', marshal_int (total_cartons_packed s)),
         (''average_utilization'', a), (''computation_time_ms'', marshal_int (computation_time_ms s))]))"

definition marshal_response :: "packing_response \<Rightarrow> json_error + jvalue" where
  "marshal_response r =
     sbind (marshal_slice marshal_pallet (pallets r)) (\<lambda>ps.
     sbind (marshal_summary (summary r)) (\<lambda>s.
       Inr (JObj ([(''pallets'', ps), (''summary'', s)] @
         (if error r = [] then [] else [(''error'', marshal_string (error r))])))))"

section \<open>Unmarshal\<close>

definition point_fields :: "(string \<times> point3d field_decoder) list" where
  "point_fields =
     [(''x'', field unmarshal_f64 pt_x (\<lambda>v r. r\<lparr>pt_x := v\<rparr>)),
      (''y'', field unmarshal_f64 pt_y (\<lambda>v r. r\<lparr>pt_y := v\<rparr>)),
      (''z'', field unmarshal_f64 pt_z (\<lambda>v r. r\<lparr>pt_z := v\<rparr>))]"

definition unmarshal_point :: "jvalue \<Rightarrow> point3d \<Rightarrow> json_error + point3d" where
  "unmarshal_point = unmarshal_struct ''palletizer.Point3D'' point_fields"

definition dimensions_fields :: "(string \<times> dimensions field_decoder) list" where
  "dimensions_fields =
     [(''length'', field unmarshal_f64 dim_length (\<lambda>v r. r\<lparr>dim_length := v\<rparr>)),
      (''width'', field unmarshal_f64 dim_width (\<lambda>v r. r\<lparr>dim_width := v\<rparr>)),
      (''height'', field unmarshal_f64 dim_height (\<lambda>v r. r\<lparr>dim_height := v\<rparr>))]"

definition unmarshal_dimensions :: "jvalue \<Rightarrow> dimensions \<Rightarrow> json_error + dimensions" where
  "unmarshal_dimensions = unmarshal_struct ''palletizer.Dimensions'' dimensions_fields"

definition placed_fields :: "(string \<times> placed_carton field_decoder) list" where
  "placed_fields =
     [(''carton_id'', field unmarshal_string pc_carton_id (\<lambda>v r. r\<lparr>pc_carton_id := v\<rparr>)),
      (''position'', field unmarshal_point pc_position (\<lambda>v r. r\<lparr>pc_position := v\<rparr>)),
      (''dimensions'', field unmarshal_dimensions pc_dimensions (\<lambda>v r. r\<lparr>pc_dimensions := v\<rparr>)),
      (''orientation'', field unmarshal_string pc_orientation (\<lambda>v r. r\<lparr>pc_orientation := v\<rparr>)),
      (''weight'', field unmarshal_f64 pc_weight (\<lambda>v r. r\<lparr>pc_weight := v\<rparr>)),
      (''layer'', field unmarshal_int pc_layer (\<lambda>v r. r\<lparr>pc_layer := v\<rparr>))]"

definition unmarshal_placed :: "jvalue \<Rightarrow> placed_carton \<Rightarrow> json_error + placed_carton" where
  "unmarshal_placed = unmarshal_struct ''palletizer.PlacedCarton'' placed_fields"

definition pallet_fields :: "(string \<times> pallet field_decoder) list" where
  "pallet_fields =
     [(''pallet_id'', field unmarshal_int pallet_id (\<lambda>v r. r\<lparr>pallet_id := v\<rparr>)),
      (''total_weight'', field unmarshal_f64 total_weight (\<lambda>v r. r\<lparr>total_weight := v\<rparr>)),
      (''total_height'', field unmarshal_f64 total_height (\<lambda>v r. r\<lparr>total_height := v\<rparr>)),
      (''utilization_percentage'', field unmarshal_f64 utilization_percentage
         (\<lambda>v r. r\<lparr>utilization_percentage := v\<rparr>)),
      (''cartons'', field (unmarshal_slice ''[]palletizer.PlacedCarton'' unmarshal_placed zero_placed)
         pallet_cartons (\<lambda>v r. r\<lparr>pallet_cartons := v\<rparr>)),
      (''center_of_gravity'', field unmarshal_point center_of_gravity
         (\<lambda>v r. r\<lparr>center_of_gravity := v\<rparr>))]"

definition unmarshal_pallet :: "jvalue \<Rightarrow> pallet \<Rightarrow> json_error + pallet" where
  "unmarshal_pallet = unmarshal_struct ''palletizer.Pallet'' pallet_fields"

definition summary_fields :: "(string \<times> packing_summary field_decoder) list" where
  "summary_fields =
     [(''total_pallets'', field unmarshal_int total_pallets (\<lambda>v r. r\<lparr>total_pallets := v\<rparr>)),
      (''total_cartons_packed'', field unmarshal_int total_cartons_packed
         (\<lambda>v r. r\<lparr>total_cartons_packed := v\<rparr>)),
      (''average_utilization'', field unmarshal_f64 average_utilization
         (\<lambda>v r. r\<lparr>average_utilization := v\<rparr>)),
      (''computation_time_ms'', field unmarshal_int computation_time_ms
         (\<lambda>v r. r\<lparr>computation_time_ms := v\<rparr>))]"

definition unmarshal_summary :: "jvalue \<Rightarrow> packing_summary \<Rightarrow> json_error + packing_summary" where
  "unmarshal_summary = unmarshal_struct ''palletizer.PackingSummary'' summary_fields"

definition response_fields :: "(string \<times> packing_response field_decoder) list" where
  "response_fields =
     [(''pallets'', field (unmarshal_slice ''[]palletizer.Pallet'' unmarshal_pallet zero_pallet)
         pallets (\<lambda>v r. r\<lparr>pallets := v\<rparr>)),
      (''summary'', field unmarshal_summary summary (\<lambda>v r. r\<lparr>summary := v\<rparr>)),
      (''error'', field unmarshal_string error (\<lambda>v r. r\<lparr>error := v\<rparr>))]"

definition unmarshal_response :: "jvalue \<Rightarrow> packing_response \<Rightarrow> json_error + packing_response" where
  "unmarshal_response = unmarshal_struct ''palletizer.PackingResponse'' response_fields"

definition health_fields :: "(string \<times> health_response field_decoder) list" where
  "health_fields = [(''status'', field unmarshal_string health_status (\<lambda>v r. r\<lparr>health_status := v\<rparr>))]"

definition unmarshal_health :: "jvalue \<Rightarrow> health_response \<Rightarrow> json_error + health_response" where
  "unmarshal_health = unmarshal_struct ''palletizer.HealthResponse'' health_fields"

definition metrics_fields :: "(string \<times> metrics_response field_decoder) list" where
  "metrics_fields =
     [(''total_requests'', field unmarshal_int m_total_requests (\<lambda>v r. r\<lparr>m_total_requests := v\<rparr>)),
      (''total_cartons'', field unmarshal_int m_total_cartons (\<lambda>v r. r\<lparr>m_total_cartons := v\<rparr>)),
      (''total_pallets'', field unmarshal_int m_total_pallets (\<lambda>v r. r\<lparr>m_total_pallets := v\<rparr>)),
      (''average_time_ms'', field unmarshal_f64 m_average_time_ms (\<lambda>v r. r\<lparr>m_average_time_ms := v\<rparr>)),
      (''average_util_pct'', field unmarshal_f64 m_average_util_pct
         (\<lambda>v r. r\<lparr>m_average_util_pct := v\<rparr>)),
      (''success_rate'', field unmarshal_f64 m_success_rate (\<lambda>v r. r\<lparr>m_success_rate := v\<rparr>)),
      (''uptime_seconds'', field unmarshal_int m_uptime_seconds (\<lambda>v r. r\<lparr>m_uptime_seconds := v\<rparr>)),
      (''memory_alloc_mb'', field unmarshal_f64 m_memory_alloc_mb (\<lambda>v r. r\<lparr>m_memory_alloc_mb := v\<rparr>)),
      (''memory_sys_mb'', field unmarshal_f64 m_memory_sys_mb (\<lambda>v r. r\<lparr>m_memory_sys_mb := v\<rparr>)),
      (''num_goroutines'', field unmarshal_int m_num_goroutines (\<lambda>v r. r\<lparr>m_num_goroutines := v\<rparr>)),
      (''num_gc'', field unmarshal_uint32 m_num_gc (\<lambda>v r. r\<lparr>m_num_gc := v\<rparr>)),
      (''last_gc_pause_ms'', field unmarshal_f64 m_last_gc_pause_ms (\<lambda>v r. r\<lparr>m_last_gc_pause_ms := v\<rparr>)),
      (''go_version'', field unmarshal_string m_go_version (\<lambda>v r. r\<lparr>m_go_version := v\<rparr>)),
      (''build_version'', field unmarshal_string m_build_version (\<lambda>v r. r\<lparr>m_build_version := v\<rparr>)),
      (''build_time'', field unmarshal_string m_build_time (\<lambda>v r. r\<lparr>m_build_time := v\<rparr>))]"

definition unmarshal_metrics :: "jvalue \<Rightarrow> metrics_response \<Rightarrow> json_error + metrics_response" where
  "unmarshal_metrics = unmarshal_struct ''palletizer.MetricsResponse'' metrics_fields"

section \<open>Invariants\<close>

definition point_wf :: "point3d \<Rightarrow> bool" where
  "point_wf p \<longleftrightarrow> f64_wf (pt_x p) \<and> f64_wf (pt_y p) \<and> f64_wf (pt_z p)"

definition dimensions_wf :: "dimensions \<Rightarrow> bool" where
  "dimensions_wf d \<longleftrightarrow> f64_wf (dim_length d) \<and> f64_wf (dim_width d) \<and> f64_wf (dim_height d)"

definition placed_wf :: "placed_carton \<Rightarrow> bool" where
  "placed_wf c \<longleftrightarrow> utf8_valid (pc_carton_id c) \<and> utf8_valid (pc_orientation c) \<and>
     point_wf (pc_position c) \<and> dimensions_wf (pc_dimensions c) \<and> f64_wf (pc_weight c)"

definition pallet_wf :: "pallet \<Rightarrow> bool" where
  "pallet_wf p \<longleftrightarrow> f64_wf (total_weight p) \<and> f64_wf (total_height p) \<and>
     f64_wf (utilization_percentage p) \<and>
     (case pallet_cartons p of None \<Rightarrow> True | Some cs \<Rightarrow> list_all placed_wf cs) \<and>
     point_wf (center_of_gravity p)"

definition response_wf :: "packing_response \<Rightarrow> bool" where
  "response_wf r \<longleftrightarrow> (case pallets r of None \<Rightarrow> True | Some ps \<Rightarrow> list_all pallet_wf ps) \<and>
     f64_wf (average_utilization (summary r)) \<and> utf8_valid (error r)"

section \<open>Round trips\<close>

lemma unmarshal_marshal_point:
  assumes "point_wf p" and "marshal_point p = Inr j"
  shows "unmarshal_point j p0 = Inr p"
proof -
  from assms(2) obtain x y z where "pt_x p = Fin x" "pt_y p = Fin y" "pt_z p = Fin z"
    and "j = JObj [(''x'', JNum x), (''y'', JNum y), (''z'', JNum z)]"
    by (auto simp: marshal_point_def sum_conv marshal_f64_eq_Inr)
  with assms(1) show ?thesis
    by (simp add: point_wf_def unmarshal_point_def unmarshal_struct_def point_fields_def
        lookup_field_def field_def)
qed

lemma unmarshal_marshal_dimensions:
  assumes "dimensions_wf d" and "marshal_dimensions d = Inr j"
  shows "unmarshal_dimensions j d0 = Inr d"
proof -
  from assms(2) obtain l w h where "dim_length d = Fin l" "dim_width d = Fin w" "dim_height d = Fin h"
    and "j = JObj [(''length'', JNum l), (''width'', JNum w), (''height'', JNum h)]"
    by (auto simp: marshal_dimensions_def sum_conv marshal_f64_eq_Inr)
  with assms(1) show ?thesis
    by (simp add: dimensions_wf_def unmarshal_dimensions_def unmarshal_struct_def
        dimensions_fields_def lookup_field_def field_def)
qed

lemma unmarshal_marshal_placed:
  assumes "placed_wf c" and "marshal_placed c = Inr j"
  shows "unmarshal_placed j c0 = Inr c"
proof -
  from assms(2) obtain p d w where p: "marshal_point (pc_position c) = Inr p"
    and d: "marshal_dimensions (pc_dimensions c) = Inr d" and "pc_weight c = Fin w"
    and "j = JObj [(''carton_id'', marshal_string (pc_carton_id c)), (''position'', p), (''dimensions'', d),
         (''orientation'', marshal_string (pc_orientation c)), (''weight'', JNum w),
         (''layer'', marshal_int (pc_layer c))]"
    by (auto simp: marshal_placed_def sum_conv marshal_f64_eq_Inr)
  moreover have "unmarshal_point p x = Inr (pc_position c)" for x
    using assms(1) p by (intro unmarshal_marshal_point) (simp_all add: placed_wf_def)
  moreover have "unmarshal_dimensions d x = Inr (pc_dimensions c)" for x
    using assms(1) d by (intro unmarshal_marshal_dimensions) (simp_all add: placed_wf_def)
  ultimately show ?thesis using assms(1)
    by (simp add: placed_wf_def unmarshal_placed_def unmarshal_struct_def placed_fields_def
        lookup_field_def field_def unmarshal_marshal_int unmarshal_marshal_string)
qed

lemma unmarshal_marshal_pallet:
  assumes "pallet_wf p" and "marshal_pallet p = Inr j"
  shows "unmarshal_pallet j p0 = Inr p"
proof -
  from assms(2) obtain tw th u cs cg where "total_weight p = Fin tw" "total_height p = Fin th"
    "utilization_percentage p = Fin u"
    and cs: "marshal_slice marshal_placed (pallet_cartons p) = Inr cs"
    and cg: "marshal_point (center_of_gravity p) = Inr cg"
    and "j = JObj [(''pallet_id'', marshal_int (pallet_id p)), (''total_weight'', JNum tw),
         (''total_height'', JNum th), (''utilization_percentage'', JNum u), (''cartons'', cs),
         (''center_of_gravity'', cg)]"
    by (auto simp: marshal_pallet_def sum_conv marshal_f64_eq_Inr)
  moreover have "unmarshal_slice ty unmarshal_placed zero_placed cs x = Inr (pallet_cartons p)" for ty x
    using cs
  proof (rule unmarshal_marshal_slice)
    fix y j' c
    assume "y \<in> set (case pallet_cartons p of None \<Rightarrow> [] | Some xs \<Rightarrow> xs)" and "marshal_placed y = Inr j'"
    moreover from calculation(1) assms(1) have "placed_wf y"
      by (auto simp: pallet_wf_def list_all_iff split: option.splits)
    ultimately show "unmarshal_placed j' c = Inr y"
      by (intro unmarshal_marshal_placed) auto
  qed
  moreover have "unmarshal_point cg x = Inr (center_of_gravity p)" for x
    using assms(1) cg by (intro unmarshal_marshal_point) (simp_all add: pallet_wf_def)
  ultimately show ?thesis using assms(1)
    by (simp add: pallet_wf_def unmarshal_pallet_def unmarshal_struct_def pallet_fields_def
        lookup_field_def field_def unmarshal_marshal_int)
qed

lemma unmarshal_marshal_summary:
  assumes "f64_wf (average_utilization s)" and "marshal_summary s = Inr j"
  shows "unmarshal_summary j s0 = Inr s"
proof -
  from assms(2) obtain a where "average_utilization s = Fin a"
    and "j = JObj [(''total_pallets'', marshal_int (total_pallets s)),
         (''total_cartons_packed'', marshal_int (total_cartons_packed s)),
         (''average_utilization'', JNum a), (''computation_time_ms'', marshal_int (computation_time_ms s))]"
    by (auto simp: marshal_summary_def sum_conv marshal_f64_eq_Inr)
  with assms(1) show ?thesis
    by (simp add: unmarshal_summary_def unmarshal_struct_def summary_fields_def
        lookup_field_def field_def unmarshal_marshal_int)
qed

text \<open>C11: Schema fidelity of the response: a well-formed response (every float a float64,
  every string valid UTF-8) that marshals decodes back to itself, except that an empty error
  message, which omitempty leaves out, keeps the error field of the value decoded into.\<close>

theorem response_roundtrip:
  assumes "response_wf r" and "marshal_response r = Inr j"
  shows "unmarshal_response j r0 = Inr (if error r = [] then r\<lparr>error := error r0\<rparr> else r)"
proof -
  from assms(2) obtain ps s where ps: "marshal_slice marshal_pallet (pallets r) = Inr ps"
    and s: "marshal_summary (summary r) = Inr s"
    and j: "j = JObj ([(''pallets'', ps), (''summary'', s)] @
         (if error r = [] then [] else [(''error'', marshal_string (error r))]))"
    by (auto simp: marshal_response_def sum_conv)
  have "unmarshal_slice ty unmarshal_pallet zero_pallet ps x = Inr (pallets r)" for ty x
    using ps
  proof (rule unmarshal_marshal_slice)
    fix y j' c
    assume "y \<in> set (case pallets r of None \<Rightarrow> [] | Some xs \<Rightarrow> xs)" and "marshal_pallet y = Inr j'"
    moreover from calculation(1) assms(1) have "pallet_wf y"
      by (auto simp: response_wf_def list_all_iff split: option.splits)
    ultimately show "unmarshal_pallet j' c = Inr y"
      by (intro unmarshal_marshal_pallet) auto
  qed
  moreover have "unmarshal_summary s x = Inr (summary r)" for x
    using assms(1) s by (intro unmarshal_marshal_summary) (simp_all add: response_wf_def)
  moreover have "utf8_valid (error r)" using assms(1) by (simp add: response_wf_def)
  ultimately show ?thesis using j
    by (simp add: unmarshal_response_def unmarshal_struct_def response_fields_def
        lookup_field_def field_def unmarshal_marshal_string)
qed
section \<open>Decoding keys\<close>

lemma response_tags_fold_distinct:
  "fold_name ''pallets'' \<noteq> fold_name ''error''" "fold_name ''summary'' \<noteq> fold_name ''error''"
  by (simp_all add: fold_name_def ascii_upper_def)

text \<open>C17: Keys are matched up to ASCII case: a key that equals "error" up to case sets the
  error field.\<close>

theorem response_key_case_insensitive:
  assumes "fold_name k = fold_name ''error''"
  shows "unmarshal_response (JObj [(k, JStr m)]) r = Inr (r\<lparr>error := m\<rparr>)"
proof -
  have "k \<noteq> ''pallets''" "k \<noteq> ''summary''"
    using assms response_tags_fold_distinct by auto
  then have "lookup_field response_fields k = Some (field unmarshal_string error (\<lambda>v r. r\<lparr>error := v\<rparr>))"
    using assms by (simp add: lookup_field_def response_fields_def response_tags_fold_distinct)
  then show ?thesis
    by (simp add: unmarshal_response_def unmarshal_struct_def field_def)
qed


end
