(* ===== verification/Client.thy ===== *)
theory Client
  imports Request Response
begin

text \<open>
  The API client of \<open>src/client.go\<close>: the \<open>Client\<close> struct and its three constructors
  (lines 43--77) and \<open>Client.Pack\<close> (lines 185--221). The outside world that \<open>Pack\<close>
  calls is a record of functions, \<open>http_env\<close>: the byte-level JSON writer and scanner of
  \<open>encoding/json\<close>, \<open>net/url.Parse\<close> as used by \<open>http.NewRequestWithContext\<close>, and
  one HTTP round trip of \<open>http.Client.Do\<close> with the body that \<open>io.ReadAll\<close> then reads.
  Every property of \<open>Pack\<close> below holds for every such environment, or for every
  environment meeting a stated contract of the Go library. \<open>Pack\<close> returns its outcome
  (a response, an error, or a panic) together with the trace of its I/O events, so that the
  order of the network call, the body read and the deferred \<open>Close\<close> can be stated.
\<close>

section \<open>Clients\<close>

record http_client =
  timeout_seconds :: nat

record client =
  base_url :: string
  http_client :: "http_client option"

definition defaultAPIURL :: string where
  "defaultAPIURL = ''https://api.palletizer.app''"

definition New :: client where
  "New = \<lparr>base_url = defaultAPIURL, http_client = Some \<lparr>timeout_seconds = 120\<rparr>\<rparr>"

definition NewWithEndpoint :: "string \<Rightarrow> client" where
  "NewWithEndpoint u = \<lparr>base_url = u, http_client = Some \<lparr>timeout_seconds = 120\<rparr>\<rparr>"

definition NewWithHTTPClient :: "http_client option \<Rightarrow> client" where
  "NewWithHTTPClient hc = \<lparr>base_url = defaultAPIURL, http_client = hc\<rparr>"

section \<open>Requests, responses and the environment\<close>

text \<open>A \<open>context.Context\<close>: \<open>None\<close> is a nil context.\<close>

datatype ctx_state = CtxActive | CtxCanceled | CtxDeadlineExceeded

type_synonym go_context = "ctx_state option"

record http_request =
  req_method :: string
  req_url :: string
  req_header :: "string \<rightharpoonup> string list"
  req_body :: string
  req_ctx :: ctx_state

text \<open>A response as \<open>Do\<close> returns it; its body is what \<open>io.ReadAll\<close> yields, or the read
  error.\<close>

record http_response =
  resp_status :: int
  resp_body :: "string + string"

record http_env =
  json_text :: "jvalue \<Rightarrow> string"
  json_parse :: "string \<Rightarrow> json_error + jvalue"
  url_parse_error :: "string \<Rightarrow> string option"
  round_trip :: "http_client \<Rightarrow> http_request \<Rightarrow> string + http_response"

text \<open>\<open>httpguts.IsTokenRune\<close>: the characters of an HTTP token.\<close>

definition is_token_char :: "char \<Rightarrow> bool" where
  "is_token_char c \<longleftrightarrow>
     (let n = (of_char c :: nat) in
      (48 \<le> n \<and> n \<le> 57) \<or> (65 \<le> n \<and> n \<le> 90) \<or> (97 \<le> n \<and> n \<le> 122) \<or>
      c \<in> set ''!#$%&'*+-.^_`|~'')"

definition valid_method :: "string \<Rightarrow> bool" where
  "valid_method m \<longleftrightarrow> m \<noteq> [] \<and> list_all is_token_char m"

definition NewRequestWithContext ::
  "http_env \<Rightarrow> go_context \<Rightarrow> string \<Rightarrow> string \<Rightarrow> string \<Rightarrow> string + http_request" where
  \<open>NewRequestWithContext env ctx m u body =
     (if \<not> valid_method m then Inl (''net/http: invalid method "'' @ m @ ''"'')
      else case ctx of
        None \<Rightarrow> Inl ''net/http: nil Context''
      | Some c \<Rightarrow>
          (case url_parse_error env u of
             Some e \<Rightarrow> Inl e
           | None \<Rightarrow> Inr \<lparr>req_method = m, req_url = u, req_header = Map.empty, req_body = body,
                       req_ctx = c\<rparr>))\<close>

definition ascii_lower :: "char \<Rightarrow> char" where
  "ascii_lower c =
     (if 65 \<le> (of_char c :: nat) \<and> (of_char c :: nat) \<le> 90 then char_of (of_char c + 32 :: nat) else c)"

fun canonical_chars :: "bool \<Rightarrow> string \<Rightarrow> string" where
  "canonical_chars upper [] = []"
| "canonical_chars upper (c # cs) =
     (if upper then ascii_upper c else ascii_lower c) # canonical_chars (c = CHR ''-'') cs"

text \<open>\<open>textproto.CanonicalMIMEHeaderKey\<close>: keys with a non-token byte are left alone.\<close>

definition CanonicalMIMEHeaderKey :: "string \<Rightarrow> string" where
  "CanonicalMIMEHeaderKey k = (if list_all is_token_char k then canonical_chars True k else k)"

definition header_set :: "string \<Rightarrow> string \<Rightarrow> (string \<rightharpoonup> string list) \<Rightarrow> (string \<rightharpoonup> string list)" where
  "header_set k v h = h(CanonicalMIMEHeaderKey k \<mapsto> [v])"

section \<open>Pack\<close>

datatype event = EvDo http_request | EvReadBody | EvCloseBody

datatype pack_error =
    ErrMarshal json_error
  | ErrCreateRequest string
  | ErrSend string
  | ErrRead string
  | ErrParse json_error
  | ErrAPI int string
  | ErrStatus int string

datatype pack_outcome = PackOk packing_response | PackErr pack_error | PackPanic string

definition StatusOK :: int where
  "StatusOK = 200"

definition nil_deref :: string where
  "nil_deref = ''runtime error: invalid memory address or nil pointer dereference''"

text \<open>\<open>json.Unmarshal(body, &response)\<close> into a fresh zero \<open>PackingResponse\<close>: the scanner
  checks the whole text first, then the value is decoded.\<close>

definition unmarshal_body :: "http_env \<Rightarrow> string \<Rightarrow> json_error + packing_response" where
  "unmarshal_body env body = sbind (json_parse env body) (\<lambda>j. unmarshal_response j zero_response)"

text \<open>Lines 203--220: read the body, decode it, then look at the status.\<close>

definition read_and_decode :: "http_env \<Rightarrow> http_response \<Rightarrow> pack_outcome" where
  "read_and_decode env resp =
     (case resp_body resp of
        Inl e \<Rightarrow> PackErr (ErrRead e)
      | Inr body \<Rightarrow>
          (case unmarshal_body env body of
             Inl e \<Rightarrow> PackErr (ErrParse e)
           | Inr r \<Rightarrow>
               (if resp_status resp \<noteq> StatusOK then
                  (if error r \<noteq> [] then PackErr (ErrAPI (resp_status resp) (error r))
                   else PackErr (ErrStatus (resp_status resp) body))
                else PackOk r)))"

definition pack_url :: "client \<Rightarrow> string" where
  "pack_url c = base_url c @ ''/api/v1/pack''"

definition with_json_content_type :: "http_request \<Rightarrow> http_request" where
  "with_json_content_type r =
     r\<lparr>req_header := header_set ''Content-Type'' ''application/json'' (req_header r)\<rparr>"

text \<open>Lines 186--195: marshal the request, build the POST and set its content type. An
  error here is returned before any network activity.\<close>

definition prepare_request ::
  "http_env \<Rightarrow> client \<Rightarrow> go_context \<Rightarrow> packing_request option \<Rightarrow> pack_error + http_request" where
  "prepare_request env c ctx request =
     (case marshal_request_ptr request of
        Inl e \<Rightarrow> Inl (ErrMarshal e)
      | Inr j \<Rightarrow>
          (case NewRequestWithContext env ctx ''POST'' (pack_url c) (json_text env j) of
             Inl e \<Rightarrow> Inl (ErrCreateRequest e)
           | Inr req \<Rightarrow> Inr (with_json_content_type req)))"

text \<open>Lines 197--220: one call of \<open>Do\<close> (on a nil \<open>*http.Client\<close> it dereferences
  nil and panics), then, once a response is there, the body is read and decoded, and the
  deferred \<open>Close\<close> runs on the way out.\<close>

definition Pack ::
  "http_env \<Rightarrow> client \<Rightarrow> go_context \<Rightarrow> packing_request option \<Rightarrow> pack_outcome \<times> event list" where
  "Pack env c ctx request =
     (case prepare_request env c ctx request of
        Inl e \<Rightarrow> (PackErr e, [])
      | Inr req \<Rightarrow>
          (case http_client c of
             None \<Rightarrow> (PackPanic nil_deref, [])
           | Some hc \<Rightarrow>
               (case round_trip env hc req of
                  Inl e \<Rightarrow> (PackErr (ErrSend e), [EvDo req])
                | Inr resp \<Rightarrow> (read_and_decode env resp, [EvDo req, EvReadBody, EvCloseBody]))))"

section \<open>Errors as the caller sees them\<close>

fun pack_error_message :: "pack_error \<Rightarrow> string" where
  "pack_error_message (ErrMarshal e) = ''failed to marshal request: '' @ json_error_message e"
| "pack_error_message (ErrCreateRequest e) = ''failed to create request: '' @ e"
| "pack_error_message (ErrSend e) = ''failed to send request: '' @ e"
| "pack_error_message (ErrRead e) = ''failed to read response: '' @ e"
| "pack_error_message (ErrParse e) = ''failed to parse response: '' @ json_error_message e"
| "pack_error_message (ErrAPI s m) = ''API error (status '' @ fmt_d s @ ''): '' @ m"
| "pack_error_message (ErrStatus s b) = ''API returned status '' @ fmt_d s @ '': '' @ b"

text \<open>The error taxonomy of the specification (section 7).\<close>

datatype error_class = TransportError | DecodeError | ApplicationError

fun error_class_of :: "pack_error \<Rightarrow> error_class" where
  "error_class_of (ErrMarshal e) = TransportError"
| "error_class_of (ErrCreateRequest e) = TransportError"
| "error_class_of (ErrSend e) = TransportError"
| "error_class_of (ErrRead e) = TransportError"
| "error_class_of (ErrParse e) = DecodeError"
| "error_class_of (ErrAPI s m) = ApplicationError"
| "error_class_of (ErrStatus s b) = ApplicationError"

section \<open>Contracts of the Go library\<close>

text \<open>\<open>http.Client.Do\<close> with a context that is already done fails without a response.\<close>

definition honours_context :: "http_env \<Rightarrow> bool" where
  "honours_context env \<longleftrightarrow>
     (\<forall>hc r. req_ctx r \<noteq> CtxActive \<longrightarrow> (\<exists>e. round_trip env hc r = Inl e))"

section \<open>Properties of Pack\<close>

lemma Pack_prepared:
  assumes "prepare_request env c ctx req = Inr hr" and "http_client c = Some hc"
  shows "Pack env c ctx req =
    (case round_trip env hc hr of
       Inl e \<Rightarrow> (PackErr (ErrSend e), [EvDo hr])
     | Inr resp \<Rightarrow> (read_and_decode env resp, [EvDo hr, EvReadBody, EvCloseBody]))"
  using assms by (simp add: Pack_def)

lemma Pack_responded:
  assumes "prepare_request env c ctx req = Inr hr" and "http_client c = Some hc"
    and "round_trip env hc hr = Inr resp"
  shows "Pack env c ctx req = (read_and_decode env resp, [EvDo hr, EvReadBody, EvCloseBody])"
  using assms by (simp add: Pack_prepared)

lemma read_and_decode_decoded:
  assumes "resp_body resp = Inr body" and "unmarshal_body env body = Inr r"
  shows "read_and_decode env resp =
    (if resp_status resp \<noteq> 200 then
       (if error r \<noteq> [] then PackErr (ErrAPI (resp_status resp) (error r))
        else PackErr (ErrStatus (resp_status resp) body))
     else PackOk r)"
  using assms by (simp add: read_and_decode_def StatusOK_def)

text \<open>C1: When the request is sent, the server answers 200 and the body decodes, Pack returns exactly the decoded response, even one whose error field is set, after one call, one body read and the deferred close.\<close>

theorem Pack_returns_decoded_response:
  assumes "prepare_request env c ctx req = Inr hr" and "http_client c = Some hc"
    and "round_trip env hc hr = Inr resp" and "resp_status resp = 200"
    and "resp_body resp = Inr body" and "unmarshal_body env body = Inr r"
  shows "Pack env c ctx req = (PackOk r, [EvDo hr, EvReadBody, EvCloseBody])"
  using assms by (simp add: Pack_responded read_and_decode_decoded)

text \<open>C2: A non-200 status with a decodable body whose error field is non-empty fails with an application error whose message is "API error (status <code>): <error>".\<close>

theorem Pack_api_error:
  assumes "prepare_request env c ctx req = Inr hr" and "http_client c = Some hc"
    and "round_trip env hc hr = Inr resp" and "resp_status resp \<noteq> 200"
    and "resp_body resp = Inr body" and "unmarshal_body env body = Inr r" and "error r \<noteq> []"
  shows "\<exists>e. fst (Pack env c ctx req) = PackErr e \<and> error_class_of e = ApplicationError \<and>
    pack_error_message e = ''API error (status '' @ fmt_d (resp_status resp) @ ''): '' @ error r"
  using assms by (simp add: Pack_responded read_and_decode_decoded)

text \<open>C3: A non-200 status with a decodable body and an empty error field fails with an application error carrying the status code and the raw body.\<close>

theorem Pack_status_error:
  assumes "prepare_request env c ctx req = Inr hr" and "http_client c = Some hc"
    and "round_trip env hc hr = Inr resp" and "resp_status resp \<noteq> 200"
    and "resp_body resp = Inr body" and "unmarshal_body env body = Inr r" and "error r = []"
  shows "\<exists>e. fst (Pack env c ctx req) = PackErr e \<and> error_class_of e = ApplicationError \<and>
    pack_error_message e = ''API returned status '' @ fmt_d (resp_status resp) @ '': '' @ body"
  using assms by (simp add: Pack_responded read_and_decode_decoded)

text \<open>C4: A body that does not decode fails with a decode error whatever the status is: the status is looked at only after decoding, so a 5xx answer with a non-JSON body is reported as a parse failure, not as an application error.\<close>

theorem Pack_decode_error_precedes_status:
  assumes "prepare_request env c ctx req = Inr hr" and "http_client c = Some hc"
    and "round_trip env hc hr = Inr resp"
    and "resp_body resp = Inr body" and "unmarshal_body env body = Inl e"
  shows "Pack env c ctx req = (PackErr (ErrParse e), [EvDo hr, EvReadBody, EvCloseBody]) \<and>
    error_class_of (ErrParse e) = DecodeError"
  using assms by (simp add: Pack_responded read_and_decode_def)

lemma prepare_request_Inr:
  assumes "marshal_request_ptr req = Inr j" and "ctx = Some s" and "url_parse_error env (pack_url c) = None"
  shows "prepare_request env c ctx req = Inr
    \<lparr>req_method = ''POST'', req_url = base_url c @ ''/api/v1/pack'',
     req_header = [''Content-Type'' \<mapsto> [''application/json'']], req_body = json_text env j, req_ctx = s\<rparr>"
  using assms by (simp add: prepare_request_def NewRequestWithContext_def valid_method_def
      is_token_char_def with_json_content_type_def header_set_def CanonicalMIMEHeaderKey_def
      ascii_upper_def ascii_lower_def pack_url_def)

text \<open>C5: When the request marshals, the context is not nil and the URL parses, Pack calls Do exactly once, with a POST to the base URL followed by "/api/v1/pack", the header Content-Type: application/json, the marshalled request as body and the caller's context.\<close>

theorem Pack_sends_single_post:
  assumes "marshal_request_ptr req = Inr j" and "ctx = Some s"
    and "url_parse_error env (pack_url c) = None" and "http_client c = Some hc"
  shows "\<exists>out rest. Pack env c ctx req =
    (out, EvDo \<lparr>req_method = ''POST'', req_url = base_url c @ ''/api/v1/pack'',
       req_header = [''Content-Type'' \<mapsto> [''application/json'']], req_body = json_text env j,
       req_ctx = s\<rparr> # rest) \<and> (\<forall>r. EvDo r \<notin> set rest)"
  using assms by (simp add: Pack_prepared prepare_request_Inr split: sum.split)

text \<open>C6: Every run of Pack performs either no I/O, one failed call, or one call followed by one body read and one close, in that order: no retry, and the close comes last.\<close>

theorem Pack_trace_shapes:
  "\<exists>r. snd (Pack env c ctx req) \<in> {[], [EvDo r], [EvDo r, EvReadBody, EvCloseBody]}"
  by (auto simp: Pack_def split: sum.split option.split)

text \<open>C7: The response body is closed exactly in the runs where Do returned a response.\<close>

theorem Pack_closes_body_iff_response:
  "EvCloseBody \<in> set (snd (Pack env c ctx req)) \<longleftrightarrow>
    (\<exists>hr hc resp. prepare_request env c ctx req = Inr hr \<and> http_client c = Some hc \<and>
       round_trip env hc hr = Inr resp)"
  by (auto simp: Pack_def split: sum.split option.split)

text \<open>C8: With a context that is already cancelled or past its deadline, and a transport that honours contexts, Pack fails with a transport-class error and never reads a body.\<close>

theorem Pack_done_context_transport_error:
  assumes "honours_context env" and "ctx = Some s" and "s \<noteq> CtxActive" and "http_client c \<noteq> None"
  shows "\<exists>e tr. Pack env c ctx req = (PackErr e, tr) \<and> error_class_of e = TransportError \<and>
    EvReadBody \<notin> set tr"
proof (cases "prepare_request env c ctx req")
  case (Inl e)
  then have "error_class_of e = TransportError"
    by (auto simp: prepare_request_def split: sum.splits)
  with Inl show ?thesis by (simp add: Pack_def)
next
  case (Inr hr)
  have "req_ctx hr = s"
    using Inr assms(2) by (auto simp: prepare_request_def NewRequestWithContext_def
        with_json_content_type_def split: sum.splits if_splits option.splits)
  moreover obtain hc where hc: "http_client c = Some hc" using assms(4) by auto
  ultimately obtain e where "round_trip env hc hr = Inl e"
    using assms(1,3) by (auto simp: honours_context_def)
  with Inr hc show ?thesis by (simp add: Pack_prepared)
qed

text \<open>C9: A request with a NaN or infinite float fails with a marshal error before any network activity.\<close>

theorem Pack_marshal_failure:
  assumes "\<not> request_finite r"
  shows "\<exists>e. Pack env c ctx (Some r) = (PackErr (ErrMarshal e), [])"
proof -
  obtain e where "marshal_request r = Inl e"
    using assms marshal_request_Inr_iff [of r] by (cases "marshal_request r") auto
  then show ?thesis by (simp add: Pack_def prepare_request_def marshal_request_ptr_def)
qed

text \<open>C14: A client made by NewWithHTTPClient(nil) panics with a nil dereference in Pack once the request is built, before any I/O.\<close>

theorem Pack_nil_http_client_panics:
  assumes "prepare_request env (NewWithHTTPClient None) ctx req = Inr hr"
  shows "Pack env (NewWithHTTPClient None) ctx req = (PackPanic nil_deref, [])"
  using assms by (simp add: Pack_def NewWithHTTPClient_def)

text \<open>C15: A 200 answer whose body is the JSON literal null is accepted: Pack returns the zero PackingResponse, not a decode error.\<close>

theorem Pack_null_body_zero_response:
  assumes "prepare_request env c ctx req = Inr hr" and "http_client c = Some hc"
    and "round_trip env hc hr = Inr resp" and "resp_status resp = 200"
    and "resp_body resp = Inr body" and "json_parse env body = Inr JNull"
  shows "fst (Pack env c ctx req) = PackOk zero_response"
  using assms by (simp add: Pack_responded read_and_decode_def StatusOK_def unmarshal_body_def
      unmarshal_response_def unmarshal_struct_def)

text \<open>C16: Pack with a nil request pointer does not fail: it sends the JSON text of null as the body.\<close>

theorem Pack_nil_request_sends_null:
  assumes "ctx = Some s" and "url_parse_error env (pack_url c) = None"
  shows "\<exists>hr. prepare_request env c ctx None = Inr hr \<and> req_body hr = json_text env JNull"
  using assms by (simp add: prepare_request_Inr marshal_request_ptr_def)
lemma read_and_decode_not_panic: "read_and_decode env resp \<noteq> PackPanic p"
  by (simp add: read_and_decode_def split: sum.split)

text \<open>C24: Pack panics exactly when the request could be built and the client has no
  http.Client (a client made by NewWithHTTPClient(nil)); clients made by New and
  NewWithEndpoint never make it panic.\<close>

theorem Pack_panics_iff:
  "(\<exists>p. fst (Pack env c ctx req) = PackPanic p) \<longleftrightarrow>
     http_client c = None \<and> \<not> isl (prepare_request env c ctx req)"
  by (auto simp: Pack_def read_and_decode_not_panic split: sum.split option.split)

end
