(* ===== verification/Units.thy ===== *)
theory Units
  imports Request
begin

text \<open>
  The pallet presets and unit helpers of \<open>src/client.go\<close> (lines 223--261) and the two
  tests that exercise them (\<open>TestStandardPallet\<close> and \<open>TestConversions\<close>,
  \<open>src/client_test.go\<close> lines 121--158). The helpers are one \<open>float64\<close> multiplication
  or division by a constant, so they inherit the float model of \<open>GoFloat\<close>: each constant is the
  double nearest the decimal literal, each product or quotient is rounded to the nearest
  double and overflows to an infinity at \<open>float64_limit\<close>. The round trips are therefore
  exact only up to two roundings (C19--C21), and the presets equal the conversions of their
  imperial comments except for the 48-inch height.
\<close>

definition StandardPallet :: packing_constraints where
  "StandardPallet = \<lparr>max_length = f64_const 1016.0, max_width = f64_const 1828.8, max_height = f64_const 1219.2,
     max_weight = f64_const 680388.0\<rparr>"

definition StandardPallet4048 :: packing_constraints where
  "StandardPallet4048 = \<lparr>max_length = f64_const 1016.0, max_width = f64_const 1219.2, max_height = f64_const 1219.2,
     max_weight = f64_const 680388.0\<rparr>"

definition InchesToMM :: "f64 \<Rightarrow> f64" where
  "InchesToMM inches = f64_mul inches (f64_const 25.4)"

definition PoundsToGrams :: "f64 \<Rightarrow> f64" where
  "PoundsToGrams pounds = f64_mul pounds (f64_const 453.592)"

definition MMToInches :: "f64 \<Rightarrow> f64" where
  "MMToInches mm = f64_div mm (f64_const 25.4)"

definition GramsToPounds :: "f64 \<Rightarrow> f64" where
  "GramsToPounds grams = f64_div grams (f64_const 453.592)"

section \<open>The tests\<close>

definition TestStandardPallet :: bool where
  "TestStandardPallet \<longleftrightarrow>
     f64_eq (max_length StandardPallet) (f64_const 1016.0) \<and> f64_eq (max_width StandardPallet) (f64_const 1828.8) \<and>
     f64_eq (max_height StandardPallet) (f64_const 1219.2) \<and> f64_eq (max_weight StandardPallet) (f64_const 680388.0)"

text \<open>One row of the table: it fails when the result is outside \<open>expected \<plusminus> 0.01\<close>.\<close>

definition conversion_case_passes :: "(f64 \<Rightarrow> f64) \<Rightarrow> f64 \<Rightarrow> f64 \<Rightarrow> bool" where
  "conversion_case_passes fn input expected \<longleftrightarrow>
     (let result = fn input in
      \<not> (f64_lt result (f64_sub expected (f64_const 0.01)) \<or> f64_lt (f64_add expected (f64_const 0.01)) result))"

definition conversion_cases :: "(string \<times> f64 \<times> f64 \<times> (f64 \<Rightarrow> f64)) list" where
  "conversion_cases =
     [(''inches to mm'', f64_const 10.0, f64_const 254.0, InchesToMM),
      (''pounds to grams'', f64_const 10.0, f64_const 4535.92, PoundsToGrams),
      (''mm to inches'', f64_const 254.0, f64_const 10.0, MMToInches),
      (''grams to pounds'', f64_const 4535.92, f64_const 10.0, GramsToPounds)]"

definition TestConversions :: bool where
  "TestConversions \<longleftrightarrow>
     list_all (\<lambda>(name, input, expected, fn). conversion_case_passes fn input expected) conversion_cases"

section \<open>Facts on the conversion constants\<close>

lemma const_254: "f64_const 25.4 = Fin (round64 25.4)" "1 \<le> round64 25.4" "round64 25.4 \<le> 1000"
  by (simp_all add: float64_limit_def round64_eval)

lemma const_453: "f64_const 453.592 = Fin (round64 453.592)" "1 \<le> round64 453.592" "round64 453.592 \<le> 1000"
  by (simp_all add: float64_limit_def round64_eval)

section \<open>Properties\<close>

text \<open>C19: Converting inches to millimetres and back, when the first conversion did not
  overflow, gives the input up to a relative error of 2^-51 (two roundings) and an absolute
  error of 2^-1064 (subnormal results).\<close>

theorem MMToInches_InchesToMM:
  assumes "InchesToMM (Fin a) = Fin y"
  shows "\<exists>b. MMToInches (Fin y) = Fin b \<and> \<bar>b - a\<bar> \<le> \<bar>a\<bar> / 2 ^ 51 + 1 / 2 ^ 1064"
proof -
  have "f64_mul (Fin a) (Fin (round64 25.4)) = Fin y" using assms unfolding InchesToMM_def const_254(1) .
  from mul_div_back [OF const_254(2) this] obtain b where
    "f64_div (Fin y) (Fin (round64 25.4)) = Fin b" "\<bar>b - a\<bar> \<le> \<bar>a\<bar> / 2 ^ 51 + 3 * eta64" by blast
  with eta64_bound(1) show ?thesis unfolding MMToInches_def const_254(1) by fastforce
qed

text \<open>C20: Converting millimetres to inches and back, for a finite input below half the
  float64 limit, gives a finite value within the same error of the input.\<close>

theorem InchesToMM_MMToInches:
  assumes "\<bar>a\<bar> < float64_limit / 2"
  shows "\<exists>b. InchesToMM (MMToInches (Fin a)) = Fin b \<and> \<bar>b - a\<bar> \<le> \<bar>a\<bar> / 2 ^ 51 + 1 / 2 ^ 1064"
proof -
  from div_mul_back [OF const_254(2,3) assms] obtain b where
    "f64_mul (f64_div (Fin a) (Fin (round64 25.4))) (Fin (round64 25.4)) = Fin b"
    "\<bar>b - a\<bar> \<le> \<bar>a\<bar> / 2 ^ 51 + 1002 * eta64" by blast
  with eta64_bound(2) show ?thesis unfolding InchesToMM_def MMToInches_def const_254(1) by fastforce
qed

text \<open>C21: Pounds to grams and back, when the first conversion did not overflow, and grams
  to pounds and back, for an input below half the limit, both give the input up to a relative
  error of 2^-51 and an absolute error of 2^-1064.\<close>

theorem GramsToPounds_PoundsToGrams:
  assumes "PoundsToGrams (Fin a) = Fin y" and "\<bar>z\<bar> < float64_limit / 2"
  shows "(\<exists>b. GramsToPounds (Fin y) = Fin b \<and> \<bar>b - a\<bar> \<le> \<bar>a\<bar> / 2 ^ 51 + 1 / 2 ^ 1064) \<and>
    (\<exists>b. PoundsToGrams (GramsToPounds (Fin z)) = Fin b \<and> \<bar>b - z\<bar> \<le> \<bar>z\<bar> / 2 ^ 51 + 1 / 2 ^ 1064)"
proof
  have "f64_mul (Fin a) (Fin (round64 453.592)) = Fin y"
    using assms(1) unfolding PoundsToGrams_def const_453(1) .
  from mul_div_back [OF const_453(2) this] obtain b where
    "f64_div (Fin y) (Fin (round64 453.592)) = Fin b" "\<bar>b - a\<bar> \<le> \<bar>a\<bar> / 2 ^ 51 + 3 * eta64" by blast
  with eta64_bound(1)
  show "\<exists>b. GramsToPounds (Fin y) = Fin b \<and> \<bar>b - a\<bar> \<le> \<bar>a\<bar> / 2 ^ 51 + 1 / 2 ^ 1064"
    unfolding GramsToPounds_def const_453(1) by fastforce
next
  from div_mul_back [OF const_453(2,3) assms(2)] obtain b where
    "f64_mul (f64_div (Fin z) (Fin (round64 453.592))) (Fin (round64 453.592)) = Fin b"
    "\<bar>b - z\<bar> \<le> \<bar>z\<bar> / 2 ^ 51 + 1002 * eta64" by blast
  with eta64_bound(2)
  show "\<exists>b. PoundsToGrams (GramsToPounds (Fin z)) = Fin b \<and> \<bar>b - z\<bar> \<le> \<bar>z\<bar> / 2 ^ 51 + 1 / 2 ^ 1064"
    unfolding PoundsToGrams_def GramsToPounds_def const_453(1) by fastforce
qed

text \<open>C22: InchesToMM of a finite value is finite exactly below float64_limit divided by the
  double nearest 25.4; above it the product overflows to an infinity.\<close>

theorem InchesToMM_finite_iff:
  "f64_finite (InchesToMM (Fin x)) \<longleftrightarrow> \<bar>x\<bar> < float64_limit / round64 25.4"
proof -
  have "\<bar>x * round64 25.4\<bar> < float64_limit \<longleftrightarrow> \<bar>x\<bar> < float64_limit / round64 25.4"
    using const_254(2) by (simp add: abs_mult pos_less_divide_eq)
  then show ?thesis unfolding InchesToMM_def const_254(1) by (simp add: f64_round_finite)
qed

text \<open>The presets' length, width and weight are the conversions of the imperial values
  in their comments (40 in, 72 in, 1500 lb), but their height, the literal 1219.2, is one ulp
  (2^-42) above InchesToMM(48); StandardPallet4048 is StandardPallet with that height as
  width.\<close>

theorem StandardPallet_conversions:
  "max_length StandardPallet = InchesToMM (f64_const 40) \<and>
   max_width StandardPallet = InchesToMM (f64_const 72) \<and>
   max_weight StandardPallet = PoundsToGrams (f64_const 1500) \<and>
   max_height StandardPallet = f64_const 1219.2 \<and>
   InchesToMM (f64_const 48) = Fin (round64 1219.2 - 1 / 2 ^ 42) \<and>
   StandardPallet4048 = StandardPallet\<lparr>max_width := max_height StandardPallet\<rparr>"
  by (simp add: StandardPallet_def StandardPallet4048_def InchesToMM_def PoundsToGrams_def
      float64_limit_def round64_eval f64_round_def)

end
