(* ===== verification/Scenarios.thy ===== *)
theory Scenarios
  imports Client Units
begin

text \<open>
  Concrete runs of the client: the fixtures and the mock server of \<open>TestPack\<close>
  (\<open>src/client_test.go\<close> lines 25--119), and servers that answer with a fixed status and
  body. The byte-level JSON codec of these environments is \<open>encoding/json\<close> restricted to
  the values the runs exchange: a table pairing each value with the exact text Go writes for
  it. The properties of \<open>Pack\<close> hold for every environment; these are the instances at
  which their hypotheses are met.
\<close>

section \<open>TestNew (lines 12--23)\<close>

text \<open>The checks \<open>TestNew\<close> makes on a client. Its first check, \<open>client == nil\<close>, cannot
  fail in Go, since \<open>New\<close> returns the address of a composite literal; a client of the
  model is that struct.\<close>

definition testnew_checks :: "client \<Rightarrow> bool" where
  "testnew_checks client \<longleftrightarrow>
     base_url client = ''https://api.palletizer.app'' \<and> http_client client \<noteq> None"

definition TestNew :: bool where
  "TestNew \<longleftrightarrow> testnew_checks New"

section \<open>TestPack (lines 25--119)\<close>

definition table_text :: "(jvalue \<times> string) list \<Rightarrow> jvalue \<Rightarrow> string" where
  "table_text tbl v = (case map_of tbl v of Some s \<Rightarrow> s | None \<Rightarrow> [])"

definition table_parse :: "(jvalue \<times> string) list \<Rightarrow> string \<Rightarrow> json_error + jvalue" where
  "table_parse tbl s =
     (case map_of (map prod.swap tbl) s of
        Some v \<Rightarrow> Inr v
      | None \<Rightarrow> Inl (SyntaxError ''invalid character looking for beginning of value''))"

text \<open>\<open>net/url.Parse\<close>'s first check: no ASCII control character in the URL.\<close>

definition url_ctl_check :: "string \<Rightarrow> string option" where
  "url_ctl_check u =
     (if list_ex (\<lambda>c. (of_char c :: nat) < 32 \<or> (of_char c :: nat) = 127) u
      then Some (''parse '' @ u @ '': net/url: invalid control character in URL'') else None)"

fun ctx_error :: "ctx_state \<Rightarrow> string option" where
  "ctx_error CtxActive = None"
| "ctx_error CtxCanceled = Some ''context canceled''"
| "ctx_error CtxDeadlineExceeded = Some ''context deadline exceeded''"

text \<open>A server that answers every request with one status and body; \<open>Do\<close> gives up on a
  request whose context is done.\<close>

definition answering_env :: "(jvalue \<times> string) list \<Rightarrow> int \<Rightarrow> string \<Rightarrow> http_env" where
  "answering_env tbl status body =
     \<lparr>json_text = table_text tbl, json_parse = table_parse tbl, url_parse_error = url_ctl_check,
      round_trip = (\<lambda>hc r. case ctx_error (req_ctx r) of
         Some e \<Rightarrow> Inl (''Post '' @ req_url r @ '': '' @ e)
       | None \<Rightarrow> Inr \<lparr>resp_status = status, resp_body = Inr body\<rparr>)\<rparr>"

section \<open>The fixtures of TestPack\<close>

definition testpack_request :: packing_request where
  "testpack_request =
     \<lparr>cartons = Some [\<lparr>carton_id = ''BOX001'', carton_length = f64_const 609.6, carton_width = f64_const 457.2,
        carton_height = f64_const 406.4, carton_weight = f64_const 18143.68, carton_quantity = 1,
        carton_fragile = False, carton_allow_rotation = True\<rparr>],
      packing_constraints = StandardPallet,
      packing_options = \<lparr>support_percentage = f64_const 80.0\<rparr>\<rparr>"

definition testpack_fixture :: packing_response where
  "testpack_fixture =
     \<lparr>pallets = Some [\<lparr>pallet_id = 1, total_weight = f64_const 18143.68, total_height = f64_const 406.4,
        utilization_percentage = f64_const 95.0,
        pallet_cartons = Some [\<lparr>pc_carton_id = ''BOX001_1'',
          pc_position = \<lparr>pt_x = Fin 0, pt_y = Fin 0, pt_z = Fin 0\<rparr>,
          pc_dimensions = \<lparr>dim_length = f64_const 609.6, dim_width = f64_const 457.2, dim_height = f64_const 406.4\<rparr>,
          pc_orientation = ''original'', pc_weight = f64_const 18143.68, pc_layer = 0\<rparr>],
        center_of_gravity = \<lparr>pt_x = f64_const 304.8, pt_y = f64_const 228.6, pt_z = f64_const 203.2\<rparr>\<rparr>],
      summary = \<lparr>total_pallets = 1, total_cartons_packed = 1, average_utilization = f64_const 95.0,
        computation_time_ms = 5\<rparr>,
      error = []\<rparr>"

definition testpack_request_text :: string where
  \<open>testpack_request_text =
     ''{"cartons":[{"id":"BOX001","length":609.6,"width":457.2,"height":406.4,"weight":18143.68,''
     @ ''"quantity":1,"fragile":false,"allow_rotation":true}],"packing_constraints":''
     @ ''{"max_length":1016,"max_width":1828.8,"max_height":1219.2,"max_weight":680388},''
     @ ''"packing_options":{"support_percentage":80}}''\<close>

text \<open>\<open>json.NewEncoder(w).Encode\<close> ends the document with a newline.\<close>

definition testpack_fixture_text :: string where
  \<open>testpack_fixture_text =
     ''{"pallets":[{"pallet_id":1,"total_weight":18143.68,"total_height":406.4,''
     @ ''"utilization_percentage":95,"cartons":[{"carton_id":"BOX001_1",''
     @ ''"position":{"x":0,"y":0,"z":0},"dimensions":{"length":609.6,"width":457.2,"height":406.4},''
     @ ''"orientation":"original","weight":18143.68,"layer":0}],''
     @ ''"center_of_gravity":{"x":304.8,"y":228.6,"z":203.2}}],"summary":{"total_pallets":1,''
     @ ''"total_cartons_packed":1,"average_utilization":95,"computation_time_ms":5}}'' @ [CHR 0x0A]\<close>

text \<open>Error answers: an application error the server reports, and a proxy's HTML page.\<close>

definition api_error_body :: string where
  \<open>api_error_body = ''{"error":"carton too large"}''\<close>

definition bad_gateway_body :: string where
  "bad_gateway_body = ''<html>502 Bad Gateway</html>''"

definition testpack_codec :: "(jvalue \<times> string) list" where
  \<open>testpack_codec =
     [(projr (marshal_request testpack_request), testpack_request_text),
      (projr (marshal_response testpack_fixture), testpack_fixture_text),
      (JObj [(''error'', JStr ''carton too large'')], api_error_body),
      (JObj [], ''{}''),
      (JNull, ''null'')]\<close>

definition testserver_url :: string where
  "testserver_url = ''http://127.0.0.1:40000''"

definition testpack_server :: http_env where
  "testpack_server = answering_env testpack_codec 200 testpack_fixture_text"

text \<open>What the handler of the mock server checks on the request it receives (lines 28--40).\<close>

definition testpack_handler_checks :: "http_env \<Rightarrow> http_request \<Rightarrow> bool" where
  "testpack_handler_checks env r \<longleftrightarrow>
     req_url r = testserver_url @ ''/api/v1/pack'' \<and> req_method r = ''POST'' \<and>
     \<not> isl (sbind (json_parse env (req_body r)) (\<lambda>j. unmarshal_request j zero_request))"

text \<open>The whole test (lines 78--118): both the handler's checks and the client's.\<close>

definition TestPack :: bool where
  "TestPack \<longleftrightarrow>
     (case Pack testpack_server (NewWithEndpoint testserver_url) (Some CtxActive) (Some testpack_request) of
        (PackOk r, EvDo req # _) \<Rightarrow>
          testpack_handler_checks testpack_server req \<and> total_pallets (summary r) = 1 \<and>
          total_cartons_packed (summary r) = 1 \<and> map_option length (pallets r) = Some 1
      | _ \<Rightarrow> False)"

text \<open>The request the client sends in TestPack.\<close>

definition testpack_http_request :: http_request where
  "testpack_http_request = \<lparr>req_method = ''POST'', req_url = testserver_url @ ''/api/v1/pack'',
     req_header = [''Content-Type'' \<mapsto> [''application/json'']], req_body = testpack_request_text,
     req_ctx = CtxActive\<rparr>"

text \<open>The same request with its one NaN field.\<close>

definition nan_request :: packing_request where
  "nan_request = testpack_request\<lparr>packing_options := \<lparr>support_percentage = NaN\<rparr>\<rparr>"

section \<open>Evaluating the test run\<close>

lemmas wire_defs = marshal_request_def marshal_carton_def marshal_constraints_def marshal_options_def
  marshal_slice_def marshal_int_def marshal_response_def marshal_pallet_def marshal_placed_def
  marshal_point_def marshal_dimensions_def marshal_summary_def marshal_string_def
  unmarshal_response_def response_fields_def unmarshal_pallet_def pallet_fields_def
  unmarshal_placed_def placed_fields_def unmarshal_point_def point_fields_def
  unmarshal_dimensions_def dimensions_fields_def unmarshal_summary_def summary_fields_def
  unmarshal_struct_def unmarshal_slice_def lookup_field_def field_def
  unmarshal_request_def request_fields_def unmarshal_carton_def carton_fields_def
  unmarshal_constraints_def constraints_fields_def unmarshal_options_def options_fields_def
  zero_response_def zero_summary_def zero_pallet_def zero_placed_def zero_point_def zero_dimensions_def
  zero_request_def zero_carton_def zero_constraints_def zero_options_def is_int64_def f64_lits

lemma marshal_testpack_request: "marshal_request testpack_request = Inr (projr (marshal_request testpack_request))"
  by (simp add: wire_defs testpack_request_def StandardPallet_def)
lemma marshal_testpack_fixture: "marshal_response testpack_fixture = Inr (projr (marshal_response testpack_fixture))"
  by (simp add: wire_defs testpack_fixture_def)
lemma text_testpack_request: "table_text testpack_codec (projr (marshal_request testpack_request)) = testpack_request_text"
  by (simp add: table_text_def testpack_codec_def)
lemma parse_testpack_fixture: "table_parse testpack_codec testpack_fixture_text = Inr (projr (marshal_response testpack_fixture))"
  by (simp add: table_parse_def testpack_codec_def testpack_fixture_text_def testpack_request_text_def)
lemma decode_testpack_fixture: "unmarshal_response (projr (marshal_response testpack_fixture)) zero_response = Inr testpack_fixture"
  by (simp add: wire_defs testpack_fixture_def)
lemma parse_testpack_request: "table_parse testpack_codec testpack_request_text = Inr (projr (marshal_request testpack_request))"
  by (simp add: table_parse_def testpack_codec_def testpack_request_text_def)
lemma decode_testpack_request: "unmarshal_request (projr (marshal_request testpack_request)) zero_request = Inr testpack_request"
  by (simp add: wire_defs testpack_request_def StandardPallet_def)

lemma prepare_answering:
  "prepare_request (answering_env testpack_codec st b) (NewWithEndpoint testserver_url) (Some CtxActive)
     (Some testpack_request) = Inr testpack_http_request"
proof -
  have "url_parse_error (answering_env testpack_codec st b) (pack_url (NewWithEndpoint testserver_url)) = None"
    by (simp add: answering_env_def url_ctl_check_def pack_url_def NewWithEndpoint_def testserver_url_def)
  then show ?thesis
    using marshal_testpack_request by (simp add: prepare_request_Inr marshal_request_ptr_def
        testpack_http_request_def pack_url_def NewWithEndpoint_def answering_env_def text_testpack_request)
qed

lemma prepare_testpack:
  "prepare_request testpack_server (NewWithEndpoint testserver_url) (Some CtxActive) (Some testpack_request)
   = Inr testpack_http_request"
  by (simp add: testpack_server_def prepare_answering)

lemma round_trip_answering:
  "round_trip (answering_env tbl st b) hc testpack_http_request = Inr \<lparr>resp_status = st, resp_body = Inr b\<rparr>"
  by (simp add: answering_env_def testpack_http_request_def)

lemma parse_answering: "json_parse (answering_env tbl st b) = table_parse tbl"
  by (simp add: answering_env_def)

lemma testpack_server_parse: "json_parse testpack_server = table_parse testpack_codec"
  by (simp add: testpack_server_def answering_env_def)

lemma run_testpack: "Pack testpack_server (NewWithEndpoint testserver_url) (Some CtxActive) (Some testpack_request)
  = (PackOk testpack_fixture, [EvDo testpack_http_request, EvReadBody, EvCloseBody])"
proof -
  have hc: "http_client (NewWithEndpoint testserver_url) = Some \<lparr>timeout_seconds = 120\<rparr>"
    by (simp add: NewWithEndpoint_def)
  have rt: "round_trip testpack_server \<lparr>timeout_seconds = 120\<rparr> testpack_http_request =
      Inr \<lparr>resp_status = 200, resp_body = Inr testpack_fixture_text\<rparr>"
    by (simp add: testpack_server_def answering_env_def testpack_http_request_def)
  have rd: "read_and_decode testpack_server \<lparr>resp_status = 200, resp_body = Inr testpack_fixture_text\<rparr>
      = PackOk testpack_fixture"
    by (simp add: read_and_decode_def unmarshal_body_def StatusOK_def testpack_server_parse parse_testpack_fixture decode_testpack_fixture)
  show ?thesis by (simp add: Pack_responded [OF prepare_testpack hc rt] rd)
qed

end
