(* ===== verification/Readme.thy ===== *)
theory Readme
  imports Scenarios
begin

text \<open>
  The Go programs of the documentation: the example in the package comment of
  \<open>src/client.go\<close> (lines 5--30) and the snippets of the README (\<open>src/unnamed/part_000\<close>).
  A snippet is a sequence of Go statements; its run is what it prints (the calls of
  \<open>fmt.Printf\<close> and of the \<open>log\<close> package, with their format strings and arguments) and
  how it ends (it returns, \<open>log.Fatal\<close> exits with status 1, or it panics). A snippet that
  builds a struct with a keyed composite literal first has to compile: Go rejects a key
  that is not a field of the struct, a key given twice, a value of the wrong type, and a
  type name the package does not declare.
\<close>

section \<open>Runs of a program\<close>

datatype fmt_arg = AInt go_int | AFloat f64 | AStr string | AErr string

datatype program_io =
    Printf string "fmt_arg list"
  | LogPrintf string "fmt_arg list"
  | LogPrint "fmt_arg list"

datatype run_end = Returned | Exited nat | Panicked string

type_synonym program_run = "run_end \<times> program_io list"

definition nl :: string where
  "nl = [CHR 0x0A]"

text \<open>The UTF-8 bytes of the emoji in the README's format strings.\<close>

definition check_mark :: string where
  "check_mark = [CHR 0xE2, CHR 0x9C, CHR 0x85]"

definition bar_chart :: string where
  "bar_chart = [CHR 0xF0, CHR 0x9F, CHR 0x93, CHR 0x8A]"

definition high_voltage :: string where
  "high_voltage = [CHR 0xE2, CHR 0x9A, CHR 0xA1]"

definition package_box :: string where
  "package_box = [CHR 0xF0, CHR 0x9F, CHR 0x93, CHR 0xA6]"

section \<open>Keyed composite literals\<close>

text \<open>The exported types of the package (\<open>src/client.go\<close> lines 46--182).\<close>

definition package_type_names :: "string list" where
  "package_type_names =
     [''Client'', ''Carton'', ''PackingConstraints'', ''PackingOptions'', ''PackingRequest'',
      ''Point3D'', ''Dimensions'', ''PlacedCarton'', ''Pallet'', ''PackingSummary'',
      ''PackingResponse'', ''HealthResponse'', ''MetricsResponse'']"

text \<open>\<open>palletizer.T{...}\<close> compiles only when the package declares \<open>T\<close>.\<close>

definition type_literal :: "string \<Rightarrow> 'a \<Rightarrow> string + 'a" where
  "type_literal t v =
     (if t \<in> set package_type_names then Inr v else Inl (''undefined: palletizer.'' @ t))"

text \<open>The fields of \<open>PackingRequest\<close> (lines 105--109), and a field value of a literal,
  tagged with its static type.\<close>

definition request_field_names :: "string list" where
  "request_field_names = [''Cartons'', ''PackingConstraints'', ''PackingOptions'']"

datatype request_field_value =
    LitCartons "carton slice"
  | LitConstraints packing_constraints
  | LitOptions packing_options

text \<open>Go's typing rule for one keyed element: the key names a field and the value has that
  field's type.\<close>

fun field_type_ok :: "string \<Rightarrow> request_field_value \<Rightarrow> bool" where
  "field_type_ok k (LitCartons cs) \<longleftrightarrow> k = ''Cartons''"
| "field_type_ok k (LitConstraints pc) \<longleftrightarrow> k = ''PackingConstraints''"
| "field_type_ok k (LitOptions po) \<longleftrightarrow> k = ''PackingOptions''"

definition unknown_field :: "string \<Rightarrow> string" where
  "unknown_field k = ''unknown field '' @ k @ '' in struct literal of type palletizer.PackingRequest''"

definition cannot_use :: "string \<Rightarrow> string" where
  "cannot_use ty = ''cannot use value as '' @ ty @ '' value in struct literal''"

definition request_field :: "string \<Rightarrow> request_field_value \<Rightarrow> packing_request \<Rightarrow> string + packing_request" where
  "request_field k v r =
     (if k = ''Cartons'' then
        (case v of LitCartons cs \<Rightarrow> Inr (r\<lparr>cartons := cs\<rparr>) | _ \<Rightarrow> Inl (cannot_use ''[]Carton''))
      else if k = ''PackingConstraints'' then
        (case v of LitConstraints pc \<Rightarrow> Inr (r\<lparr>packing_constraints := pc\<rparr>)
         | _ \<Rightarrow> Inl (cannot_use ''PackingConstraints''))
      else if k = ''PackingOptions'' then
        (case v of LitOptions po \<Rightarrow> Inr (r\<lparr>packing_options := po\<rparr>)
         | _ \<Rightarrow> Inl (cannot_use ''PackingOptions''))
      else Inl (unknown_field k))"

fun request_literal_from ::
  "string list \<Rightarrow> (string \<times> request_field_value) list \<Rightarrow> packing_request \<Rightarrow> string + packing_request" where
  "request_literal_from seen [] r = Inr r"
| "request_literal_from seen ((k, v) # kvs) r =
     (if k \<in> set seen then Inl (''duplicate field name '' @ k @ '' in struct literal'')
      else sbind (request_field k v r) (request_literal_from (k # seen) kvs))"

text \<open>\<open>&palletizer.PackingRequest{k1: v1, ...}\<close>: the fields not named keep their zero
  value.\<close>

definition request_literal :: "(string \<times> request_field_value) list \<Rightarrow> string + packing_request" where
  "request_literal kvs = request_literal_from [] kvs zero_request"

section \<open>Printing a result, and stopping on an error\<close>

text \<open>\<open>response, err := client.Pack(ctx, request); if err != nil { log.Fatal(err) }\<close>
  followed by the rest of the program, which sees the response.\<close>

definition pack_or_fatal ::
  "http_env \<Rightarrow> client \<Rightarrow> go_context \<Rightarrow> packing_request option \<Rightarrow>
   (packing_response \<Rightarrow> program_run) \<Rightarrow> program_run" where
  "pack_or_fatal env c ctx request k =
     (case fst (Pack env c ctx request) of
        PackPanic p \<Rightarrow> (Panicked p, [])
      | PackErr e \<Rightarrow> (Exited 1, [LogPrint [AErr (pack_error_message e)]])
      | PackOk r \<Rightarrow> k r)"

section \<open>The example of the package comment\<close>

text \<open>\<open>src/client.go\<close> lines 7--30, with the dimensions written as millimetre and gram
  literals.\<close>

definition doc_example_carton :: carton where
  "doc_example_carton = zero_carton\<lparr>carton_id := ''BOX001'', carton_length := f64_const 609.6,
     carton_width := f64_const 457.2, carton_height := f64_const 406.4, carton_weight := f64_const 18143.68,
     carton_quantity := 30, carton_allow_rotation := True\<rparr>"

definition doc_example_literal :: "(string \<times> request_field_value) list" where
  "doc_example_literal =
     [(''Cartons'', LitCartons (Some [doc_example_carton])),
      (''PackingConstraints'', LitConstraints StandardPallet),
      (''PackingOptions'', LitOptions \<lparr>support_percentage = f64_const 80.0\<rparr>)]"

definition doc_example_main :: "http_env \<Rightarrow> string + program_run" where
  "doc_example_main env =
     sbind (request_literal doc_example_literal)
       (\<lambda>request. Inr (pack_or_fatal env New (Some CtxActive) (Some request) (\<lambda>response. (Returned, []))))"

section \<open>The README\<close>

subsection \<open>Quick Start (lines 37--85)\<close>

definition readme_box001 :: carton where
  "readme_box001 = zero_carton\<lparr>carton_id := ''BOX001'', carton_length := InchesToMM (Fin 24),
     carton_width := InchesToMM (Fin 18), carton_height := InchesToMM (Fin 16),
     carton_weight := PoundsToGrams (Fin 40), carton_quantity := 30, carton_allow_rotation := True\<rparr>"

definition quickstart_literal :: "(string \<times> request_field_value) list" where
  "quickstart_literal =
     [(''Cartons'', LitCartons (Some [readme_box001])),
      (''PalletConstraints'', LitConstraints StandardPallet),
      (''PackingOptions'', LitOptions \<lparr>support_percentage = f64_const 80.0\<rparr>)]"

definition quickstart_report :: "packing_response \<Rightarrow> program_run" where
  "quickstart_report response =
     (Returned,
      [Printf (check_mark @ '' Packed %d cartons onto %d pallets'' @ nl)
         [AInt (total_cartons_packed (summary response)), AInt (total_pallets (summary response))],
       Printf (bar_chart @ '' Average utilization: %.2f%%'' @ nl)
         [AFloat (average_utilization (summary response))],
       Printf (high_voltage @ '' Computed in: %d ms'' @ nl)
         [AInt (computation_time_ms (summary response))]])"

definition quickstart_main :: "http_env \<Rightarrow> string + program_run" where
  "quickstart_main env =
     sbind (request_literal quickstart_literal)
       (\<lambda>request. Inr (pack_or_fatal env New (Some CtxActive) (Some request) quickstart_report))"

subsection \<open>Mixed carton sizes (lines 92--132)\<close>

definition readme_large :: carton where
  "readme_large = zero_carton\<lparr>carton_id := ''LARGE'', carton_length := InchesToMM (Fin 24),
     carton_width := InchesToMM (Fin 18), carton_height := InchesToMM (Fin 16),
     carton_weight := PoundsToGrams (Fin 40), carton_quantity := 20, carton_allow_rotation := True\<rparr>"

definition readme_medium :: carton where
  "readme_medium = zero_carton\<lparr>carton_id := ''MEDIUM'', carton_length := InchesToMM (Fin 18),
     carton_width := InchesToMM (Fin 12), carton_height := InchesToMM (Fin 12),
     carton_weight := PoundsToGrams (Fin 20), carton_quantity := 30, carton_allow_rotation := True\<rparr>"

definition readme_small :: carton where
  "readme_small = zero_carton\<lparr>carton_id := ''SMALL'', carton_length := InchesToMM (Fin 12),
     carton_width := InchesToMM (Fin 8), carton_height := InchesToMM (Fin 8),
     carton_weight := PoundsToGrams (Fin 10), carton_quantity := 50, carton_fragile := True,
     carton_allow_rotation := False\<rparr>"

definition mixed_literal :: "(string \<times> request_field_value) list" where
  "mixed_literal =
     [(''Cartons'', LitCartons (Some [readme_large, readme_medium, readme_small])),
      (''PalletConstraints'', LitConstraints StandardPallet)]"

text \<open>The error of \<open>Pack\<close> is discarded (\<open>response, _ := ...\<close>).\<close>

definition mixed_main :: "http_env \<Rightarrow> string + program_run" where
  "mixed_main env =
     sbind (request_literal mixed_literal)
       (\<lambda>request. Inr (case fst (Pack env New (Some CtxActive) (Some request)) of
                         PackPanic p \<Rightarrow> (Panicked p, [])
                       | _ \<Rightarrow> (Returned, [])))"

subsection \<open>Processing results (lines 136--162)\<close>

definition summary_lines :: "packing_response \<Rightarrow> program_io list" where
  "summary_lines response =
     [Printf (''Total Pallets: %d'' @ nl) [AInt (total_pallets (summary response))],
      Printf (''Total Cartons: %d'' @ nl) [AInt (total_cartons_packed (summary response))],
      Printf (''Utilization: %.2f%%'' @ nl) [AFloat (average_utilization (summary response))],
      Printf (''Time: %d ms'' @ nl) [AInt (computation_time_ms (summary response))]]"

definition pallet_report :: "pallet \<Rightarrow> program_io list" where
  "pallet_report p =
     [Printf (nl @ package_box @ '' Pallet %d:'' @ nl) [AInt (pallet_id p)],
      Printf (''  Weight: %.1f lbs'' @ nl) [AFloat (GramsToPounds (total_weight p))],
      Printf (''  Height: %.1f in'' @ nl) [AFloat (MMToInches (total_height p))],
      Printf (''  Space used: %.1f%%'' @ nl) [AFloat (utilization_percentage p)],
      Printf (''  Cartons: %d boxes'' @ nl) [AInt (go_len (pallet_cartons p))],
      Printf (''  Center: (%.0f, %.0f, %.0f) mm'' @ nl)
        [AFloat (pt_x (center_of_gravity p)), AFloat (pt_y (center_of_gravity p)),
         AFloat (pt_z (center_of_gravity p))]]"

definition process_results :: "http_env \<Rightarrow> client \<Rightarrow> packing_request \<Rightarrow> program_run" where
  "process_results env c request =
     pack_or_fatal env c (Some CtxActive) (Some request)
       (\<lambda>response. (Returned,
          summary_lines response @ concat (map pallet_report (slice_elems (pallets response)))))"

subsection \<open>Standard pallet sizes (lines 166--181)\<close>

definition readme_custom_pallet :: "string + packing_constraints" where
  "readme_custom_pallet =
     type_literal ''PalletConstraints''
       \<lparr>max_length = InchesToMM (Fin 48), max_width = InchesToMM (Fin 40),
        max_height = InchesToMM (Fin 60), max_weight = PoundsToGrams (Fin 2000)\<rparr>"

subsection \<open>Unit conversions (lines 184--193)\<close>

definition readme_unit_conversions :: "f64 list" where
  "readme_unit_conversions =
     [InchesToMM (Fin 24), PoundsToGrams (Fin 40), MMToInches (f64_const 609.6),
      GramsToPounds (f64_const 18143.68)]"

text \<open>The values the comments of that snippet give: 609.6 mm, 18143.68 g, 24.0 inches and
  40.0 lbs.\<close>

definition readme_conversion_comments :: "f64 list" where
  "readme_conversion_comments = [f64_const 609.6, f64_const 18143.68, f64_const 24.0, f64_const 40.0]"

subsection \<open>Packing options (lines 195--202)\<close>

definition readme_options :: packing_options where
  "readme_options = \<lparr>support_percentage = f64_const 80.0\<rparr>"

subsection \<open>Custom HTTP client and endpoint (lines 204--224)\<close>

definition readme_http_client :: http_client where
  "readme_http_client = \<lparr>timeout_seconds = 60\<rparr>"

definition readme_custom_client :: client where
  "readme_custom_client = NewWithHTTPClient (Some readme_http_client)"

definition readme_local_client :: client where
  "readme_local_client = NewWithEndpoint ''http://localhost:8080''"

subsection \<open>Error handling (lines 255--272)\<close>

definition readme_error_handling :: "pack_outcome \<Rightarrow> program_run" where
  "readme_error_handling out =
     (case out of
        PackPanic p \<Rightarrow> (Panicked p, [])
      | PackErr e \<Rightarrow> (Returned, [LogPrintf ''Request failed: %v'' [AErr (pack_error_message e)]])
      | PackOk response \<Rightarrow>
          (if error response \<noteq> [] then
             (Returned, [LogPrintf ''Packing error: %s'' [AStr (error response)]])
           else (Returned, [])))"

subsection \<open>API input format (lines 274--293)\<close>

definition readme_request_fields :: "string list" where
  "readme_request_fields = [''Cartons'', ''PalletConstraints'', ''PackingOptions'']"

definition readme_carton_fields :: "string list" where
  "readme_carton_fields =
     [''ID'', ''Length'', ''Width'', ''Height'', ''Weight'', ''Quantity'', ''Fragile'', ''AllowRotation'']"

text \<open>The fields of \<open>Carton\<close> in the code (lines 80--89).\<close>

definition carton_field_names :: "string list" where
  "carton_field_names =
     [''ID'', ''Length'', ''Width'', ''Height'', ''Weight'', ''Quantity'', ''Fragile'', ''AllowRotation'']"

section \<open>Properties\<close>

subsection \<open>Which literals compile\<close>

text \<open>The README's Quick Start and mixed-carton examples and its custom pallet do not
  compile: they name a field and a type PalletConstraints that the package does not declare
  (the README's own listing of PackingRequest names that field, while its Carton fields are the
  code's); the example of the package comment, keyed by the code's field names, compiles.\<close>

theorem readme_examples_do_not_compile:
  "request_literal quickstart_literal = Inl (unknown_field ''PalletConstraints'') \<and>
   request_literal mixed_literal = Inl (unknown_field ''PalletConstraints'') \<and>
   readme_custom_pallet = Inl ''undefined: palletizer.PalletConstraints'' \<and>
   quickstart_main env = Inl (unknown_field ''PalletConstraints'') \<and>
   filter (\<lambda>k. k \<notin> set request_field_names) readme_request_fields = [''PalletConstraints''] \<and>
   readme_carton_fields = carton_field_names \<and>
   request_literal doc_example_literal =
     Inr \<lparr>cartons = Some [doc_example_carton], packing_constraints = StandardPallet,
          packing_options = \<lparr>support_percentage = f64_const 80.0\<rparr>\<rparr>"
  by (simp add: request_literal_def quickstart_literal_def mixed_literal_def request_field_def
      readme_custom_pallet_def type_literal_def package_type_names_def request_field_names_def
      readme_request_fields_def readme_carton_fields_def carton_field_names_def
      doc_example_literal_def zero_request_def quickstart_main_def)

subsection \<open>The error-handling snippet\<close>

text \<open>C25: The README's "Packing error" branch (its comment: an API validation error) is
  taken exactly when the server answers 200 with a decodable body whose error field is set;
  every answer with another status, including an API validation error, ends in the branch the
  README labels "Network or timeout error".\<close>

theorem readme_packing_error_branch:
  "LogPrintf ''Packing error: %s'' [AStr m] \<in> set (snd (readme_error_handling (fst (Pack env c ctx req))))
   \<longleftrightarrow> (\<exists>hr hc resp body r. prepare_request env c ctx req = Inr hr \<and> http_client c = Some hc \<and>
         round_trip env hc hr = Inr resp \<and> resp_status resp = 200 \<and> resp_body resp = Inr body \<and>
         unmarshal_body env body = Inr r \<and> error r = m \<and> m \<noteq> [])"
  by (auto simp: Pack_def read_and_decode_def readme_error_handling_def StatusOK_def
      split: sum.split option.split pack_outcome.split)

subsection \<open>The conversion comments\<close>

text \<open>In binary64 the four conversions of the README's unit-conversion snippet give
  609.6 - 2^-43 (609.5999999999999), 18143.68, 24 + 2^-48 (24.000000000000004) and 40: the
  comments "609.6 mm" and "24.0 inches" are each one ulp off, the other two are exact.\<close>

theorem readme_unit_conversions_values:
  "readme_unit_conversions =
     [Fin (round64 609.6 - 1 / 2 ^ 43), f64_const 18143.68, Fin (24 + 1 / 2 ^ 48), Fin 40] \<and>
   map2 f64_eq readme_unit_conversions readme_conversion_comments = [False, True, False, True]"
  by (simp add: readme_unit_conversions_def readme_conversion_comments_def InchesToMM_def
      PoundsToGrams_def MMToInches_def GramsToPounds_def f64_round_def float64_limit_def round64_eval)

end
