(* ===== verification/PackSteps.thy ===== *)
theory PackSteps
  imports Client
begin

text \<open>
  \<open>Client.Pack\<close> (\<open>src/client.go\<close> lines 185--221) statement by statement: a program
  counter at each statement that can fail or has an effect, the I/O done so far, and the
  stack of deferred calls that \<open>defer resp.Body.Close()\<close> (line 201) pushes and that every
  later \<open>return\<close> runs before \<open>Pack\<close> hands back its result. A panic (the nil
  \<open>*http.Client\<close> of line 197) unwinds through the same deferred calls. From the first
  statement there is a run to the outcome and I/O of the function \<open>Pack\<close> of
  \<open>Client\<close> (\<open>pack_run\<close>), and an assertion at each program point (which I/O has
  happened, whether the close is pending) holds in every reachable state.
\<close>

text \<open>The statements: marshal (line 186), build the request (191), \<open>Do\<close> (197), \<open>defer\<close>
  (201), read the body (203), decode it (209), look at the status (213), a \<open>return\<close> running
  the deferred calls, and the state after \<open>Pack\<close> returned.\<close>

datatype pack_pc =
    AtMarshal
  | AtNewRequest jvalue
  | AtDo http_request
  | AtDefer http_response
  | AtRead http_response
  | AtUnmarshal http_response string
  | AtStatus http_response string packing_response
  | AtReturn pack_outcome
  | Done pack_outcome

record pack_state =
  pc :: pack_pc
  trace :: "event list"
  deferred :: "event list"

definition pack_init :: pack_state where
  "pack_init = \<lparr>pc = AtMarshal, trace = [], deferred = []\<rparr>"

text \<open>One rule per outcome of each statement.\<close>

inductive pack_step ::
  "http_env \<Rightarrow> client \<Rightarrow> go_context \<Rightarrow> packing_request option \<Rightarrow> pack_state \<Rightarrow> pack_state \<Rightarrow> bool"
  for env c ctx request where
  marshal_fail: "pc s = AtMarshal \<Longrightarrow> marshal_request_ptr request = Inl e \<Longrightarrow>
    pack_step env c ctx request s (s\<lparr>pc := AtReturn (PackErr (ErrMarshal e))\<rparr>)"
| marshal_ok: "pc s = AtMarshal \<Longrightarrow> marshal_request_ptr request = Inr j \<Longrightarrow>
    pack_step env c ctx request s (s\<lparr>pc := AtNewRequest j\<rparr>)"
| new_request_fail: "pc s = AtNewRequest j \<Longrightarrow>
    NewRequestWithContext env ctx ''POST'' (pack_url c) (json_text env j) = Inl e \<Longrightarrow>
    pack_step env c ctx request s (s\<lparr>pc := AtReturn (PackErr (ErrCreateRequest e))\<rparr>)"
| new_request_ok: "pc s = AtNewRequest j \<Longrightarrow>
    NewRequestWithContext env ctx ''POST'' (pack_url c) (json_text env j) = Inr r \<Longrightarrow>
    pack_step env c ctx request s (s\<lparr>pc := AtDo (with_json_content_type r)\<rparr>)"
| do_nil: "pc s = AtDo r \<Longrightarrow> http_client c = None \<Longrightarrow>
    pack_step env c ctx request s (s\<lparr>pc := AtReturn (PackPanic nil_deref)\<rparr>)"
| do_fail: "pc s = AtDo r \<Longrightarrow> http_client c = Some hc \<Longrightarrow> round_trip env hc r = Inl e \<Longrightarrow>
    pack_step env c ctx request s (s\<lparr>pc := AtReturn (PackErr (ErrSend e)), trace := trace s @ [EvDo r]\<rparr>)"
| do_ok: "pc s = AtDo r \<Longrightarrow> http_client c = Some hc \<Longrightarrow> round_trip env hc r = Inr resp \<Longrightarrow>
    pack_step env c ctx request s (s\<lparr>pc := AtDefer resp, trace := trace s @ [EvDo r]\<rparr>)"
| defer_close: "pc s = AtDefer resp \<Longrightarrow>
    pack_step env c ctx request s (s\<lparr>pc := AtRead resp, deferred := EvCloseBody # deferred s\<rparr>)"
| read_fail: "pc s = AtRead resp \<Longrightarrow> resp_body resp = Inl e \<Longrightarrow>
    pack_step env c ctx request s (s\<lparr>pc := AtReturn (PackErr (ErrRead e)), trace := trace s @ [EvReadBody]\<rparr>)"
| read_ok: "pc s = AtRead resp \<Longrightarrow> resp_body resp = Inr body \<Longrightarrow>
    pack_step env c ctx request s (s\<lparr>pc := AtUnmarshal resp body, trace := trace s @ [EvReadBody]\<rparr>)"
| unmarshal_fail: "pc s = AtUnmarshal resp body \<Longrightarrow> unmarshal_body env body = Inl e \<Longrightarrow>
    pack_step env c ctx request s (s\<lparr>pc := AtReturn (PackErr (ErrParse e))\<rparr>)"
| unmarshal_ok: "pc s = AtUnmarshal resp body \<Longrightarrow> unmarshal_body env body = Inr r \<Longrightarrow>
    pack_step env c ctx request s (s\<lparr>pc := AtStatus resp body r\<rparr>)"
| status_ok: "pc s = AtStatus resp body r \<Longrightarrow> resp_status resp = StatusOK \<Longrightarrow>
    pack_step env c ctx request s (s\<lparr>pc := AtReturn (PackOk r)\<rparr>)"
| status_api_error: "pc s = AtStatus resp body r \<Longrightarrow> resp_status resp \<noteq> StatusOK \<Longrightarrow> error r \<noteq> [] \<Longrightarrow>
    pack_step env c ctx request s (s\<lparr>pc := AtReturn (PackErr (ErrAPI (resp_status resp) (error r)))\<rparr>)"
| status_error: "pc s = AtStatus resp body r \<Longrightarrow> resp_status resp \<noteq> StatusOK \<Longrightarrow> error r = [] \<Longrightarrow>
    pack_step env c ctx request s (s\<lparr>pc := AtReturn (PackErr (ErrStatus (resp_status resp) body))\<rparr>)"
| run_deferred: "pc s = AtReturn out \<Longrightarrow> deferred s = ev # d \<Longrightarrow>
    pack_step env c ctx request s (s\<lparr>trace := trace s @ [ev], deferred := d\<rparr>)"
| return: "pc s = AtReturn out \<Longrightarrow> deferred s = [] \<Longrightarrow>
    pack_step env c ctx request s (s\<lparr>pc := Done out\<rparr>)"

text \<open>The I/O done so far, at the points of \<open>Pack\<close> where it can stand.\<close>

fun sent_trace :: "event list \<Rightarrow> bool" where
  "sent_trace [EvDo r] = True"
| "sent_trace _ = False"

fun read_trace :: "event list \<Rightarrow> bool" where
  "read_trace [EvDo r, EvReadBody] = True"
| "read_trace _ = False"

fun final_trace :: "event list \<Rightarrow> bool" where
  "final_trace [] = True"
| "final_trace [EvDo r] = True"
| "final_trace [EvDo r, EvReadBody, EvCloseBody] = True"
| "final_trace _ = False"

text \<open>The assertion at each program point: what has been done and which deferred calls
  are pending.\<close>

fun pack_inv_at :: "pack_pc \<Rightarrow> event list \<Rightarrow> event list \<Rightarrow> bool" where
  "pack_inv_at AtMarshal tr d \<longleftrightarrow> tr = [] \<and> d = []"
| "pack_inv_at (AtNewRequest j) tr d \<longleftrightarrow> tr = [] \<and> d = []"
| "pack_inv_at (AtDo r) tr d \<longleftrightarrow> tr = [] \<and> d = []"
| "pack_inv_at (AtDefer resp) tr d \<longleftrightarrow> sent_trace tr \<and> d = []"
| "pack_inv_at (AtRead resp) tr d \<longleftrightarrow> sent_trace tr \<and> d = [EvCloseBody]"
| "pack_inv_at (AtUnmarshal resp body) tr d \<longleftrightarrow> read_trace tr \<and> d = [EvCloseBody]"
| "pack_inv_at (AtStatus resp body r) tr d \<longleftrightarrow> read_trace tr \<and> d = [EvCloseBody]"
| "pack_inv_at (AtReturn out) tr d \<longleftrightarrow> (final_trace tr \<and> d = []) \<or> (read_trace tr \<and> d = [EvCloseBody])"
| "pack_inv_at (Done out) tr d \<longleftrightarrow> final_trace tr \<and> d = []"

definition pack_inv :: "pack_state \<Rightarrow> bool" where
  "pack_inv s \<longleftrightarrow> pack_inv_at (pc s) (trace s) (deferred s)"

inductive_cases pack_step_DoneE: "pack_step env c ctx request \<lparr>pc = Done out, trace = tr, deferred = d\<rparr> t"

lemma pack_return_run:
  "pc s = AtReturn out \<Longrightarrow>
   (pack_step env c ctx request)\<^sup>*\<^sup>* s \<lparr>pc = Done out, trace = trace s @ deferred s, deferred = []\<rparr>"
proof (induction "deferred s" arbitrary: s)
  case Nil
  then have "pack_step env c ctx request s (s\<lparr>pc := Done out\<rparr>)" by (intro return) simp_all
  moreover have "s\<lparr>pc := Done out\<rparr> = \<lparr>pc = Done out, trace = trace s @ deferred s, deferred = []\<rparr>"
    using Nil by (cases s) simp
  ultimately show ?case by simp
next
  case (Cons ev d)
  let ?t = "s\<lparr>trace := trace s @ [ev], deferred := d\<rparr>"
  have "pack_step env c ctx request s ?t" using Cons.prems Cons.hyps(2) by (intro run_deferred) simp_all
  moreover have "(pack_step env c ctx request)\<^sup>*\<^sup>* ?t \<lparr>pc = Done out, trace = trace ?t @ deferred ?t, deferred = []\<rparr>"
    using Cons.hyps(1) [of ?t] Cons.prems by simp
  ultimately show ?case using Cons.hyps(2) by (auto intro: converse_rtranclp_into_rtranclp)
qed

lemma pack_prepare_run:
  "prepare_request env c ctx request = Inl e \<Longrightarrow>
     (pack_step env c ctx request)\<^sup>*\<^sup>* pack_init \<lparr>pc = AtReturn (PackErr e), trace = [], deferred = []\<rparr>"
  "prepare_request env c ctx request = Inr hr \<Longrightarrow>
     (pack_step env c ctx request)\<^sup>*\<^sup>* pack_init \<lparr>pc = AtDo hr, trace = [], deferred = []\<rparr>"
proof -
  assume prep: "prepare_request env c ctx request = Inl e"
  show "(pack_step env c ctx request)\<^sup>*\<^sup>* pack_init \<lparr>pc = AtReturn (PackErr e), trace = [], deferred = []\<rparr>"
  proof (cases "marshal_request_ptr request")
    case (Inl m)
    then have "pack_step env c ctx request pack_init \<lparr>pc = AtReturn (PackErr e), trace = [], deferred = []\<rparr>"
      using prep marshal_fail [of pack_init request m env c ctx]
      by (simp add: pack_init_def prepare_request_def)
    then show ?thesis by simp
  next
    case (Inr j)
    then obtain m where m: "NewRequestWithContext env ctx ''POST'' (pack_url c) (json_text env j) = Inl m"
      and e: "e = ErrCreateRequest m"
      using prep by (auto simp: prepare_request_def split: sum.splits)
    have "pack_step env c ctx request pack_init \<lparr>pc = AtNewRequest j, trace = [], deferred = []\<rparr>"
      using marshal_ok [of pack_init request j env c ctx] Inr by (simp add: pack_init_def)
    moreover have "pack_step env c ctx request \<lparr>pc = AtNewRequest j, trace = [], deferred = []\<rparr>
        \<lparr>pc = AtReturn (PackErr e), trace = [], deferred = []\<rparr>"
      using new_request_fail [of "\<lparr>pc = AtNewRequest j, trace = [], deferred = []\<rparr>" j env ctx c m request] m e
      by simp
    ultimately show ?thesis by (meson converse_rtranclp_into_rtranclp r_into_rtranclp)
  qed
next
  assume prep: "prepare_request env c ctx request = Inr hr"
  then obtain j r where j: "marshal_request_ptr request = Inr j"
    and r: "NewRequestWithContext env ctx ''POST'' (pack_url c) (json_text env j) = Inr r"
    and hr: "hr = with_json_content_type r"
    by (auto simp: prepare_request_def split: sum.splits)
  have "pack_step env c ctx request pack_init \<lparr>pc = AtNewRequest j, trace = [], deferred = []\<rparr>"
    using marshal_ok [of pack_init request j env c ctx] j by (simp add: pack_init_def)
  moreover have "pack_step env c ctx request \<lparr>pc = AtNewRequest j, trace = [], deferred = []\<rparr>
      \<lparr>pc = AtDo hr, trace = [], deferred = []\<rparr>"
    using new_request_ok [of "\<lparr>pc = AtNewRequest j, trace = [], deferred = []\<rparr>" j env ctx c r request] r hr
    by simp
  ultimately show "(pack_step env c ctx request)\<^sup>*\<^sup>* pack_init \<lparr>pc = AtDo hr, trace = [], deferred = []\<rparr>"
    by (meson converse_rtranclp_into_rtranclp r_into_rtranclp)
qed

lemma pack_read_run:
  "(pack_step env c ctx request)\<^sup>*\<^sup>* \<lparr>pc = AtRead resp, trace = tr, deferred = d\<rparr>
     \<lparr>pc = AtReturn (read_and_decode env resp), trace = tr @ [EvReadBody], deferred = d\<rparr>"
proof (cases "resp_body resp")
  case (Inl e)
  then show ?thesis
    using read_fail [of "\<lparr>pc = AtRead resp, trace = tr, deferred = d\<rparr>" resp e env c ctx request]
    by (simp add: read_and_decode_def)
next
  case (Inr body)
  let ?u = "\<lparr>pc = AtUnmarshal resp body, trace = tr @ [EvReadBody], deferred = d\<rparr>"
  have first: "pack_step env c ctx request \<lparr>pc = AtRead resp, trace = tr, deferred = d\<rparr> ?u"
    using read_ok [of "\<lparr>pc = AtRead resp, trace = tr, deferred = d\<rparr>" resp body env c ctx request] Inr
    by simp
  show ?thesis
  proof (cases "unmarshal_body env body")
    case (Inl e)
    then have "pack_step env c ctx request ?u
        \<lparr>pc = AtReturn (read_and_decode env resp), trace = tr @ [EvReadBody], deferred = d\<rparr>"
      using unmarshal_fail [of ?u resp body env e c ctx request] Inr
      by (simp add: read_and_decode_def)
    with first show ?thesis by (meson converse_rtranclp_into_rtranclp r_into_rtranclp)
  next
    case (Inr r)
    let ?v = "\<lparr>pc = AtStatus resp body r, trace = tr @ [EvReadBody], deferred = d\<rparr>"
    have second: "pack_step env c ctx request ?u ?v"
      using unmarshal_ok [of ?u resp body env r c ctx request] Inr by simp
    have "pack_step env c ctx request ?v
        \<lparr>pc = AtReturn (read_and_decode env resp), trace = tr @ [EvReadBody], deferred = d\<rparr>"
      using status_ok [of ?v resp body r env c ctx request]
        status_api_error [of ?v resp body r env c ctx request]
        status_error [of ?v resp body r env c ctx request]
        Inr \<open>resp_body resp = Inr body\<close>
      by (cases "resp_status resp = StatusOK"; cases "error r = []") (simp_all add: read_and_decode_def)
    with first second show ?thesis by (meson converse_rtranclp_into_rtranclp r_into_rtranclp)
  qed
qed

lemma pack_run:
  "(pack_step env c ctx request)\<^sup>*\<^sup>* pack_init
     \<lparr>pc = Done (fst (Pack env c ctx request)), trace = snd (Pack env c ctx request), deferred = []\<rparr>"
proof (cases "prepare_request env c ctx request")
  case (Inl e)
  then show ?thesis
    using pack_prepare_run(1) [OF Inl]
      pack_return_run [of "\<lparr>pc = AtReturn (PackErr e), trace = [], deferred = []\<rparr>" "PackErr e" env c ctx request]
    by (simp add: Pack_def)
next
  case (Inr hr)
  let ?d = "\<lparr>pc = AtDo hr, trace = [], deferred = []\<rparr>"
  have prep: "(pack_step env c ctx request)\<^sup>*\<^sup>* pack_init ?d" by (rule pack_prepare_run(2) [OF Inr])
  show ?thesis
  proof (cases "http_client c")
    case None
    let ?r = "\<lparr>pc = AtReturn (PackPanic nil_deref), trace = [], deferred = []\<rparr>"
    have "pack_step env c ctx request ?d ?r" using do_nil [of ?d hr c env ctx request] None by simp
    with prep have "(pack_step env c ctx request)\<^sup>*\<^sup>* pack_init ?r" by (rule rtranclp.rtrancl_into_rtrancl)
    then show ?thesis
      using pack_return_run [of ?r "PackPanic nil_deref" env c ctx request] Inr None
      by (simp add: Pack_def)
  next
    case (Some hc)
    show ?thesis
    proof (cases "round_trip env hc hr")
      case (Inl e)
      let ?r = "\<lparr>pc = AtReturn (PackErr (ErrSend e)), trace = [EvDo hr], deferred = []\<rparr>"
      have "pack_step env c ctx request ?d ?r" using do_fail [of ?d hr c hc env e ctx request] Some Inl by simp
      with prep have "(pack_step env c ctx request)\<^sup>*\<^sup>* pack_init ?r" by (rule rtranclp.rtrancl_into_rtrancl)
      then show ?thesis
        using pack_return_run [of ?r "PackErr (ErrSend e)" env c ctx request] Inr Some Inl
        by (simp add: Pack_def)
    next
      case (Inr resp)
      let ?f = "\<lparr>pc = AtDefer resp, trace = [EvDo hr], deferred = []\<rparr>"
      let ?g = "\<lparr>pc = AtRead resp, trace = [EvDo hr], deferred = [EvCloseBody]\<rparr>"
      let ?r = "\<lparr>pc = AtReturn (read_and_decode env resp), trace = [EvDo hr, EvReadBody],
                 deferred = [EvCloseBody]\<rparr>"
      have "pack_step env c ctx request ?d ?f" using do_ok [of ?d hr c hc env resp ctx request] Some Inr by simp
      moreover have "pack_step env c ctx request ?f ?g" using defer_close [of ?f resp env c ctx request] by simp
      moreover have "(pack_step env c ctx request)\<^sup>*\<^sup>* ?g ?r" using pack_read_run [of env c ctx request resp "[EvDo hr]" "[EvCloseBody]"] by simp
      moreover have "(pack_step env c ctx request)\<^sup>*\<^sup>* ?r
          \<lparr>pc = Done (read_and_decode env resp), trace = [EvDo hr, EvReadBody, EvCloseBody], deferred = []\<rparr>"
        using pack_return_run [of ?r "read_and_decode env resp" env c ctx request] by simp
      ultimately show ?thesis
        using prep \<open>prepare_request env c ctx request = Inr hr\<close> Some Inr
        by (simp add: Pack_def)
    qed
  qed
qed

lemma sent_trace_iff: "sent_trace tr \<longleftrightarrow> (\<exists>r. tr = [EvDo r])"
  by (cases tr rule: sent_trace.cases) auto

lemma read_trace_iff: "read_trace tr \<longleftrightarrow> (\<exists>r. tr = [EvDo r, EvReadBody])"
  by (cases tr rule: read_trace.cases) auto

lemma final_trace_iff:
  "final_trace tr \<longleftrightarrow> tr = [] \<or> (\<exists>r. tr = [EvDo r] \<or> tr = [EvDo r, EvReadBody, EvCloseBody])"
  by (cases tr rule: final_trace.cases) auto

lemmas trace_shape_iff = sent_trace_iff read_trace_iff final_trace_iff

lemma pack_step_inv: "pack_step env c ctx request s t \<Longrightarrow> pack_inv s \<Longrightarrow> pack_inv t"
  by (induction rule: pack_step.induct) (auto simp: pack_inv_def trace_shape_iff)

text \<open>C23: In every state reachable from the start of Pack, the I/O done and the pending
  deferred calls match the program point: nothing before Do, the deferred Close pending exactly
  between the defer statement and the return, the body read at most once and before the close,
  and no deferred call pending once Pack has returned.\<close>

theorem pack_reachable_inv:
  assumes "(pack_step env c ctx request)\<^sup>*\<^sup>* pack_init s"
  shows "pack_inv s"
  using assms
proof (induction rule: rtranclp_induct)
  case base
  show ?case by (simp add: pack_inv_def pack_init_def)
next
  case (step s t)
  from step.hyps(2) step.IH show ?case by (rule pack_step_inv)
qed

end
