(* ===== verification/Spec2Isabelle.thy ===== *)
theory Spec2Isabelle
  imports Readme PackSteps JsonString
begin

text \<open>
  \<^bold>\<open>A verification model of the Palletizer Go SDK.\<close>

  The repository is a thin client (\<open>src/client.go\<close>, package \<open>palletizer\<close>): Go structs
  that describe a carton-packing request and the server's answer, with JSON struct tags; a
  \<open>Client\<close> holding a base URL and an \<open>*http.Client\<close>; \<open>Client.Pack\<close>, which marshals
  a request, POSTs it to \<open><base>/api/v1/pack\<close>, reads and decodes the answer and turns the
  HTTP status into an error; two pallet presets; four unit conversions. \<open>src/client_test.go\<close>
  tests the constructor, \<open>Pack\<close> against a mock server, the presets and the conversions;
  \<open>src/unnamed/part_000\<close> is the README. The packing algorithm lives on the server and is
  not part of the repository.

  \<^bold>\<open>Theories.\<close>
  \<^item> \<open>Prelude\<close>: Go's \<open>int\<close> and \<open>uint32\<close> as \<open>64 word\<close> and \<open>32 word\<close>, slices as
    \<open>'a list option\<close> (\<open>None\<close> is a nil slice), \<open>sbind\<close> for the error-or-value chains
    of \<open>if err != nil { return }\<close>, and \<open>fmt\<close>'s \<open>%d\<close> (\<open>fmt_d\<close>).
  \<^item> \<open>Rounding\<close>: IEEE 754 binary64 rounding to nearest, ties to even
    (\<open>round64\<close>, subnormals included, executable by \<open>simp\<close> on literals through a
    binade search by halving), its error bound (relative \<open>2^-53\<close> plus absolute
    \<open>2^-1075\<close>), idempotence, closure of doubles under negation, and the overflow threshold
    \<open>float64_limit = 2^1024 - 2^970\<close> (the AFP's \<open>threshold\<close> for binary64).
  \<^item> \<open>GoFloat\<close>: \<open>float64\<close> as doubles (reals fixed by \<open>round64\<close>), two infinities and
    NaN, with multiplication, division, addition and comparison as Go computes them: the exact
    result rounded by \<open>round64\<close>, or an infinity at or beyond \<open>float64_limit\<close>; a constant
    of the source is the double nearest it (\<open>f64_const\<close>). The sign of zero is not
    modelled. \<open>f64_wf\<close> (a finite value is a double below the limit) is kept by every
    operation; multiplying and dividing back by a constant in \<open>[1, 1000]\<close> is exact up to two
    roundings.
  \<^item> \<open>Json\<close>: the struct-tag-driven part of \<open>encoding/json\<close> at the level of JSON values
    (\<open>jvalue\<close>): marshalling of each field kind (NaN and infinities are an
    \<open>UnsupportedValueError\<close>; a string is written coerced to valid UTF-8,
    \<open>marshal_string\<close>), and unmarshalling into an existing value (members in order,
    exact tag first then ASCII case-insensitive match, unknown keys skipped, \<open>null\<close> a no-op
    except on slices, type mismatches as \<open>UnmarshalTypeError\<close>, integers range-checked,
    array elements decoded into the old elements). Leaf and slice round trips.
  \<^item> \<open>JsonString\<close>: the byte level of JSON strings: \<open>json.Marshal\<close>'s
    \<open>appendString\<close> (HTML-safe escaping, short escapes, six-byte u-escapes for other control
    bytes, U+FFFD for bytes that start no valid UTF-8 sequence, escapes for U+2028 and U+2029)
    and \<open>json.Unmarshal\<close>'s \<open>unquoteBytes\<close> (all escapes, surrogate pairs, invalid
    UTF-8), over \<open>utf8.DecodeRune\<close> and \<open>EncodeRune\<close>. The round trip
    (\<open>json_string_roundtrip\<close>, by one lemma per piece the encoder writes) returns every
    string coerced to valid UTF-8, and valid strings unchanged. It justifies the value-level
    \<open>marshal_string\<close> of \<open>Json\<close> (\<open>marshal_string_bytes\<close>).
  \<^item> \<open>Request\<close> and \<open>Response\<close>: the structs of lines 79--182 as records, their zero
    values, their marshal and unmarshal functions, their well-formedness (every float a
    float64, every string valid UTF-8, since \<open>json.Marshal\<close> replaces the bytes of an invalid
    one), and their round trips (C10, C11), the marshal-failure characterisation (C12), key
    matching (C17, C18).
  \<^item> \<open>Units\<close>: \<open>StandardPallet\<close>, \<open>StandardPallet4048\<close>, \<open>InchesToMM\<close>,
    \<open>PoundsToGrams\<close>, \<open>MMToInches\<close>, \<open>GramsToPounds\<close> (lines 223--261) and the tests
    \<open>TestStandardPallet\<close> and \<open>TestConversions\<close>: round trips up to a relative error of
    \<open>2^-51\<close> (C19--C21) and the overflow bound (C22); and the computed value of the
    presets, whose 48-inch height differs from \<open>InchesToMM(48)\<close> by one ulp
    (\<open>StandardPallet_conversions\<close>).
  \<^item> \<open>Client\<close>: \<open>Client\<close>, \<open>New\<close>, \<open>NewWithEndpoint\<close>, \<open>NewWithHTTPClient\<close>, and
    \<open>Pack\<close> (lines 185--221) split as the code is: \<open>prepare_request\<close> (lines 186--195),
    the call of \<open>Do\<close>, and \<open>read_and_decode\<close> (lines 203--220). The environment
    \<open>http_env\<close> gives the byte-level JSON writer and scanner, \<open>net/url.Parse\<close>'s verdict
    and one HTTP round trip; every theorem quantifies over it, and the one Go-library
    contract used (\<open>honours_context\<close>: \<open>Do\<close> with a done context fails) is a
    hypothesis. \<open>Pack\<close> returns its outcome (response, error or panic) with its trace of
    I/O events, so that the single call, the read and the deferred \<open>Close\<close> are
    observable. Claims C1--C9, C14--C16 and C24 (the only panic is the nil client's).
  \<^item> \<open>Scenarios\<close>: \<open>TestNew\<close> and \<open>TestPack\<close> (client_test.go lines 12--119),
    \<open>TestPack\<close>'s fixtures and mock server, servers answering a fixed status and body, and a
    JSON codec that is \<open>encoding/json\<close> restricted to the exact texts Go writes for the
    values exchanged. They give the concrete runs at which the witnesses discharge the
    hypotheses of the properties.
  \<^item> \<open>PackSteps\<close>: \<open>Pack\<close> statement by statement, as an inductive step relation
    over a program counter, the I/O trace and the stack of deferred calls that
    \<open>defer resp.Body.Close()\<close> pushes and every return (or panic) runs. There is a run to
    the result of the function \<open>Pack\<close> (\<open>pack_run\<close>), and an assertion at every program
    point holds in all reachable states (C23, by rule induction).
  \<^item> \<open>Readme\<close>: the Go programs of the documentation (the package comment of
    \<open>client.go\<close> lines 5--30 and every code snippet of the README) as runs: the
    \<open>fmt.Printf\<close> and \<open>log\<close> calls they make, with format and arguments, and whether they
    return, exit through \<open>log.Fatal\<close> or panic. Snippets that build a struct are first
    type-checked by a model of Go's keyed composite literals for \<open>PackingRequest\<close> and of
    package-qualified type names. The README's error-handling branches (C25); the computed
    verdicts that its examples do not compile (\<open>readme_examples_do_not_compile\<close>) and that
    two of its unit-conversion comments are one ulp off (\<open>readme_unit_conversions_values\<close>).
  \<^item> \<open>Spec2Isabelle\<close> (this theory): the specification's contract of \<open>Pack\<close> in terms
    of its error classes and the refinement theorem (C13), and a closed witness for every
    property that has hypotheses, each applying the property at a concrete run.

  \<^bold>\<open>Plan.\<close> Modelled first, because it is the program's behaviour: \<open>Pack\<close> and its
  error flow, then the wire mapping, then the helpers and the tests, then IEEE rounding and
  the byte level of JSON strings. What would come next: the byte-level writer and scanner of
  whole JSON values on top of \<open>JsonString\<close> (objects, arrays, and Go's shortest-form
  rendering of a \<open>float64\<close>), which would replace the table codec of \<open>Scenarios\<close> and
  discharge the codec hypothesis of the environment; the merge semantics of duplicate keys;
  the range checks of the \<open>uint32\<close> field of \<open>MetricsResponse\<close>.

  \<^bold>\<open>What is not modelled.\<close> The byte-level JSON text of whole values (number
  formatting, the layout of objects and arrays, syntax errors) is the abstract pair
  \<open>json_text\<close> / \<open>json_parse\<close> of the environment; only strings are modelled at the
  byte level (\<open>JsonString\<close>), and the environment is not yet tied to them. JSON numbers
  are exact reals (decoding a \<open>float64\<close> rounds them), so the literal form that decides
  \<open>ParseInt\<close> is not seen: the model accepts \<open>1.0\<close> or \<open>1e2\<close> for an \<open>int\<close> field,
  which Go rejects, and no property depends on that decoding. Non-ASCII case folding of keys (the
  long s and dotless i), stale elements behind a truncated slice, the field path in
  \<open>UnmarshalTypeError\<close> messages, HTTP transport internals (connection pool, redirects,
  timeouts other than as a failing round trip; the 30-second deadline of the README's
  \<open>context.WithTimeout\<close> is not distinguished from an active context), the rendering of
  \<open>%.2f\<close> and the log package's timestamp prefix, Go's rule that a declared variable must be
  used (which the README's fragments, read as whole functions, would break), and the auxiliary endpoints' types beyond their
  decoders are not modelled. A nil \<open>*Client\<close> receiver is not modelled. No fuel or bounds
  are needed: every function is total by structural recursion, except \<open>log2_floor\<close>,
  whose recursion on \<open>n div 2\<close> the \<open>fun\<close> package proves terminating.
\<close>

datatype spec_outcome = SpecOk packing_response | SpecFail error_class

text \<open>The contract of \<open>Pack\<close> in the specification (section 4.1, steps 1--6, and the
  taxonomy of section 7), over what the world does: whether the request could be built, the
  transport's result, and what decoding a body gives.\<close>

fun spec_pack ::
  "bool \<Rightarrow> string + http_response \<Rightarrow> (string \<Rightarrow> json_error + packing_response) \<Rightarrow> spec_outcome" where
  "spec_pack False t dec = SpecFail TransportError"
| "spec_pack True (Inl e) dec = SpecFail TransportError"
| "spec_pack True (Inr resp) dec =
     (case resp_body resp of
        Inl e \<Rightarrow> SpecFail TransportError
      | Inr body \<Rightarrow>
          (case dec body of
             Inl e \<Rightarrow> SpecFail DecodeError
           | Inr r \<Rightarrow> (if resp_status resp = 200 then SpecOk r else SpecFail ApplicationError)))"

fun outcome_class :: "pack_outcome \<Rightarrow> spec_outcome option" where
  "outcome_class (PackOk r) = Some (SpecOk r)"
| "outcome_class (PackErr e) = Some (SpecFail (error_class_of e))"
| "outcome_class (PackPanic m) = None"

lemma prepare_request_error_class:
  "prepare_request env c ctx req = Inl e \<Longrightarrow> error_class_of e = TransportError"
  by (auto simp: prepare_request_def split: sum.splits)

text \<open>C13: Pack refines the specification's contract: with a non-nil HTTP client, the
  class of every outcome (success with the decoded response, or a transport, decode or
  application error) is the one the contract prescribes for what the world did.\<close>

theorem Pack_refines_spec:
  assumes "http_client c = Some hc"
  shows "outcome_class (fst (Pack env c ctx req)) =
    Some (spec_pack (\<not> isl (prepare_request env c ctx req))
      (case prepare_request env c ctx req of Inl e \<Rightarrow> Inl [] | Inr hr \<Rightarrow> round_trip env hc hr)
      (unmarshal_body env))"
proof (cases "prepare_request env c ctx req")
  case (Inl e)
  then show ?thesis by (simp add: Pack_def prepare_request_error_class)
next
  case (Inr hr)
  then show ?thesis
    using assms by (auto simp: Pack_def read_and_decode_def StatusOK_def
        split: sum.split)
qed

section \<open>Witnesses\<close>

text \<open>Each property applied at a concrete input where its hypotheses hold, mostly the
  run of TestPack and servers answering a fixed status and body.\<close>

theorem Pack_returns_decoded_response_witness:
  "prepare_request testpack_server (NewWithEndpoint testserver_url) (Some CtxActive) (Some testpack_request)
     = Inr testpack_http_request \<and>
   round_trip testpack_server \<lparr>timeout_seconds = 120\<rparr> testpack_http_request =
     Inr \<lparr>resp_status = 200, resp_body = Inr testpack_fixture_text\<rparr> \<and>
   unmarshal_body testpack_server testpack_fixture_text = Inr testpack_fixture \<and>
   Pack testpack_server (NewWithEndpoint testserver_url) (Some CtxActive) (Some testpack_request) =
     (PackOk testpack_fixture, [EvDo testpack_http_request, EvReadBody, EvCloseBody])"
proof -
  have rt: "round_trip testpack_server \<lparr>timeout_seconds = 120\<rparr> testpack_http_request =
     Inr \<lparr>resp_status = 200, resp_body = Inr testpack_fixture_text\<rparr>"
    by (simp add: testpack_server_def round_trip_answering)
  have d: "unmarshal_body testpack_server testpack_fixture_text = Inr testpack_fixture"
    by (simp add: unmarshal_body_def testpack_server_parse parse_testpack_fixture decode_testpack_fixture)
  have hc: "http_client (NewWithEndpoint testserver_url) = Some \<lparr>timeout_seconds = 120\<rparr>"
    by (simp add: NewWithEndpoint_def)
  show ?thesis
    using Pack_returns_decoded_response [OF prepare_testpack hc rt _ _ d] prepare_testpack rt d by simp
qed

lemma decode_api_error_body:
  "unmarshal_body (answering_env testpack_codec st b) api_error_body =
     Inr (zero_response\<lparr>error := ''carton too large''\<rparr>)"
  by (simp add: unmarshal_body_def parse_answering table_parse_def testpack_codec_def api_error_body_def
      testpack_request_text_def testpack_fixture_text_def wire_defs)

theorem Pack_api_error_witness:
  "round_trip (answering_env testpack_codec 400 api_error_body) \<lparr>timeout_seconds = 120\<rparr> testpack_http_request =
     Inr \<lparr>resp_status = 400, resp_body = Inr api_error_body\<rparr> \<and>
   unmarshal_body (answering_env testpack_codec 400 api_error_body) api_error_body =
     Inr (zero_response\<lparr>error := ''carton too large''\<rparr>) \<and>
   (\<exists>e. fst (Pack (answering_env testpack_codec 400 api_error_body) (NewWithEndpoint testserver_url)
      (Some CtxActive) (Some testpack_request)) = PackErr e \<and> error_class_of e = ApplicationError \<and>
    pack_error_message e = ''API error (status 400): carton too large'')"
proof -
  have hc: "http_client (NewWithEndpoint testserver_url) = Some \<lparr>timeout_seconds = 120\<rparr>"
    by (simp add: NewWithEndpoint_def)
  have m: "''API error (status '' @ fmt_d 400 @ ''): '' @ ''carton too large'' =
      ''API error (status 400): carton too large''"
    by (simp add: fmt_d_def dec_digits.simps digit_char_def decimal_digits_def)
  show ?thesis
    using Pack_api_error [OF prepare_answering [of 400 api_error_body] hc
        round_trip_answering [of testpack_codec 400 api_error_body] _ _
        decode_api_error_body [of 400 api_error_body]]
      round_trip_answering [of testpack_codec 400 api_error_body]
      decode_api_error_body [of 400 api_error_body] m by simp
qed

lemma decode_empty_object:
  "unmarshal_body (answering_env testpack_codec st b) ''{}'' = Inr zero_response"
  by (simp add: unmarshal_body_def parse_answering table_parse_def testpack_codec_def api_error_body_def
      testpack_request_text_def testpack_fixture_text_def wire_defs)

theorem Pack_status_error_witness:
  "unmarshal_body (answering_env testpack_codec 500 ''{}'') ''{}'' = Inr zero_response \<and>
   (\<exists>e. fst (Pack (answering_env testpack_codec 500 ''{}'') (NewWithEndpoint testserver_url)
      (Some CtxActive) (Some testpack_request)) = PackErr e \<and> error_class_of e = ApplicationError \<and>
    pack_error_message e = ''API returned status 500: {}'')"
proof -
  have hc: "http_client (NewWithEndpoint testserver_url) = Some \<lparr>timeout_seconds = 120\<rparr>"
    by (simp add: NewWithEndpoint_def)
  have m: "''API returned status '' @ fmt_d 500 @ '': '' @ ''{}'' = ''API returned status 500: {}''"
    by (simp add: fmt_d_def dec_digits.simps digit_char_def decimal_digits_def)
  show ?thesis
    using Pack_status_error [OF prepare_answering [of 500 "''{}''"] hc
        round_trip_answering [of testpack_codec 500 "''{}''"] _ _ decode_empty_object [of 500 "''{}''"]]
      decode_empty_object [of 500 "''{}''"] m by (simp add: zero_response_def)
qed

lemma parse_bad_gateway:
  "unmarshal_body (answering_env testpack_codec st b) bad_gateway_body =
     Inl (SyntaxError ''invalid character looking for beginning of value'')"
  by (simp add: unmarshal_body_def parse_answering table_parse_def testpack_codec_def api_error_body_def
      testpack_request_text_def testpack_fixture_text_def bad_gateway_body_def)

theorem Pack_decode_error_precedes_status_witness:
  "resp_status \<lparr>resp_status = 502, resp_body = Inr bad_gateway_body\<rparr> \<noteq> 200 \<and>
   Pack (answering_env testpack_codec 502 bad_gateway_body) (NewWithEndpoint testserver_url)
      (Some CtxActive) (Some testpack_request) =
   (PackErr (ErrParse (SyntaxError ''invalid character looking for beginning of value'')),
    [EvDo testpack_http_request, EvReadBody, EvCloseBody])"
proof -
  have hc: "http_client (NewWithEndpoint testserver_url) = Some \<lparr>timeout_seconds = 120\<rparr>"
    by (simp add: NewWithEndpoint_def)
  show ?thesis
    using Pack_decode_error_precedes_status [OF prepare_answering [of 502 bad_gateway_body] hc
        round_trip_answering [of testpack_codec 502 bad_gateway_body] _ parse_bad_gateway [of 502 bad_gateway_body]]
    by simp
qed

lemma url_testserver_ok:
  "url_parse_error testpack_server (pack_url (NewWithEndpoint testserver_url)) = None"
  by (simp add: testpack_server_def answering_env_def url_ctl_check_def pack_url_def NewWithEndpoint_def
      testserver_url_def)

lemma http_client_testpack: "http_client (NewWithEndpoint testserver_url) = Some \<lparr>timeout_seconds = 120\<rparr>"
  by (simp add: NewWithEndpoint_def)

theorem Pack_sends_single_post_witness:
  "marshal_request_ptr (Some testpack_request) = Inr (projr (marshal_request testpack_request)) \<and>
   json_text testpack_server (projr (marshal_request testpack_request)) = testpack_request_text \<and>
   (\<exists>out rest. Pack testpack_server (NewWithEndpoint testserver_url) (Some CtxActive) (Some testpack_request) =
     (out, EvDo \<lparr>req_method = ''POST'', req_url = testserver_url @ ''/api/v1/pack'',
        req_header = [''Content-Type'' \<mapsto> [''application/json'']], req_body = testpack_request_text,
        req_ctx = CtxActive\<rparr> # rest) \<and> (\<forall>r. EvDo r \<notin> set rest))"
proof -
  have m: "marshal_request_ptr (Some testpack_request) = Inr (projr (marshal_request testpack_request))"
    using marshal_testpack_request by (simp add: marshal_request_ptr_def)
  have t: "json_text testpack_server (projr (marshal_request testpack_request)) = testpack_request_text"
    by (simp add: testpack_server_def answering_env_def text_testpack_request)
  show ?thesis
    using Pack_sends_single_post [OF m refl url_testserver_ok http_client_testpack] m t
    by (simp add: NewWithEndpoint_def)
qed

theorem Pack_trace_shapes_witness:
  "snd (Pack testpack_server (NewWithEndpoint testserver_url) (Some CtxActive) (Some testpack_request)) =
     [EvDo testpack_http_request, EvReadBody, EvCloseBody] \<and>
   (\<exists>r. snd (Pack testpack_server (NewWithEndpoint testserver_url) (Some CtxActive) (Some testpack_request))
     \<in> {[], [EvDo r], [EvDo r, EvReadBody, EvCloseBody]})"
  using Pack_trace_shapes [of testpack_server "NewWithEndpoint testserver_url" "Some CtxActive"
      "Some testpack_request"] run_testpack by simp

theorem Pack_closes_body_iff_response_witness:
  "EvCloseBody \<in> set (snd (Pack testpack_server (NewWithEndpoint testserver_url) (Some CtxActive)
      (Some testpack_request))) \<and>
   round_trip testpack_server \<lparr>timeout_seconds = 120\<rparr> testpack_http_request =
     Inr \<lparr>resp_status = 200, resp_body = Inr testpack_fixture_text\<rparr>"
proof -
  have rt: "round_trip testpack_server \<lparr>timeout_seconds = 120\<rparr> testpack_http_request =
     Inr \<lparr>resp_status = 200, resp_body = Inr testpack_fixture_text\<rparr>"
    by (simp add: testpack_server_def round_trip_answering)
  show ?thesis
    using Pack_closes_body_iff_response [of testpack_server "NewWithEndpoint testserver_url"
        "Some CtxActive" "Some testpack_request"] prepare_testpack http_client_testpack rt by auto
qed

lemma ctx_error_done: "s \<noteq> CtxActive \<Longrightarrow> \<exists>e. ctx_error s = Some e"
  by (cases s) auto

lemma honours_context_answering: "honours_context (answering_env tbl st b)"
  by (auto simp: honours_context_def answering_env_def dest!: ctx_error_done)

theorem Pack_done_context_transport_error_witness:
  "honours_context testpack_server \<and>
   (\<exists>e tr. Pack testpack_server (NewWithEndpoint testserver_url) (Some CtxCanceled) (Some testpack_request) =
     (PackErr e, tr) \<and> error_class_of e = TransportError \<and> EvReadBody \<notin> set tr)"
proof -
  have h: "honours_context testpack_server"
    by (simp add: testpack_server_def honours_context_answering)
  show ?thesis
    using Pack_done_context_transport_error [OF h refl, of CtxCanceled "NewWithEndpoint testserver_url"
        "Some testpack_request"] h http_client_testpack by simp
qed

theorem Pack_marshal_failure_witness:
  "\<not> request_finite nan_request \<and>
   (\<exists>e. Pack testpack_server (NewWithEndpoint testserver_url) (Some CtxActive) (Some nan_request) =
     (PackErr (ErrMarshal e), []))"
proof -
  have n: "\<not> request_finite nan_request"
    by (simp add: request_finite_def nan_request_def)
  show ?thesis using Pack_marshal_failure [OF n] n by simp
qed

theorem Pack_nil_http_client_panics_witness:
  "prepare_request testpack_server (NewWithHTTPClient None) (Some CtxActive) (Some testpack_request) =
     Inr (testpack_http_request\<lparr>req_url := defaultAPIURL @ ''/api/v1/pack''\<rparr>) \<and>
   Pack testpack_server (NewWithHTTPClient None) (Some CtxActive) (Some testpack_request) =
     (PackPanic nil_deref, [])"
proof -
  have u: "url_parse_error testpack_server (pack_url (NewWithHTTPClient None)) = None"
    by (simp add: testpack_server_def answering_env_def url_ctl_check_def pack_url_def
        NewWithHTTPClient_def defaultAPIURL_def)
  have p: "prepare_request testpack_server (NewWithHTTPClient None) (Some CtxActive) (Some testpack_request) =
     Inr (testpack_http_request\<lparr>req_url := defaultAPIURL @ ''/api/v1/pack''\<rparr>)"
    using marshal_testpack_request u
    by (simp add: prepare_request_Inr marshal_request_ptr_def testpack_http_request_def pack_url_def
        NewWithHTTPClient_def testpack_server_def answering_env_def text_testpack_request)
  show ?thesis using Pack_nil_http_client_panics [OF p] p by simp
qed

lemma parse_null:
  "unmarshal_body (answering_env testpack_codec st b) ''null'' = Inr zero_response"
  by (simp add: unmarshal_body_def parse_answering table_parse_def testpack_codec_def api_error_body_def
      testpack_request_text_def testpack_fixture_text_def unmarshal_response_def unmarshal_struct_def)

theorem Pack_null_body_zero_response_witness:
  "json_parse (answering_env testpack_codec 200 ''null'') ''null'' = Inr JNull \<and>
   fst (Pack (answering_env testpack_codec 200 ''null'') (NewWithEndpoint testserver_url) (Some CtxActive)
     (Some testpack_request)) = PackOk zero_response"
proof -
  have j: "json_parse (answering_env testpack_codec 200 ''null'') ''null'' = Inr JNull"
    by (simp add: parse_answering table_parse_def testpack_codec_def api_error_body_def
      testpack_request_text_def testpack_fixture_text_def)
  show ?thesis
    using Pack_null_body_zero_response [OF prepare_answering [of 200 "''null''"] http_client_testpack
        round_trip_answering [of testpack_codec 200 "''null''"] _ _ j] j by simp
qed

theorem Pack_nil_request_sends_null_witness:
  "\<exists>hr. prepare_request testpack_server (NewWithEndpoint testserver_url) (Some CtxActive) None = Inr hr \<and>
     req_body hr = ''null''"
proof -
  have t: "json_text testpack_server JNull = ''null''"
    by (simp add: testpack_server_def answering_env_def table_text_def testpack_codec_def wire_defs
        testpack_request_def testpack_fixture_def StandardPallet_def)
  show ?thesis using Pack_nil_request_sends_null [OF refl url_testserver_ok] t by simp
qed

theorem Pack_refines_spec_witness:
  "outcome_class (fst (Pack testpack_server (NewWithEndpoint testserver_url) (Some CtxActive)
      (Some testpack_request))) = Some (SpecOk testpack_fixture)"
proof -
  have rt: "round_trip testpack_server \<lparr>timeout_seconds = 120\<rparr> testpack_http_request =
     Inr \<lparr>resp_status = 200, resp_body = Inr testpack_fixture_text\<rparr>"
    by (simp add: testpack_server_def round_trip_answering)
  have d: "unmarshal_body testpack_server testpack_fixture_text = Inr testpack_fixture"
    by (simp add: unmarshal_body_def testpack_server_parse parse_testpack_fixture decode_testpack_fixture)
  show ?thesis
    using Pack_refines_spec [OF http_client_testpack, of testpack_server "Some CtxActive" "Some testpack_request"]
      prepare_testpack rt d by simp
qed

lemma testpack_request_wf: "request_wf testpack_request"
  by (simp add: request_wf_def testpack_request_def slice_all_def carton_wf_def constraints_wf_def
      StandardPallet_def f64_lits)

theorem request_roundtrip_witness:
  "request_wf testpack_request \<and>
   unmarshal_request (projr (marshal_request testpack_request)) zero_request = Inr testpack_request"
  using request_roundtrip [OF testpack_request_wf marshal_testpack_request] testpack_request_wf by simp

theorem response_roundtrip_witness:
  "response_wf testpack_fixture \<and>
   unmarshal_response (projr (marshal_response testpack_fixture)) zero_response = Inr testpack_fixture"
proof -
  have w: "response_wf testpack_fixture"
    by (simp add: response_wf_def testpack_fixture_def pallet_wf_def placed_wf_def point_wf_def
        dimensions_wf_def f64_lits)
  have e: "error testpack_fixture = []" by (simp add: testpack_fixture_def)
  show ?thesis using response_roundtrip [OF w marshal_testpack_fixture, of zero_response] w e
    by (simp add: zero_response_def testpack_fixture_def)
qed

theorem marshal_request_fails_iff_not_finite_witness:
  "(\<exists>e. marshal_request nan_request = Inl e) \<and> \<not> (\<exists>e. marshal_request testpack_request = Inl e)"
proof -
  have "\<not> request_finite nan_request" by (simp add: request_finite_def nan_request_def)
  moreover have "request_finite testpack_request"
    by (simp add: request_finite_def testpack_request_def slice_all_def carton_finite_def StandardPallet_def
        f64_lits)
  ultimately show ?thesis
    using marshal_request_fails_iff_not_finite [of nan_request]
      marshal_request_fails_iff_not_finite [of testpack_request] by simp
qed

theorem response_key_case_insensitive_witness:
  "fold_name ''Error'' = fold_name ''error'' \<and>
   unmarshal_response (JObj [(''Error'', JStr ''carton too large'')]) zero_response =
     Inr (zero_response\<lparr>error := ''carton too large''\<rparr>)"
proof -
  have f: "fold_name ''Error'' = fold_name ''error''" by code_simp
  show ?thesis using response_key_case_insensitive [OF f] f by simp
qed


lemma InchesToMM_10: "InchesToMM (Fin 10) = Fin 254"
  by (simp add: InchesToMM_def f64_round_def float64_limit_def round64_eval)

lemma PoundsToGrams_10: "PoundsToGrams (Fin 10) = f64_const 4535.92"
  by (simp add: PoundsToGrams_def f64_round_def float64_limit_def round64_eval)

lemma round64_254: "round64 25.4 = 3574732204225331 / 140737488355328"
  by (simp add: round64_eval)

theorem MMToInches_InchesToMM_witness:
  "InchesToMM (Fin 10) = Fin 254 \<and>
   (\<exists>b. MMToInches (Fin 254) = Fin b \<and> \<bar>b - 10\<bar> \<le> 10 / 2 ^ 51 + 1 / 2 ^ 1064)"
  using MMToInches_InchesToMM [OF InchesToMM_10] InchesToMM_10 by simp

theorem InchesToMM_MMToInches_witness:
  "\<bar>254\<bar> < float64_limit / 2 \<and>
   (\<exists>b. InchesToMM (MMToInches (Fin 254)) = Fin b \<and> \<bar>b - 254\<bar> \<le> 254 / 2 ^ 51 + 1 / 2 ^ 1064)"
proof -
  have "\<bar>254\<bar> < float64_limit / 2" by (simp add: float64_limit_def)
  with InchesToMM_MMToInches [OF this] show ?thesis by simp
qed

theorem GramsToPounds_PoundsToGrams_witness:
  "PoundsToGrams (Fin 10) = f64_const 4535.92 \<and>
   (\<exists>b. GramsToPounds (f64_const 4535.92) = Fin b \<and> \<bar>b - 10\<bar> \<le> 10 / 2 ^ 51 + 1 / 2 ^ 1064) \<and>
   (\<exists>b. PoundsToGrams (GramsToPounds (Fin 1500)) = Fin b \<and> \<bar>b - 1500\<bar> \<le> 1500 / 2 ^ 51 + 1 / 2 ^ 1064)"
proof -
  have h: "PoundsToGrams (Fin 10) = Fin (round64 4535.92)"
    using PoundsToGrams_10 by (simp add: f64_lits)
  have z: "\<bar>1500\<bar> < float64_limit / 2" by (simp add: float64_limit_def)
  show ?thesis using GramsToPounds_PoundsToGrams [OF h z] PoundsToGrams_10 by (simp add: f64_lits)
qed

theorem InchesToMM_finite_iff_witness:
  "f64_finite (InchesToMM (Fin 10)) \<and> \<not> f64_finite (InchesToMM (Fin (2 ^ 1020)))"
  using InchesToMM_finite_iff [of 10, unfolded round64_254]
    InchesToMM_finite_iff [of "2 ^ 1020", unfolded round64_254]
  by (simp add: float64_limit_def)

theorem pack_reachable_inv_witness:
  "(pack_step testpack_server (NewWithEndpoint testserver_url) (Some CtxActive) (Some testpack_request))\<^sup>*\<^sup>*
     pack_init \<lparr>pc = Done (PackOk testpack_fixture),
       trace = [EvDo testpack_http_request, EvReadBody, EvCloseBody], deferred = []\<rparr> \<and>
   pack_inv \<lparr>pc = Done (PackOk testpack_fixture),
       trace = [EvDo testpack_http_request, EvReadBody, EvCloseBody], deferred = []\<rparr>"
proof -
  have run: "(pack_step testpack_server (NewWithEndpoint testserver_url) (Some CtxActive) (Some testpack_request))\<^sup>*\<^sup>*
     pack_init \<lparr>pc = Done (PackOk testpack_fixture),
       trace = [EvDo testpack_http_request, EvReadBody, EvCloseBody], deferred = []\<rparr>"
    using pack_run [of testpack_server "NewWithEndpoint testserver_url" "Some CtxActive" "Some testpack_request"]
    by (simp add: run_testpack)
  then show ?thesis using pack_reachable_inv [OF run] by simp
qed

end
